theory Spec2Isabelle
  imports Complex_Main "HOL-Library.Code_Target_Numeral"
begin

section \<open>Host lifecycle of pkg/minikube/cluster/cluster.go\<close>

text \<open>
  A shallow embedding of the host lifecycle controller. Every call that leaves the
  package (host store, driver, remote shell, command runner, lock, logging) appends an
  event to a trace, and its answer is read from a \<open>world\<close> record whose fields take
  the trace so far as an argument: an external component may answer the same question
  differently at different moments of one invocation. A Go panic (nil dereference, index
  out of range) is a result of its own, distinct from every error value. A log record
  or a user notification is an event that carries its format string, written without
  the quote characters of the source text; the formatted arguments are left out.
\<close>

subsection \<open>Errors\<close>

text \<open>libmachine/state: the states a driver reports, and their string table.\<close>

datatype state = None_state | Running | Paused | Saved | Stopped | Stopping | Starting
  | Error_state | Timeout

fun State_String :: "state \<Rightarrow> string" where
  "State_String None_state = ''''"
| "State_String Running = ''Running''"
| "State_String Paused = ''Paused''"
| "State_String Saved = ''Saved''"
| "State_String Stopped = ''Stopped''"
| "State_String Stopping = ''Stopping''"
| "State_String Starting = ''Starting''"
| "State_String Error_state = ''Error''"
| "State_String Timeout = ''Timeout''"

text \<open>
  Error values: \<open>Err\<close> is an error made by \<open>errors.New\<close>, \<open>errors.Errorf\<close>,
  \<open>fmt.Errorf\<close> or by a component outside the package; \<open>Wrapped e msg\<close> is
  \<open>errors.Wrap(e, msg)\<close>; the other three are the typed errors the package builds or
  inspects.
\<close>

datatype error = Err string
  | Wrapped error string
  | RetriableError error
  | ErrHostDoesNotExist string
  | ErrHostAlreadyInState string state

text \<open>\<open>errors.Wrap\<close> of the nil error is the nil error.\<close>

fun errors_Wrap :: "error option \<Rightarrow> string \<Rightarrow> error option" where
  "errors_Wrap None msg = None"
| "errors_Wrap (Some e) msg = Some (Wrapped e msg)"

subsection \<open>Traces and results\<close>

datatype event =
    glog_Infof string
  | glog_Warningf string
  | glog_Errorf string
  | out_T string
  | out_WarningT string
  | mutex_Acquire string int
  | Releaser_Release
  | api_Exists_call string
  | api_Load_call string
  | api_NewHost_call string
  | api_Create_call string
  | api_Save_call string
  | api_Remove_call string
  | Driver_GetState_call
  | Driver_Start_call
  | Driver_Remove_call
  | Driver_GetIP_call
  | Host_Stop_call "error option"
  | Host_ConfigureAuth_call
  | RunSSHCommand_call string
  | NewSSHClient_call
  | RunCmd_call "string list" "error option"
  | DetectProvisioner_call
  | Provision_call
  | GetOsReleaseInfo_call
  | exec_Command "string list"
  | ReadFile_call string
  | NewOsRelease_call
  | gopsutil_call string
  | registry_Driver_call string
  | json_Marshal_call
  | time_Sleep int
  | net_InterfaceByName_call string
  | Interface_Addrs_call

datatype 'a res = Ret 'a | Panic string

type_synonym 'a go = "event list \<Rightarrow> 'a res \<times> event list"

definition ret :: "'a \<Rightarrow> 'a go" where
  "ret a = (\<lambda>tr. (Ret a, tr))"

definition panic :: "string \<Rightarrow> 'a go" where
  "panic p = (\<lambda>tr. (Panic p, tr))"

definition andThen :: "'a go \<Rightarrow> ('a \<Rightarrow> 'b go) \<Rightarrow> 'b go" where
  "andThen m f = (\<lambda>tr. case m tr of
      (Ret a, tr') \<Rightarrow> f a tr'
    | (Panic p, tr') \<Rightarrow> (Panic p, tr'))"

definition emit :: "event \<Rightarrow> unit go" where
  "emit e = (\<lambda>tr. (Ret (), tr @ [e]))"

text \<open>An external call: the answer depends on the trace so far; the call is recorded.\<close>

definition ask :: "event \<Rightarrow> (event list \<Rightarrow> 'a) \<Rightarrow> 'a go" where
  "ask e f = (\<lambda>tr. (Ret (f tr), tr @ [e]))"

text \<open>Reading the clock leaves no event.\<close>

text \<open>The same, with the answer written into the event.\<close>

definition askR :: "('a \<Rightarrow> event) \<Rightarrow> (event list \<Rightarrow> 'a) \<Rightarrow> 'a go" where
  "askR ev f = (\<lambda>tr. (Ret (f tr), tr @ [ev (f tr)]))"

text \<open>Dereferencing a pointer, or calling a method of an interface value: nil panics.\<close>

definition deref :: "'a option \<Rightarrow> 'a go" where
  "deref p = (case p of None \<Rightarrow> panic ''nil pointer dereference'' | Some x \<Rightarrow> ret x)"

definition peek :: "(event list \<Rightarrow> 'a) \<Rightarrow> 'a go" where
  "peek f = (\<lambda>tr. (Ret (f tr), tr))"

text \<open>\<open>defer\<close>: the deferred events are emitted on every exit, a panic included.\<close>

definition deferred :: "event list \<Rightarrow> 'a go \<Rightarrow> 'a go" where
  "deferred es m = (\<lambda>tr. case m tr of (r, tr') \<Rightarrow> (r, tr' @ es))"

subsection \<open>Strings, strconv, fmt\<close>

text \<open>
  Strings are byte lists. \<open>strings.TrimSpace\<close> is modelled on the ASCII white space
  (\<open>\t \n \v \f \r\<close> and the blank); bytes from 0x80 on are kept as they are.
\<close>

definition isSpace :: "char \<Rightarrow> bool" where
  "isSpace c = (of_char c \<in> {9::nat, 10, 11, 12, 13, 32})"

definition strings_TrimSpace :: "string \<Rightarrow> string" where
  "strings_TrimSpace s = rev (dropWhile isSpace (rev (dropWhile isSpace s)))"

text \<open>\<open>strings.Split(s, sep)\<close> for a one-byte separator: never the empty list.\<close>

fun strings_Split :: "string \<Rightarrow> char \<Rightarrow> string list" where
  "strings_Split [] sep = [[]]"
| "strings_Split (c # cs) sep =
     (if c = sep then [] # strings_Split cs sep
      else (case strings_Split cs sep of
              [] \<Rightarrow> [[c]]
            | p # ps \<Rightarrow> (c # p) # ps))"

definition isDigit :: "char \<Rightarrow> bool" where
  "isDigit c = (48 \<le> (of_char c :: nat) \<and> (of_char c :: nat) \<le> 57)"

text \<open>
  \<open>strconv.ParseUint(s, 10, 64)\<close>, byte by byte: the first byte that is no digit is
  a syntax error, the first value beyond 64 bits a range error.
\<close>

datatype numError = ErrSyntax | ErrRange

fun ParseUint_loop :: "nat \<Rightarrow> string \<Rightarrow> numError + nat" where
  "ParseUint_loop n [] = Inr n"
| "ParseUint_loop n (c # cs) =
     (if \<not> isDigit c then Inl ErrSyntax
      else let n1 = n * 10 + (of_char c - 48)
           in if n1 \<ge> 2 ^ 64 then Inl ErrRange else ParseUint_loop n1 cs)"

definition strconv_ParseUint :: "string \<Rightarrow> numError + nat" where
  "strconv_ParseUint s = (if s = [] then Inl ErrSyntax else ParseUint_loop 0 s)"

text \<open>\<open>strconv.ParseInt(s, 10, 64)\<close>: an optional sign, then the digits, within int64.\<close>

definition strconv_ParseInt :: "string \<Rightarrow> numError + int" where
  "strconv_ParseInt s =
     (if s = [] then Inl ErrSyntax
      else let neg = (hd s = CHR ''-'');
               s' = (if hd s = CHR ''+'' \<or> hd s = CHR ''-'' then tl s else s)
           in case strconv_ParseUint s' of
                Inl e \<Rightarrow> Inl e
              | Inr un \<Rightarrow>
                  if \<not> neg \<and> un \<ge> 2 ^ 63 then Inl ErrRange
                  else if neg \<and> un > 2 ^ 63 then Inl ErrRange
                  else Inr (if neg then - int un else int un))"

fun numError_error :: "numError \<Rightarrow> error" where
  "numError_error ErrSyntax = Err ''strconv.ParseInt: invalid syntax''"
| "numError_error ErrRange = Err ''strconv.ParseInt: value out of range''"

text \<open>\<open>%d\<close> of \<open>fmt.Sprintf\<close>.\<close>

function showNat :: "nat \<Rightarrow> string" where
  "showNat n = (if n < 10 then [''0123456789'' ! n]
                else showNat (n div 10) @ [''0123456789'' ! (n mod 10)])"
  by pat_completeness auto
termination
  by (relation "measure id") auto

definition showInt :: "int \<Rightarrow> string" where
  "showInt i = (if i < 0 then CHR ''-'' # showNat (nat (- i)) else showNat (nat i))"

subsection \<open>Data model\<close>

text \<open>
  \<open>host.Host\<close> of libmachine, with the fields the package reads or writes. A pointer
  that can be nil is an option. The driver behind the \<open>Driver\<close> interface is known by
  what \<open>DriverName()\<close> answers and by an identity.
\<close>

record driver =
  drv_DriverName :: string
  drv_id :: nat

record engine_Options =
  Env :: "string list"
  InsecureRegistry :: "string list"
  RegistryMirror :: "string list"
  ArbitraryFlags :: "string list"
  InstallURL :: string

record auth_Options =
  CertDir :: string
  StorePath :: string

record host_Options =
  EngineOptions :: "engine_Options option"
  AuthOptions :: "auth_Options option"
  SwarmOptions :: "unit option"

record host =
  h_Name :: string
  h_DriverName :: string
  h_RawDriver :: string
  h_Driver :: "driver option"
  h_HostOptions :: "host_Options option"

record MachineConfig =
  cfg_Name :: string
  cfg_VMDriver :: string
  cfg_DockerEnv :: "string list"
  cfg_InsecureRegistry :: "string list"
  cfg_RegistryMirror :: "string list"
  cfg_DockerOpt :: "string list"

text \<open>The runners of package command, as \<open>commandRunner\<close> chooses them.\<close>

datatype runner = FakeCommandRunner | ExecRunner | KICRunner string string | SSHRunner

text \<open>
  \<open>net.IP\<close> is a byte slice: \<open>None\<close> is the nil slice. An address of an interface
  is a \<open>*net.IPNet\<close> or a value of another type behind \<open>net.Addr\<close>.
\<close>

type_synonym IP = "nat list option"

datatype addr = IPNet IP | IPAddr IP

record hostInfo =
  Memory :: int
  CPUs :: int
  DiskSize :: int

subsection \<open>The world outside the package\<close>

text \<open>
  Constants and pure functions of the sibling packages (driver, constants, vmpath,
  localpath, lock, oci) and of the libraries, which are not part of this source file:
  they are parameters of the model.
\<close>

record pkgs =
  driver_Mock :: string
  driver_HyperV :: string
  driver_KVM2 :: string
  driver_VirtualBox :: string
  driver_HyperKit :: string
  driver_VMware :: string
  driver_VMwareFusion :: string
  driver_Docker :: string
  driver_BareMetal :: "string \<Rightarrow> bool"
  driver_IsKIC :: "string \<Rightarrow> bool"
  constants_DefaultMachineName :: string
  constants_DefaultServiceCIDR :: string
  drivers_DefaultEngineInstallURL :: string
  localpath_MiniPath :: string
  lock_PathMutexSpec :: "string \<Rightarrow> string"
  filepath_Join :: "string list \<Rightarrow> string"
  path_Join :: "string list \<Rightarrow> string"
  vmpath_GuestAddonsDir :: string
  vmpath_GuestManifestsDir :: string
  vmpath_GuestEphemeralDir :: string
  vmpath_GuestPersistentDir :: string
  vmpath_GuestCertsDir :: string
  oci_Docker :: string
  driver_VBoxManagePath :: string
  net_ParseIP :: "string \<Rightarrow> IP"

text \<open>The host store (\<open>libmachine.API\<close>).\<close>

record store =
  api_Exists :: "event list \<Rightarrow> string \<Rightarrow> bool \<times> error option"
  api_Load :: "event list \<Rightarrow> string \<Rightarrow> host option \<times> error option"
  api_NewHost :: "event list \<Rightarrow> string \<Rightarrow> string \<Rightarrow> host option \<times> error option"
  api_Create :: "event list \<Rightarrow> host \<Rightarrow> error option"
  api_Save :: "event list \<Rightarrow> host \<Rightarrow> error option"
  api_Remove :: "event list \<Rightarrow> string \<Rightarrow> error option"

text \<open>The methods of a loaded host and of its driver.\<close>

record backend =
  Driver_GetState :: "event list \<Rightarrow> driver \<Rightarrow> state \<times> error option"
  Driver_Start :: "event list \<Rightarrow> driver \<Rightarrow> error option"
  Driver_Remove :: "event list \<Rightarrow> driver \<Rightarrow> error option"
  Driver_GetIP :: "event list \<Rightarrow> driver \<Rightarrow> string \<times> error option"
  Host_Stop :: "event list \<Rightarrow> host \<Rightarrow> error option"
  Host_ConfigureAuth :: "event list \<Rightarrow> host \<Rightarrow> error option"
  RunSSHCommand :: "event list \<Rightarrow> host \<Rightarrow> string \<Rightarrow> string \<times> error option"

text \<open>The local machine: clock, lock, processes, files, provisioner, network.\<close>

record system =
  time_Now :: "event list \<Rightarrow> int"
  mutex_Acquire_result :: "event list \<Rightarrow> string \<Rightarrow> int \<Rightarrow> error option"
  sshutil_NewSSHClient :: "event list \<Rightarrow> driver \<Rightarrow> error option"
  Runner_RunCmd :: "event list \<Rightarrow> runner \<Rightarrow> string list \<Rightarrow> error option"
  provision_DetectProvisioner :: "event list \<Rightarrow> driver option \<Rightarrow> error option"
  Provisioner_Provision :: "event list \<Rightarrow> host_Options \<Rightarrow> error option"
  Provisioner_GetOsReleaseInfo :: "event list \<Rightarrow> error option"
  exec_Run :: "event list \<Rightarrow> string list \<Rightarrow> string \<times> error option"
  ioutil_ReadFile :: "event list \<Rightarrow> string \<Rightarrow> string \<times> error option"
  provision_NewOsRelease :: "event list \<Rightarrow> string \<Rightarrow> error option"
  gopsutil_Info :: "event list \<Rightarrow> string \<Rightarrow> nat \<times> error option"
  registry_Driver_Empty :: "event list \<Rightarrow> string \<Rightarrow> bool"
  json_Marshal :: "event list \<Rightarrow> MachineConfig \<Rightarrow> string \<times> error option"
  net_InterfaceByName :: "event list \<Rightarrow> string \<Rightarrow> nat option \<times> error option"
  Interface_Addrs :: "event list \<Rightarrow> nat \<Rightarrow> addr list \<times> error option"
  viper_MachineProfile :: string
  viper_ShowDriverDeprecationNotification :: bool

record world =
  P :: pkgs
  A :: store
  B :: backend
  S :: system

subsection \<open>Clock synchronizer\<close>

text \<open>
  Instants are nanoseconds since the epoch and durations are nanoseconds.
  \<open>Time.Sub\<close> saturates at the bounds of int64. \<open>Duration.Seconds\<close> is the exact
  quotient: the source compares float64 values, and no whole number of nanoseconds lies
  between 2.1 and the float64 nearest to it, so the comparison below decides as the
  source's does.
\<close>

definition time_Unix :: "int \<Rightarrow> int \<Rightarrow> int" where
  "time_Unix secs nsecs = secs * 1000000000 + nsecs"

definition Time_Sub :: "int \<Rightarrow> int \<Rightarrow> int" where
  "Time_Sub t u = max (- (2 ^ 63)) (min (2 ^ 63 - 1) (t - u))"

definition Time_Unix :: "int \<Rightarrow> int" where
  "Time_Unix t = t div 1000000000"

definition Duration_Seconds :: "int \<Rightarrow> rat" where
  "Duration_Seconds d = of_int d / 1000000000"

definition maxClockDesyncSeconds :: rat where
  "maxClockDesyncSeconds = 21 / 10"

definition guestClockDelta :: "world \<Rightarrow> host \<Rightarrow> int \<Rightarrow> (int \<times> error option) go" where
  "guestClockDelta w h local =
     andThen (ask (RunSSHCommand_call ''date +%s.%N'')
                  (\<lambda>tr. RunSSHCommand (B w) tr h ''date +%s.%N'')) (\<lambda>(out, err).
     case err of
       Some e \<Rightarrow> ret (0, errors_Wrap (Some e) ''get clock'')
     | None \<Rightarrow>
         andThen (emit (glog_Infof ''guest clock: %s'')) (\<lambda>_.
         let ns = strings_Split (strings_TrimSpace out) CHR ''.'' in
         (case strconv_ParseInt (strings_TrimSpace (hd ns)) of
            Inl e \<Rightarrow> ret (0, errors_Wrap (Some (numError_error e)) ''atoi'')
          | Inr secs \<Rightarrow>
              if length ns < 2 then panic ''index out of range''
              else
                (case strconv_ParseInt (strings_TrimSpace (ns ! 1)) of
                   Inl e \<Rightarrow> ret (0, errors_Wrap (Some (numError_error e)) ''atoi'')
                 | Inr nsecs \<Rightarrow>
                     (let remote = time_Unix secs nsecs;
                          d = Time_Sub remote local
                      in andThen (emit (glog_Infof ''Guest: %s Remote: %s (delta=%s)'')) (\<lambda>_.
                         ret (d, None)))))))"

definition adjustGuestClock :: "world \<Rightarrow> host \<Rightarrow> int \<Rightarrow> (error option) go" where
  "adjustGuestClock w h t =
     (let cmd = ''sudo date -s @'' @ showInt (Time_Unix t) in
      andThen (ask (RunSSHCommand_call cmd) (\<lambda>tr. RunSSHCommand (B w) tr h cmd)) (\<lambda>(out, err).
      andThen (emit (glog_Infof ''clock set: %s (err=%v)'')) (\<lambda>_.
      ret err)))"

definition ensureSyncedGuestClock :: "world \<Rightarrow> host \<Rightarrow> (error option) go" where
  "ensureSyncedGuestClock w h =
     andThen (peek (time_Now (S w))) (\<lambda>now.
     andThen (guestClockDelta w h now) (\<lambda>(d, err).
     case err of
       Some e \<Rightarrow>
         andThen (emit (glog_Warningf ''Unable to measure system clock delta: %v'')) (\<lambda>_.
         ret None)
     | None \<Rightarrow>
         if \<bar>Duration_Seconds d\<bar> < maxClockDesyncSeconds
         then andThen (emit (glog_Infof ''guest clock delta is within tolerance: %s'')) (\<lambda>_.
              ret None)
         else
           andThen (peek (time_Now (S w))) (\<lambda>now2.
           andThen (adjustGuestClock w h now2) (\<lambda>err2.
           case err2 of
             Some e \<Rightarrow> ret (errors_Wrap (Some e) ''adjusting system clock'')
           | None \<Rightarrow> ret None))))"

subsection \<open>Command channel and required directories\<close>

definition requiredDirectories :: "pkgs \<Rightarrow> string list" where
  "requiredDirectories p =
     [vmpath_GuestAddonsDir p, vmpath_GuestManifestsDir p, vmpath_GuestEphemeralDir p,
      vmpath_GuestPersistentDir p, vmpath_GuestCertsDir p,
      path_Join p [vmpath_GuestPersistentDir p, ''images''],
      path_Join p [vmpath_GuestPersistentDir p, ''binaries'']]"

definition commandRunner :: "world \<Rightarrow> host \<Rightarrow> (runner option \<times> error option) go" where
  "commandRunner w h =
     (if h_DriverName h = driver_Mock (P w) then
        andThen (emit (glog_Errorf
          ''commandRunner: returning unconfigured FakeCommandRunner, commands will fail!'')) (\<lambda>_.
        ret (Some FakeCommandRunner, None))
      else
        andThen (deref (h_Driver h)) (\<lambda>d.
        if driver_BareMetal (P w) (drv_DriverName d) then ret (Some ExecRunner, None)
        else if drv_DriverName d = driver_Docker (P w)
        then ret (Some (KICRunner (h_Name h) ''docker''), None)
        else
          andThen (ask NewSSHClient_call (\<lambda>tr. sshutil_NewSSHClient (S w) tr d)) (\<lambda>err.
          case err of
            Some e \<Rightarrow> ret (None, errors_Wrap (Some e) ''getting ssh client for bootstrapper'')
          | None \<Rightarrow> ret (Some SSHRunner, None))))"

definition createRequiredDirectories :: "world \<Rightarrow> host \<Rightarrow> (error option) go" where
  "createRequiredDirectories w h =
     (if h_DriverName h = driver_Mock (P w) then
        andThen (emit (glog_Infof ''skipping createRequiredDirectories'')) (\<lambda>_. ret None)
      else
        andThen (emit (glog_Infof ''creating required directories: %v'')) (\<lambda>_.
        andThen (commandRunner w h) (\<lambda>(r, err).
        case err of
          Some e \<Rightarrow> ret (errors_Wrap (Some e) ''command runner'')
        | None \<Rightarrow>
            andThen (deref r) (\<lambda>rn.
            let args = [''mkdir'', ''-p''] @ requiredDirectories (P w);
                cmd = ''sudo'' # args in
            andThen (askR (RunCmd_call cmd) (\<lambda>tr. Runner_RunCmd (S w) tr rn cmd)) (\<lambda>err2.
            case err2 of
              Some e \<Rightarrow>
                ret (errors_Wrap (Some e) (''sudo mkdir ('' @ h_DriverName h @ '')''))
            | None \<Rightarrow> ret None)))))"

subsection \<open>Post-powerup configuration\<close>

definition engineOptions :: "world \<Rightarrow> MachineConfig \<Rightarrow> engine_Options" where
  "engineOptions w cfg =
     \<lparr>Env = cfg_DockerEnv cfg,
      InsecureRegistry = constants_DefaultServiceCIDR (P w) # cfg_InsecureRegistry cfg,
      RegistryMirror = cfg_RegistryMirror cfg,
      ArbitraryFlags = cfg_DockerOpt cfg,
      InstallURL = drivers_DefaultEngineInstallURL (P w)\<rparr>"

text \<open>
  The provisioning block of \<open>configureHost\<close>, entered when \<open>len(e.Env) > 0\<close>. It
  writes \<open>h.HostOptions.EngineOptions.Env\<close> and passes the three option structs by
  value; each of the pointers on the way panics when nil. Its result is the host as
  updated, and the error of the step.
\<close>

definition provisionEnv :: "world \<Rightarrow> host \<Rightarrow> engine_Options \<Rightarrow> (host \<times> error option) go" where
  "provisionEnv w h e =
     andThen (deref (h_HostOptions h)) (\<lambda>ho.
     andThen (deref (EngineOptions ho)) (\<lambda>eo.
     let ho' = ho\<lparr>EngineOptions := Some (eo\<lparr>Env := Env e\<rparr>)\<rparr>;
         h' = h\<lparr>h_HostOptions := Some ho'\<rparr> in
     andThen (emit (glog_Infof ''Detecting provisioner ...'')) (\<lambda>_.
     andThen (ask DetectProvisioner_call
               (\<lambda>tr. provision_DetectProvisioner (S w) tr (h_Driver h'))) (\<lambda>err.
     case err of
       Some e1 \<Rightarrow> ret (h', errors_Wrap (Some e1) ''detecting provisioner'')
     | None \<Rightarrow>
         andThen (emit (glog_Infof ''Provisioning with %s: %+v'')) (\<lambda>_.
         andThen (deref (SwarmOptions ho')) (\<lambda>_.
         andThen (deref (AuthOptions ho')) (\<lambda>_.
         andThen (ask Provision_call (\<lambda>tr. Provisioner_Provision (S w) tr ho')) (\<lambda>err2.
         case err2 of
           Some e2 \<Rightarrow> ret (h', errors_Wrap (Some e2) ''provision'')
         | None \<Rightarrow> ret (h', None)))))))))"

text \<open>
  \<open>configureHost\<close>. The error of \<open>createRequiredDirectories\<close> is wrapped and the
  wrapped value is dropped: the statement \<open>errors.Wrap(err, "required directories")\<close>
  has no effect, so both outcomes continue alike.
\<close>

definition configureHost :: "world \<Rightarrow> host \<Rightarrow> engine_Options \<Rightarrow> (host \<times> error option) go" where
  "configureHost w h e =
     andThen (emit (glog_Infof ''configureHost: %+v'')) (\<lambda>_.
     deferred [glog_Infof ''configureHost completed within %s'']
      (andThen (createRequiredDirectories w h) (\<lambda>err.
       andThen (if length (Env e) > 0 then provisionEnv w h e else ret (h, None)) (\<lambda>(h', perr).
       case perr of
         Some pe \<Rightarrow> ret (h', Some pe)
       | None \<Rightarrow>
           andThen (deref (h_Driver h')) (\<lambda>d.
           if driver_BareMetal (P w) (drv_DriverName d) then
             andThen (emit (glog_Infof ''%s is a local driver, skipping auth/time setup'')) (\<lambda>_.
             ret (h', None))
           else
             andThen (emit (glog_Infof ''Configuring auth for driver %s ...'')) (\<lambda>_.
             andThen (ask Host_ConfigureAuth_call
                       (\<lambda>tr. Host_ConfigureAuth (B w) tr h')) (\<lambda>aerr.
             case aerr of
               Some ae \<Rightarrow>
                 ret (h', Some (RetriableError (Wrapped ae ''Error configuring auth on host'')))
             | None \<Rightarrow>
                 andThen (ensureSyncedGuestClock w h') (\<lambda>cerr. ret (h', cerr)))))))))"

subsection \<open>Lock manager\<close>

definition acquireMachinesLock :: "world \<Rightarrow> string \<Rightarrow> (error option) go" where
  "acquireMachinesLock w name =
     (let spec_Name = lock_PathMutexSpec (P w)
                        (filepath_Join (P w) [localpath_MiniPath (P w), ''machines'']);
          spec_Timeout = 10 * 60000000000 in
      andThen (emit (glog_Infof ''acquiring machines lock for %s: %+v'')) (\<lambda>_.
      andThen (ask (mutex_Acquire spec_Name spec_Timeout)
                 (\<lambda>tr. mutex_Acquire_result (S w) tr spec_Name spec_Timeout)) (\<lambda>err.
      if err = None
      then andThen (emit (glog_Infof ''acquired machines lock for %q in %s'')) (\<lambda>_. ret err)
      else ret err)))"

subsection \<open>Host info probe and OS release display\<close>

definition megs :: "nat \<Rightarrow> int" where
  "megs bytes = int (bytes div 1024 div 1024)"

definition getHostInfo :: "world \<Rightarrow> (hostInfo option \<times> error option) go" where
  "getHostInfo w =
     andThen (ask (gopsutil_call ''cpu.Info'')
               (\<lambda>tr. gopsutil_Info (S w) tr ''cpu.Info'')) (\<lambda>(i, err).
     case err of
       Some e \<Rightarrow>
         andThen (emit (glog_Warningf ''Unable to get CPU info: %v'')) (\<lambda>_. ret (None, Some e))
     | None \<Rightarrow>
         andThen (ask (gopsutil_call ''mem.VirtualMemory'')
                   (\<lambda>tr. gopsutil_Info (S w) tr ''mem.VirtualMemory'')) (\<lambda>(v, err).
         case err of
           Some e \<Rightarrow>
             andThen (emit (glog_Warningf ''Unable to get mem info: %v'')) (\<lambda>_.
             ret (None, Some e))
         | None \<Rightarrow>
             andThen (ask (gopsutil_call ''disk.Usage'')
                       (\<lambda>tr. gopsutil_Info (S w) tr ''disk.Usage'')) (\<lambda>(d, err).
             case err of
               Some e \<Rightarrow>
                 andThen (emit (glog_Warningf ''Unable to get disk info: %v'')) (\<lambda>_.
                 ret (None, Some e))
             | None \<Rightarrow>
                 ret (Some \<lparr>Memory = megs v, CPUs = int i, DiskSize = megs d\<rparr>, None))))"

definition showLocalOsRelease :: "world \<Rightarrow> unit go" where
  "showLocalOsRelease w =
     andThen (ask (ReadFile_call ''/etc/os-release'')
               (\<lambda>tr. ioutil_ReadFile (S w) tr ''/etc/os-release'')) (\<lambda>(osReleaseOut, err).
     case err of
       Some e \<Rightarrow> emit (glog_Errorf ''ReadFile: %v'')
     | None \<Rightarrow>
         andThen (ask NewOsRelease_call
                   (\<lambda>tr. provision_NewOsRelease (S w) tr osReleaseOut)) (\<lambda>err2.
         case err2 of
           Some e \<Rightarrow> emit (glog_Errorf ''NewOsRelease: %v'')
         | None \<Rightarrow> emit (out_T ''OS release is {{.pretty_name}}'')))"

definition showRemoteOsRelease :: "world \<Rightarrow> driver option \<Rightarrow> unit go" where
  "showRemoteOsRelease w d =
     andThen (ask DetectProvisioner_call
               (\<lambda>tr. provision_DetectProvisioner (S w) tr d)) (\<lambda>err.
     case err of
       Some e \<Rightarrow> emit (glog_Errorf ''DetectProvisioner: %v'')
     | None \<Rightarrow>
         andThen (ask GetOsReleaseInfo_call
                   (\<lambda>tr. Provisioner_GetOsReleaseInfo (S w) tr)) (\<lambda>err2.
         case err2 of
           Some e \<Rightarrow> emit (glog_Errorf ''GetOsReleaseInfo: %v'')
         | None \<Rightarrow> emit (glog_Infof ''Provisioned with %s'')))"

definition showHostInfo :: "world \<Rightarrow> MachineConfig \<Rightarrow> unit go" where
  "showHostInfo w cfg =
     (if driver_BareMetal (P w) (cfg_VMDriver cfg) then
        andThen (getHostInfo w) (\<lambda>(info, err).
        if err = None then
          andThen (deref info) (\<lambda>_.
          emit (out_T ''Running on localhost (CPUs={{.number_of_cpus}}, Memory={{.memory_size}}MB, Disk={{.disk_size}}MB) ...''))
        else ret ())
      else if driver_IsKIC (P w) (cfg_VMDriver cfg) then
        andThen (getHostInfo w) (\<lambda>(info, err).
        if err = None then
          andThen (deref info) (\<lambda>_.
          emit (out_T ''Creating Kubernetes in {{.driver_name}} container with (CPUs={{.number_of_cpus}}), Memory={{.memory_size}}MB ({{.host_memory_size}}MB available) ...''))
        else ret ())
      else
        emit (out_T ''Creating {{.driver_name}} VM (CPUs={{.number_of_cpus}}, Memory={{.memory_size}}MB, Disk={{.disk_size}}MB) ...''))"

subsection \<open>Host lifecycle controller: create and start\<close>

text \<open>
  The three assignments of \<open>createHost\<close> to \<open>h.HostOptions\<close>: the certificate and
  store paths go through the \<open>AuthOptions\<close> pointer, the engine options replace the
  \<open>EngineOptions\<close> pointer.
\<close>

definition fillHostOptions :: "world \<Rightarrow> MachineConfig \<Rightarrow> host \<Rightarrow> host go" where
  "fillHostOptions w cfg h =
     andThen (deref (h_HostOptions h)) (\<lambda>ho.
     andThen (deref (AuthOptions ho)) (\<lambda>ao.
     ret (h\<lparr>h_HostOptions := Some (ho\<lparr>
            AuthOptions := Some (ao\<lparr>CertDir := localpath_MiniPath (P w),
                                    StorePath := localpath_MiniPath (P w)\<rparr>),
            EngineOptions := Some (engineOptions w cfg)\<rparr>)\<rparr>)))"

definition createHost :: "world \<Rightarrow> MachineConfig \<Rightarrow> (host option \<times> error option) go" where
  "createHost w cfg =
     andThen (if cfg_VMDriver cfg = driver_VMwareFusion (P w)
                 \<and> viper_ShowDriverDeprecationNotification (S w)
              then emit (out_WarningT ''The vmwarefusion driver is deprecated and support for it will be removed in a future release.'')
              else ret ()) (\<lambda>_.
     andThen (showHostInfo w cfg) (\<lambda>_.
     andThen (ask (registry_Driver_call (cfg_VMDriver cfg))
               (\<lambda>tr. registry_Driver_Empty (S w) tr (cfg_VMDriver cfg))) (\<lambda>empty.
     if empty then ret (None, Some (Err (''unsupported/missing driver: '' @ cfg_VMDriver cfg)))
     else
       andThen (ask json_Marshal_call (\<lambda>tr. json_Marshal (S w) tr cfg)) (\<lambda>(data, merr).
       case merr of
         Some e \<Rightarrow> ret (None, errors_Wrap (Some e) ''marshal'')
       | None \<Rightarrow>
           andThen (ask (api_NewHost_call (cfg_VMDriver cfg))
                     (\<lambda>tr. api_NewHost (A w) tr (cfg_VMDriver cfg) data)) (\<lambda>(hp, nerr).
           case nerr of
             Some e \<Rightarrow> ret (None, errors_Wrap (Some e) ''new host'')
           | None \<Rightarrow>
               andThen (deref hp) (\<lambda>h0.
               andThen (fillHostOptions w cfg h0) (\<lambda>h.
               andThen (ask (api_Create_call (h_Name h))
                         (\<lambda>tr. api_Create (A w) tr h)) (\<lambda>cerr.
               case cerr of
                 Some e \<Rightarrow>
                   andThen (emit (time_Sleep 2000000000)) (\<lambda>_.
                   ret (None, errors_Wrap (Some e) ''create''))
               | None \<Rightarrow>
                   andThen (createRequiredDirectories w h) (\<lambda>derr.
                   andThen
                     (if driver_BareMetal (P w) (cfg_VMDriver cfg) then
                        andThen (showLocalOsRelease w) (\<lambda>_. ret None)
                      else if \<not> driver_BareMetal (P w) (cfg_VMDriver cfg)
                              \<and> \<not> driver_IsKIC (P w) (cfg_VMDriver cfg) then
                        andThen (showRemoteOsRelease w (h_Driver h)) (\<lambda>_.
                        ensureSyncedGuestClock w h)
                      else ret None) (\<lambda>serr.
                   case serr of
                     Some e \<Rightarrow> ret (Some h, Some e)
                   | None \<Rightarrow>
                       andThen (ask (api_Save_call (h_Name h))
                                 (\<lambda>tr. api_Save (A w) tr h)) (\<lambda>saverr.
                       case saverr of
                         Some e \<Rightarrow> ret (None, errors_Wrap (Some e) ''save'')
                       | None \<Rightarrow> ret (Some h, None))))))))))))"

text \<open>
  The part of \<open>StartHost\<close> that runs once the host is known to exist.
\<close>

definition startExisting :: "world \<Rightarrow> MachineConfig \<Rightarrow> (host option \<times> error option) go" where
  "startExisting w cfg =
     andThen (emit (glog_Infof ''Skipping create...Using existing machine configuration'')) (\<lambda>_.
     andThen (ask (api_Load_call (cfg_Name cfg))
               (\<lambda>tr. api_Load (A w) tr (cfg_Name cfg))) (\<lambda>(hp, lerr).
     case lerr of
       Some e \<Rightarrow> ret (None, errors_Wrap (Some e)
         ''Error loading existing host. Please try running [minikube delete], then run [minikube start] again.'')
     | None \<Rightarrow>
         andThen (if cfg_Name cfg = constants_DefaultMachineName (P w)
                  then emit (out_T ''Tip: Use minikube start -p <name> to create a new cluster, or minikube delete to delete this one.'')
                  else ret ()) (\<lambda>_.
         andThen (deref hp) (\<lambda>h.
         andThen (deref (h_Driver h)) (\<lambda>d.
         andThen (ask Driver_GetState_call (\<lambda>tr. Driver_GetState (B w) tr d)) (\<lambda>(s, serr).
         andThen (emit (glog_Infof ''Machine state: '')) (\<lambda>_.
         case serr of
           Some e \<Rightarrow> ret (None, errors_Wrap (Some e) ''Error getting state for host'')
         | None \<Rightarrow>
             andThen
               (if s = Running then
                  andThen (emit (out_T ''Using the running {{.driver_name}} {{.profile_name}} VM ...'')) (\<lambda>_.
                  ret None)
                else
                  andThen (emit (out_T ''Starting existing {{.driver_name}} VM for {{.profile_name}} ...'')) (\<lambda>_.
                  andThen (ask Driver_Start_call (\<lambda>tr. Driver_Start (B w) tr d)) (\<lambda>sterr.
                  case sterr of
                    Some e \<Rightarrow> ret (errors_Wrap (Some e) ''start'')
                  | None \<Rightarrow>
                      andThen (ask (api_Save_call (h_Name h))
                                (\<lambda>tr. api_Save (A w) tr h)) (\<lambda>saverr.
                      case saverr of
                        Some e \<Rightarrow> ret (errors_Wrap (Some e) ''save'')
                      | None \<Rightarrow> ret None)))) (\<lambda>early.
             case early of
               Some e \<Rightarrow> ret (None, Some e)
             | None \<Rightarrow>
                 andThen (emit (glog_Infof ''engine options: %+v'')) (\<lambda>_.
                 andThen (emit (out_T ''Waiting for the host to be provisioned ...'')) (\<lambda>_.
                 andThen (configureHost w h (engineOptions w cfg)) (\<lambda>(h', err).
                 case err of
                   Some e \<Rightarrow> ret (None, Some e)
                 | None \<Rightarrow> ret (Some h', None))))))))))))"

definition StartHost :: "world \<Rightarrow> MachineConfig \<Rightarrow> (host option \<times> error option) go" where
  "StartHost w cfg =
     andThen (acquireMachinesLock w (cfg_Name cfg)) (\<lambda>err.
     case err of
       Some e \<Rightarrow> ret (None, errors_Wrap (Some e) ''boot lock'')
     | None \<Rightarrow>
         deferred [glog_Infof ''releasing machines lock for %q, held for %s'', Releaser_Release]
          (andThen (ask (api_Exists_call (cfg_Name cfg))
                     (\<lambda>tr. api_Exists (A w) tr (cfg_Name cfg))) (\<lambda>(exists, xerr).
           case xerr of
             Some e \<Rightarrow> ret (None, errors_Wrap (Some e) (''exists: '' @ cfg_Name cfg))
           | None \<Rightarrow>
               if \<not> exists then
                 andThen (emit (glog_Infof ''Machine does not exist... provisioning new machine'')) (\<lambda>_.
                 andThen (emit (glog_Infof ''Provisioning machine with config: %+v'')) (\<lambda>_.
                 createHost w cfg))
               else startExisting w cfg)))"

subsection \<open>Host lifecycle controller: stop, status, delete\<close>

definition trySSHPowerOff :: "world \<Rightarrow> host \<Rightarrow> (error option) go" where
  "trySSHPowerOff w h =
     andThen (deref (h_Driver h)) (\<lambda>d.
     andThen (ask Driver_GetState_call (\<lambda>tr. Driver_GetState (B w) tr d)) (\<lambda>(s, err).
     case err of
       Some e \<Rightarrow>
         andThen (emit (glog_Warningf ''unable to get state: %v'')) (\<lambda>_. ret (Some e))
     | None \<Rightarrow>
         if s \<noteq> Running then
           andThen (emit (glog_Infof ''host is in state %s'')) (\<lambda>_. ret None)
         else
           andThen (emit (out_T ''Powering off {{.profile_name}} via SSH ...'')) (\<lambda>_.
           andThen (ask (RunSSHCommand_call ''sudo poweroff'')
                     (\<lambda>tr. RunSSHCommand (B w) tr h ''sudo poweroff'')) (\<lambda>_.
           andThen (emit (glog_Infof ''poweroff result: out=%s, err=%v'')) (\<lambda>_.
           ret None)))))"

text \<open>
  \<open>StopHost\<close>. The type assertion \<open>err.(mcnerror.ErrHostAlreadyInState)\<close> holds for
  an error value of exactly that type.
\<close>

definition StopHost :: "world \<Rightarrow> (error option) go" where
  "StopHost w =
     andThen (emit (glog_Infof ''Stopping host ...'')) (\<lambda>_.
     deferred [glog_Infof ''Stopped host within %s'']
      (let machineName = viper_MachineProfile (S w) in
       andThen (ask (api_Load_call machineName)
                 (\<lambda>tr. api_Load (A w) tr machineName)) (\<lambda>(hp, lerr).
       case lerr of
         Some e \<Rightarrow> ret (errors_Wrap (Some e) ''load'')
       | None \<Rightarrow>
           andThen (deref hp) (\<lambda>host.
           andThen (emit (out_T ''Stopping {{.profile_name}} in {{.driver_name}} ...'')) (\<lambda>_.
           andThen
             (if h_DriverName host = driver_HyperV (P w) then
                andThen (emit (glog_Infof ''As there are issues with stopping Hyper-V VMs using API, trying to shut down using SSH'')) (\<lambda>_.
                andThen (trySSHPowerOff w host) (\<lambda>perr.
                ret (errors_Wrap perr ''ssh power off'')))
              else ret None) (\<lambda>early.
           case early of
             Some e \<Rightarrow> ret (Some e)
           | None \<Rightarrow>
               andThen (askR Host_Stop_call (\<lambda>tr. Host_Stop (B w) tr host)) (\<lambda>serr.
               case serr of
                 None \<Rightarrow> ret None
               | Some e \<Rightarrow>
                   andThen (emit (glog_Infof ''host.Stop failed: %v'')) (\<lambda>_.
                   case e of
                     ErrHostAlreadyInState n st \<Rightarrow>
                       if st = Stopped then ret None
                       else ret (Some (RetriableError (Wrapped e (''Stop: '' @ machineName))))
                   | _ \<Rightarrow> ret (Some (RetriableError (Wrapped e (''Stop: '' @ machineName))))))))))))"

definition deleteOrphanedKIC :: "world \<Rightarrow> string \<Rightarrow> unit go" where
  "deleteOrphanedKIC w name =
     (let cmd = [oci_Docker (P w), ''rm'', ''-f'', ''-v'', name] in
      andThen (ask (exec_Command cmd) (\<lambda>tr. exec_Run (S w) tr cmd)) (\<lambda>(out, err).
      if err = None
      then emit (glog_Infof ''Found stale kic container and successfully cleaned it up!'')
      else ret ()))"

definition GetHostStatus :: "world \<Rightarrow> string \<Rightarrow> (string \<times> error option) go" where
  "GetHostStatus w machineName =
     andThen (ask (api_Exists_call machineName)
               (\<lambda>tr. api_Exists (A w) tr machineName)) (\<lambda>(exists, xerr).
     case xerr of
       Some e \<Rightarrow> ret ([], errors_Wrap (Some e) (machineName @ '' exists''))
     | None \<Rightarrow>
         if \<not> exists then ret (State_String None_state, None)
         else
           andThen (ask (api_Load_call machineName)
                     (\<lambda>tr. api_Load (A w) tr machineName)) (\<lambda>(hp, lerr).
           case lerr of
             Some e \<Rightarrow> ret ([], errors_Wrap (Some e) ''load'')
           | None \<Rightarrow>
               andThen (deref hp) (\<lambda>host.
               andThen (deref (h_Driver host)) (\<lambda>d.
               andThen (ask Driver_GetState_call
                         (\<lambda>tr. Driver_GetState (B w) tr d)) (\<lambda>(s, serr).
               case serr of
                 Some e \<Rightarrow> ret ([], errors_Wrap (Some e) ''state'')
               | None \<Rightarrow> ret (State_String s, None))))))"

text \<open>
  The first statement of \<open>DeleteHost\<close>: the load, and the clean-up of an orphaned
  container when the load gave an error and no host. The host pointer is kept whatever
  the error was.
\<close>

definition DeleteHost_load :: "world \<Rightarrow> string \<Rightarrow> (host option) go" where
  "DeleteHost_load w machineName =
     andThen (ask (api_Load_call machineName)
               (\<lambda>tr. api_Load (A w) tr machineName)) (\<lambda>(hp, lerr).
     if lerr \<noteq> None \<and> hp = None
     then andThen (deleteOrphanedKIC w machineName) (\<lambda>_. ret hp)
     else ret hp)"

definition DeleteHost :: "world \<Rightarrow> string \<Rightarrow> (error option) go" where
  "DeleteHost w machineName =
     andThen (DeleteHost_load w machineName) (\<lambda>hp.
     andThen (GetHostStatus w machineName) (\<lambda>(status, serr).
     andThen (if serr \<noteq> None
              then emit (out_WarningT ''Unable to get the status of the {{.name}} cluster.'')
              else ret ()) (\<lambda>_.
     if status = State_String None_state then ret (Some (ErrHostDoesNotExist machineName))
     else
       andThen (deref hp) (\<lambda>host.
       andThen (deref (h_Driver host)) (\<lambda>d.
       andThen
         (if drv_DriverName d = driver_HyperV (P w) then
            andThen (trySSHPowerOff w host) (\<lambda>perr.
            andThen (if perr \<noteq> None
                     then emit (glog_Infof ''Unable to power off minikube because the host was not found.'')
                     else ret ()) (\<lambda>_.
            emit (out_T ''Successfully powered off Hyper-V. minikube driver -- {{.driver}}'')))
          else ret ()) (\<lambda>_.
       andThen (emit (out_T ''Deleting {{.profile_name}} in {{.driver_name}} ...'')) (\<lambda>_.
       andThen (ask Driver_Remove_call (\<lambda>tr. Driver_Remove (B w) tr d)) (\<lambda>rerr.
       case rerr of
         Some e \<Rightarrow> ret (errors_Wrap (Some e) ''host remove'')
       | None \<Rightarrow>
           andThen (ask (api_Remove_call machineName)
                     (\<lambda>tr. api_Remove (A w) tr machineName)) (\<lambda>aerr.
           case aerr of
             Some e \<Rightarrow> ret (errors_Wrap (Some e) ''api remove'')
           | None \<Rightarrow> ret None)))))))))"

subsection \<open>Network address resolver\<close>

text \<open>
  \<open>IP.To4\<close> and \<open>net.IPv4\<close> of package net: a 4-byte address is itself, a 16-byte
  address with the IPv4-in-IPv6 prefix is its last four bytes, anything else is nil.
\<close>

definition v4InV6Prefix :: "nat list" where
  "v4InV6Prefix = [0, 0, 0, 0, 0, 0, 0, 0, 0, 0, 255, 255]"

definition To4 :: "IP \<Rightarrow> IP" where
  "To4 ip = (case ip of
       None \<Rightarrow> None
     | Some bs \<Rightarrow>
         if length bs = 4 then Some bs
         else if length bs = 16 \<and> take 12 bs = v4InV6Prefix then Some (drop 12 bs)
         else None)"

definition net_IPv4 :: "nat \<Rightarrow> nat \<Rightarrow> nat \<Rightarrow> nat \<Rightarrow> IP" where
  "net_IPv4 a b c d = Some (v4InV6Prefix @ [a, b, c, d])"

text \<open>
  \<open>Interface.Addrs\<close> on a nil \<open>*net.Interface\<close> does not panic: package net
  answers no addresses and an invalid-interface error, without asking the system.
\<close>

definition Addrs :: "world \<Rightarrow> nat option \<Rightarrow> (addr list \<times> error option) go" where
  "Addrs w i = (case i of
       None \<Rightarrow> ret ([], Some (Err ''route ip+net: invalid network interface''))
     | Some ifi \<Rightarrow> ask Interface_Addrs_call (\<lambda>tr. Interface_Addrs (S w) tr ifi))"

text \<open>The loop of \<open>getIPForInterface\<close>: the first IPv4 address among the addresses.\<close>

fun firstIPv4 :: "addr list \<Rightarrow> IP" where
  "firstIPv4 [] = None"
| "firstIPv4 (IPNet ip # as) = (case To4 ip of Some ip4 \<Rightarrow> Some ip4 | None \<Rightarrow> firstIPv4 as)"
| "firstIPv4 (IPAddr ip # as) = firstIPv4 as"

definition getIPForInterface :: "world \<Rightarrow> string \<Rightarrow> (IP \<times> error option) go" where
  "getIPForInterface w name =
     andThen (ask (net_InterfaceByName_call name)
               (\<lambda>tr. net_InterfaceByName (S w) tr name)) (\<lambda>(i, _).
     andThen (Addrs w i) (\<lambda>(addrs, _).
     case firstIPv4 addrs of
       Some ip \<Rightarrow> ret (Some ip, None)
     | None \<Rightarrow> ret (None, Some (Err (''Error finding IPV4 address for '' @ name)))))"

text \<open>
  \<open>regexp.FindStringSubmatch\<close> for the two patterns of the source, both of the shape
  \<open>pre(.*?)post\<close> with literal \<open>pre\<close> and \<open>post\<close>: the leftmost place where
  \<open>pre\<close> stands and \<open>post\<close> follows on the same line, with the shortest group.
  \<open>None\<close> is the nil slice of no match, whose index 1 panics.
\<close>

fun lazyUntil :: "string \<Rightarrow> string \<Rightarrow> string option" where
  "lazyUntil post [] = (if post = [] then Some [] else None)"
| "lazyUntil post (c # cs) =
     (if take (length post) (c # cs) = post then Some []
      else if c = CHR 0x0A then None
      else map_option ((#) c) (lazyUntil post cs))"

fun FindStringSubmatch :: "string \<Rightarrow> string \<Rightarrow> string \<Rightarrow> string option" where
  "FindStringSubmatch pre post [] = None"
| "FindStringSubmatch pre post (c # cs) =
     (if take (length pre) (c # cs) = pre then
        (case lazyUntil post (drop (length pre) (c # cs)) of
           Some g \<Rightarrow> Some g
         | None \<Rightarrow> FindStringSubmatch pre post cs)
      else FindStringSubmatch pre post cs)"

definition dq :: string where
  "dq = [CHR 0x22]"

definition GetVMHostIP :: "world \<Rightarrow> host \<Rightarrow> (IP \<times> error option) go" where
  "GetVMHostIP w host =
     (if h_DriverName host = driver_KVM2 (P w) then
        ret (net_ParseIP (P w) ''192.168.39.1'', None)
      else if h_DriverName host = driver_HyperV (P w) then
        (case FindStringSubmatch (dq @ ''VSwitch'' @ dq @ '': '' @ dq) (dq @ '','')
                (h_RawDriver host) of
           None \<Rightarrow> panic ''index out of range''
         | Some hypervVirtualSwitch \<Rightarrow>
             andThen (getIPForInterface w (''vEthernet ('' @ hypervVirtualSwitch @ '')''))
               (\<lambda>(ip, err).
             case err of
               Some e \<Rightarrow> ret (Some [], errors_Wrap (Some e)
                           (''ip for interface ('' @ hypervVirtualSwitch @ '')''))
             | None \<Rightarrow> ret (ip, None)))
      else if h_DriverName host = driver_VirtualBox (P w) then
        (let cmd = [driver_VBoxManagePath (P w), ''showvminfo'', h_Name host,
                    ''--machinereadable''] in
         andThen (ask (exec_Command cmd) (\<lambda>tr. exec_Run (S w) tr cmd)) (\<lambda>(out, err).
         case err of
           Some e \<Rightarrow> ret (Some [], errors_Wrap (Some e) ''vboxmanage'')
         | None \<Rightarrow>
             (case FindStringSubmatch (''hostonlyadapter2='' @ dq) dq out of
                None \<Rightarrow> panic ''index out of range''
              | Some iface \<Rightarrow>
                  andThen (getIPForInterface w iface) (\<lambda>(ip, err2).
                  case err2 of
                    Some e \<Rightarrow> ret (Some [], errors_Wrap (Some e)
                                ''Error getting VM/Host IP address'')
                  | None \<Rightarrow> ret (ip, None)))))
      else if h_DriverName host = driver_HyperKit (P w) then
        ret (net_ParseIP (P w) ''192.168.64.1'', None)
      else if h_DriverName host = driver_VMware (P w) then
        andThen (deref (h_Driver host)) (\<lambda>d.
        andThen (ask Driver_GetIP_call (\<lambda>tr. Driver_GetIP (B w) tr d)) (\<lambda>(vmIPString, err).
        case err of
          Some e \<Rightarrow> ret (Some [], errors_Wrap (Some e) ''Error getting VM IP address'')
        | None \<Rightarrow>
            (case To4 (net_ParseIP (P w) vmIPString) of
               None \<Rightarrow> ret (Some [], errors_Wrap err
                           ''Error converting VM IP address to IPv4 address'')
             | Some vmIP \<Rightarrow> ret (net_IPv4 (vmIP ! 0) (vmIP ! 1) (vmIP ! 2) 1, None))))
      else
        ret (Some [], Some (Err
          ''Error, attempted to get host ip address for unsupported driver'')))"

subsection \<open>Observations on traces\<close>

text \<open>The commands sent over the remote shell, in order.\<close>

fun sshCommands :: "event list \<Rightarrow> string list" where
  "sshCommands [] = []"
| "sshCommands (RunSSHCommand_call c # es) = c # sshCommands es"
| "sshCommands (e # es) = sshCommands es"

text \<open>
  \<open>emits Q m\<close>: whatever the trace before, running \<open>m\<close> only appends events, and
  each appended event satisfies \<open>Q\<close>.
\<close>

definition emits :: "(event \<Rightarrow> bool) \<Rightarrow> 'a go \<Rightarrow> bool" where
  "emits Q m = (\<forall>tr. \<exists>es. snd (m tr) = tr @ es \<and> list_all Q es)"

fun isAcquire :: "event \<Rightarrow> bool" where
  "isAcquire (mutex_Acquire n t) = True"
| "isAcquire e = False"

text \<open>The two removals: of the machine by its driver, and of the record by the store.\<close>

fun isRemove :: "event \<Rightarrow> bool" where
  "isRemove Driver_Remove_call = True"
| "isRemove (api_Remove_call n) = True"
| "isRemove e = False"

text \<open>
  Reports: the log records and the user notifications among the events.
\<close>

fun isReport :: "event \<Rightarrow> bool" where
  "isReport (glog_Infof s) = True"
| "isReport (glog_Warningf s) = True"
| "isReport (glog_Errorf s) = True"
| "isReport (out_T s) = True"
| "isReport (out_WarningT s) = True"
| "isReport e = False"

subsection \<open>A concrete world\<close>

text \<open>
  One instance of the parameters, used to run the model on concrete inputs: the driver
  names of package driver, a store that finds no host, a backend and a local system
  that answer every call without error. The examples below change single answers.
\<close>

definition pkgs0 :: pkgs where
  "pkgs0 = \<lparr>driver_Mock = ''mock'', driver_HyperV = ''hyperv'', driver_KVM2 = ''kvm2'',
     driver_VirtualBox = ''virtualbox'', driver_HyperKit = ''hyperkit'',
     driver_VMware = ''vmware'', driver_VMwareFusion = ''vmwarefusion'',
     driver_Docker = ''docker'',
     driver_BareMetal = (\<lambda>n. n = ''none'' \<or> n = ''mock''),
     driver_IsKIC = (\<lambda>n. n = ''docker''),
     constants_DefaultMachineName = ''minikube'',
     constants_DefaultServiceCIDR = ''10.96.0.0/12'',
     drivers_DefaultEngineInstallURL = ''https://get.docker.com'',
     localpath_MiniPath = ''/home/user/.minikube'',
     lock_PathMutexSpec = (\<lambda>p. ''mk'' @ p),
     filepath_Join = (\<lambda>ps. foldr (\<lambda>a b. if b = [] then a else a @ ''/'' @ b) ps []),
     path_Join = (\<lambda>ps. foldr (\<lambda>a b. if b = [] then a else a @ ''/'' @ b) ps []),
     vmpath_GuestAddonsDir = ''/etc/kubernetes/addons'',
     vmpath_GuestManifestsDir = ''/etc/kubernetes/manifests'',
     vmpath_GuestEphemeralDir = ''/var/tmp/minikube'',
     vmpath_GuestPersistentDir = ''/var/lib/minikube'',
     vmpath_GuestCertsDir = ''/var/lib/minikube/certs'',
     oci_Docker = ''docker'',
     driver_VBoxManagePath = ''VBoxManage'',
     net_ParseIP = (\<lambda>s. if s = ''192.168.39.1'' then net_IPv4 192 168 39 1
                         else if s = ''192.168.64.1'' then net_IPv4 192 168 64 1
                         else None)\<rparr>"

definition store0 :: store where
  "store0 = \<lparr>api_Exists = (\<lambda>tr n. (False, None)),
     api_Load = (\<lambda>tr n. (None, Some (Err ''Host does not exist''))),
     api_NewHost = (\<lambda>tr k data. (None, Some (Err ''no such driver''))),
     api_Create = (\<lambda>tr h. None),
     api_Save = (\<lambda>tr h. None),
     api_Remove = (\<lambda>tr n. None)\<rparr>"

definition backend0 :: backend where
  "backend0 = \<lparr>Driver_GetState = (\<lambda>tr d. (Running, None)),
     Driver_Start = (\<lambda>tr d. None),
     Driver_Remove = (\<lambda>tr d. None),
     Driver_GetIP = (\<lambda>tr d. (''192.168.99.100'', None)),
     Host_Stop = (\<lambda>tr h. None),
     Host_ConfigureAuth = (\<lambda>tr h. None),
     RunSSHCommand = (\<lambda>tr h c. ([], None))\<rparr>"

definition system0 :: system where
  "system0 = \<lparr>time_Now = (\<lambda>tr. 1580000000000000000),
     mutex_Acquire_result = (\<lambda>tr n t. None),
     sshutil_NewSSHClient = (\<lambda>tr d. None),
     Runner_RunCmd = (\<lambda>tr r c. None),
     provision_DetectProvisioner = (\<lambda>tr d. None),
     Provisioner_Provision = (\<lambda>tr ho. None),
     Provisioner_GetOsReleaseInfo = (\<lambda>tr. None),
     exec_Run = (\<lambda>tr c. ([], None)),
     ioutil_ReadFile = (\<lambda>tr f. ([], None)),
     provision_NewOsRelease = (\<lambda>tr s. None),
     gopsutil_Info = (\<lambda>tr k. (4, None)),
     registry_Driver_Empty = (\<lambda>tr n. False),
     json_Marshal = (\<lambda>tr c. (''{}'', None)),
     net_InterfaceByName = (\<lambda>tr n. (None, Some (Err ''no such network interface''))),
     Interface_Addrs = (\<lambda>tr i. ([], None)),
     viper_MachineProfile = ''minikube'',
     viper_ShowDriverDeprecationNotification = True\<rparr>"

definition world0 :: world where
  "world0 = \<lparr>P = pkgs0, A = store0, B = backend0, S = system0\<rparr>"

definition host0 :: host where
  "host0 = \<lparr>h_Name = ''minikube'', h_DriverName = ''virtualbox'', h_RawDriver = [],
     h_Driver = Some \<lparr>drv_DriverName = ''virtualbox'', drv_id = 0\<rparr>,
     h_HostOptions = Some \<lparr>EngineOptions = None,
       AuthOptions = Some \<lparr>CertDir = [], StorePath = []\<rparr>,
       SwarmOptions = Some ()\<rparr>\<rparr>"

definition cfg0 :: MachineConfig where
  "cfg0 = \<lparr>cfg_Name = ''minikube'', cfg_VMDriver = ''virtualbox'', cfg_DockerEnv = [],
     cfg_InsecureRegistry = [], cfg_RegistryMirror = [], cfg_DockerOpt = []\<rparr>"

text \<open>The guest answers every remote command with the given output.\<close>

definition guestSays :: "string \<Rightarrow> world" where
  "guestSays out = world0\<lparr>B := backend0\<lparr>RunSSHCommand := (\<lambda>tr h c. (out, None))\<rparr>\<rparr>"

text \<open>Hosts of other driver kinds.\<close>

definition hostOfKind :: "string \<Rightarrow> host" where
  "hostOfKind k = host0\<lparr>h_DriverName := k,
     h_Driver := Some \<lparr>drv_DriverName = k, drv_id = 0\<rparr>\<rparr>"

text \<open>
  A machine with two interfaces. \<open>vboxnet0\<close> has a link address, an IPv6 address
  and then two IPv4 addresses, 192.168.99.1 before 10.0.2.15. \<open>tun6\<close> has an IPv6
  address only.
\<close>

definition ifaceWorld :: world where
  "ifaceWorld = world0\<lparr>S := system0\<lparr>
     net_InterfaceByName := (\<lambda>tr n. if n = ''vboxnet0'' then (Some 3, None)
                                  else if n = ''tun6'' then (Some 4, None)
                                  else (None, Some (Err ''no such network interface''))),
     Interface_Addrs := (\<lambda>tr i.
        if i = 3 then
          ([IPAddr (Some [10, 0, 0, 1]),
            IPNet (Some [254, 128, 0, 0, 0, 0, 0, 0, 0, 0, 0, 0, 0, 0, 0, 1]),
            IPNet (net_IPv4 192 168 99 1),
            IPNet (Some [10, 0, 2, 15])], None)
        else
          ([IPNet (Some [254, 128, 0, 0, 0, 0, 0, 0, 0, 0, 0, 0, 0, 0, 0, 2])], None))\<rparr>\<rparr>"

text \<open>
  A store that knows the host \<open>minikube\<close>, and a backend whose stop call fails with
  the given error.
\<close>

definition storeHas :: "host \<Rightarrow> store" where
  "storeHas h = store0\<lparr>api_Exists := (\<lambda>tr n. (True, None)),
                        api_Load := (\<lambda>tr n. (Some h, None))\<rparr>"

definition stopFails :: "error \<Rightarrow> world" where
  "stopFails e = world0\<lparr>A := storeHas host0,
                         B := backend0\<lparr>Host_Stop := (\<lambda>tr h. Some e)\<rparr>\<rparr>"

text \<open>
  A store whose first load fails and gives no host, and whose later loads succeed: the
  host record becomes readable between the two loads of \<open>DeleteHost\<close>.
\<close>

definition flakyWorld :: world where
  "flakyWorld = world0\<lparr>A := store0\<lparr>
      api_Exists := (\<lambda>tr n. (True, None)),
      api_Load := (\<lambda>tr n. if api_Load_call n \<in> set tr then (Some host0, None)
                           else (None, Some (Err ''unexpected end of JSON input'')))\<rparr>\<rparr>"

text \<open>
  Worlds for \<open>StartHost\<close>. In \<open>newHostWorld\<close> no host exists yet and the store makes
  one; in \<open>existingWorld\<close> the host exists and runs. In both the guest clock is 0.3
  seconds ahead. \<open>mkdirFails\<close> is \<open>existingWorld\<close> with a command runner whose
  commands fail. \<open>cfgEnv\<close> asks for an engine environment variable.
\<close>

definition hostEnv :: host where
  "hostEnv = host0\<lparr>h_HostOptions := Some \<lparr>
       EngineOptions = Some \<lparr>Env = [], InsecureRegistry = [], RegistryMirror = [],
                              ArbitraryFlags = [], InstallURL = []\<rparr>,
       AuthOptions = Some \<lparr>CertDir = [], StorePath = []\<rparr>,
       SwarmOptions = Some ()\<rparr>\<rparr>"

definition cfgEnv :: MachineConfig where
  "cfgEnv = cfg0\<lparr>cfg_DockerEnv := [''HTTP_PROXY=http://10.0.0.1:3128'']\<rparr>"

definition guestClock :: backend where
  "guestClock = backend0\<lparr>RunSSHCommand := (\<lambda>tr h c.
      if c = ''date +%s.%N'' then (''1580000000.300000000'', None) else ([], None))\<rparr>"

definition newHostWorld :: world where
  "newHostWorld = world0\<lparr>A := store0\<lparr>api_NewHost := (\<lambda>tr k data. (Some hostEnv, None))\<rparr>,
                          B := guestClock\<rparr>"

definition existingWorld :: world where
  "existingWorld = world0\<lparr>A := storeHas hostEnv, B := guestClock\<rparr>"

definition mkdirFails :: world where
  "mkdirFails = existingWorld\<lparr>S := system0\<lparr>
      Runner_RunCmd := (\<lambda>tr r c. Some (Err ''Process exited with status 1''))\<rparr>\<rparr>"

text \<open>
  A store that lists the host but fails every load of its record.
\<close>

definition loadFails :: world where
  "loadFails = world0\<lparr>A := store0\<lparr>api_Exists := (\<lambda>tr n. (True, None))\<rparr>\<rparr>"

section \<open>Properties\<close>

lemmas go_simps = andThen_def ret_def emit_def ask_def askR_def peek_def panic_def
  deferred_def deref_def

lemmas world0_simps = guestSays_def world0_def backend0_def system0_def host0_def
  store0_def pkgs0_def cfg0_def

lemmas strconv_simps = strings_TrimSpace_def isSpace_def strconv_ParseInt_def
  strconv_ParseUint_def isDigit_def

subsection \<open>Clock synchronizer\<close>

lemma sshCommands_append: "sshCommands (xs @ ys) = sshCommands xs @ sshCommands ys"
  by (induction xs rule: sshCommands.induct) simp_all

lemma guestClockDelta_measured:
  assumes "guestClockDelta w h l tr = (Ret (d, None), tr1)"
  shows "tr1 = tr @ [RunSSHCommand_call ''date +%s.%N'', glog_Infof ''guest clock: %s'',
                     glog_Infof ''Guest: %s Remote: %s (delta=%s)'']"
  using assms
  by (auto simp: guestClockDelta_def go_simps Let_def
           split: prod.splits option.splits sum.splits if_splits)

lemma Duration_Seconds_tolerance:
  "(\<bar>Duration_Seconds d\<bar> < maxClockDesyncSeconds) = (\<bar>d\<bar> < 2100000000)"
proof -
  have "(\<bar>Duration_Seconds d\<bar> < maxClockDesyncSeconds)
      = (rat_of_int \<bar>d\<bar> / 1000000000 < 21 / 10)"
    by (simp add: Duration_Seconds_def maxClockDesyncSeconds_def)
  also have "\<dots> = (rat_of_int \<bar>d\<bar> < 2100000000)"
    by (simp add: divide_less_eq)
  also have "\<dots> = (\<bar>d\<bar> < 2100000000)"
    by (simp only: of_int_less_numeral_iff)
  finally show ?thesis .
qed

text \<open>
  C3. Let the measurement of \<open>ensureSyncedGuestClock\<close> give the delta \<open>d\<close>, in
  nanoseconds. When \<open>|d|\<close> is below 2.1 seconds, the only remote command of the run
  is the clock query: no correction is issued. When \<open>|d|\<close> is 2.1 seconds or more,
  exactly one more remote command follows, \<open>sudo date -s @N\<close>, where \<open>N\<close> is the
  local time at that moment in whole seconds since the epoch, with no fraction.
\<close>

theorem ensureSyncedGuestClock_tolerance:
  assumes "guestClockDelta w h (time_Now (S w) tr) tr = (Ret (d, None), tr1)"
    and "ensureSyncedGuestClock w h tr = (r, tr2)"
  shows "(\<bar>d\<bar> < 2100000000 \<longrightarrow> sshCommands tr2 = sshCommands tr @ [''date +%s.%N''])
       \<and> (\<bar>d\<bar> \<ge> 2100000000 \<longrightarrow> sshCommands tr2 = sshCommands tr @
             [''date +%s.%N'', ''sudo date -s @'' @ showInt (time_Now (S w) tr1 div 1000000000)])"
proof -
  note tr1 = guestClockDelta_measured[OF assms(1)]
  show ?thesis
  proof (cases "\<bar>d\<bar> < 2100000000")
    case True
    then have "tr2 = tr1 @ [glog_Infof ''guest clock delta is within tolerance: %s'']"
      using assms by (simp add: ensureSyncedGuestClock_def go_simps Duration_Seconds_tolerance)
    then show ?thesis using True by (simp add: tr1 sshCommands_append)
  next
    case False
    then have "tr2 = tr1 @ [RunSSHCommand_call
        (''sudo date -s @'' @ showInt (Time_Unix (time_Now (S w) tr1))),
        glog_Infof ''clock set: %s (err=%v)'']"
      using assms
      by (auto simp: ensureSyncedGuestClock_def adjustGuestClock_def go_simps
            Duration_Seconds_tolerance Let_def split: prod.splits option.splits)
    then show ?thesis using False by (simp add: tr1 sshCommands_append Time_Unix_def)
  qed
qed

text \<open>
  The guest reads 1580000002.2 while the local clock reads 1580000000: the delta is
  2.2 seconds, and the one correction carries 1580000000.
\<close>

theorem ensureSyncedGuestClock_tolerance_witness:
  "guestClockDelta (guestSays ''1580000002.200000000'') host0
       (time_Now (S (guestSays ''1580000002.200000000'')) []) []
     = (Ret (2200000000, None),
        [RunSSHCommand_call ''date +%s.%N'', glog_Infof ''guest clock: %s'',
         glog_Infof ''Guest: %s Remote: %s (delta=%s)''])
   \<and> sshCommands (snd (ensureSyncedGuestClock (guestSays ''1580000002.200000000'') host0 []))
     = [''date +%s.%N'', ''sudo date -s @1580000000'']"
proof -
  let ?w = "guestSays ''1580000002.200000000''"
  have m: "guestClockDelta ?w host0 (time_Now (S ?w) []) []
     = (Ret (2200000000, None),
        [RunSSHCommand_call ''date +%s.%N'', glog_Infof ''guest clock: %s'',
         glog_Infof ''Guest: %s Remote: %s (delta=%s)''])"
    by (simp add: guestClockDelta_def go_simps world0_simps strconv_simps
          time_Unix_def Time_Sub_def)
  have now: "time_Now (S ?w) [RunSSHCommand_call ''date +%s.%N'', glog_Infof ''guest clock: %s'',
         glog_Infof ''Guest: %s Remote: %s (delta=%s)''] = 1580000000000000000"
    by (simp add: world0_simps)
  have sh: "showInt 1580000000 = ''1580000000''"
    by (simp add: showInt_def)
  from ensureSyncedGuestClock_tolerance[OF m surjective_pairing]
  show ?thesis using m by (simp add: now sh)
qed

text \<open>
  What holds of the error handling of the synchronizer: an error of the measurement is
  logged and the nil error returned; an error of the correction command is returned,
  wrapped.
\<close>

lemma ensureSyncedGuestClock_measure_error:
  assumes "guestClockDelta w h (time_Now (S w) tr) tr = (Ret (d, Some e), tr1)"
  shows "ensureSyncedGuestClock w h tr
       = (Ret None, tr1 @ [glog_Warningf ''Unable to measure system clock delta: %v''])"
  using assms by (simp add: ensureSyncedGuestClock_def go_simps)

lemma ensureSyncedGuestClock_correct_error:
  assumes "guestClockDelta w h (time_Now (S w) tr) tr = (Ret (d, None), tr1)"
    and "\<bar>d\<bar> \<ge> 2100000000"
    and "RunSSHCommand (B w) tr1 h
           (''sudo date -s @'' @ showInt (Time_Unix (time_Now (S w) tr1))) = (out, Some e)"
  shows "fst (ensureSyncedGuestClock w h tr) = Ret (Some (Wrapped e ''adjusting system clock''))"
  using assms
  by (simp add: ensureSyncedGuestClock_def adjustGuestClock_def go_simps
        Duration_Seconds_tolerance Let_def)

text \<open>
  C4. The guest answers the clock query with \<open>1580000000\<close>, seconds without a
  fraction. The seconds parse, and the read of the second field of the split is out of
  range: \<open>ensureSyncedGuestClock\<close> panics, it does not return the nil error.
\<close>

theorem ensureSyncedGuestClock_no_fraction_panics:
  "ensureSyncedGuestClock (guestSays ''1580000000'') host0 []
     = (Panic ''index out of range'',
        [RunSSHCommand_call ''date +%s.%N'', glog_Infof ''guest clock: %s''])"
  by (simp add: ensureSyncedGuestClock_def guestClockDelta_def go_simps world0_simps
        strconv_simps)

subsection \<open>Traces only grow\<close>

lemma andThen_Ret: "m tr = (Ret a, tr') \<Longrightarrow> andThen m f tr = f a tr'"
  by (simp add: andThen_def)

lemma andThen_Panic: "m tr = (Panic p, tr') \<Longrightarrow> andThen m f tr = (Panic p, tr')"
  by (simp add: andThen_def)

text \<open>The combinators applied to a trace: one step of a run.\<close>

lemma andThen_apply:
  "andThen m f tr = (case m tr of (Ret a, tr') \<Rightarrow> f a tr' | (Panic p, tr') \<Rightarrow> (Panic p, tr'))"
  by (simp add: andThen_def)

lemma ret_apply: "ret a tr = (Ret a, tr)"
  by (simp add: ret_def)

lemma panic_apply: "panic p tr = (Panic p, tr)"
  by (simp add: panic_def)

lemma emit_apply: "emit e tr = (Ret (), tr @ [e])"
  by (simp add: emit_def)

lemma ask_apply: "ask e f tr = (Ret (f tr), tr @ [e])"
  by (simp add: ask_def)

lemma askR_apply: "askR ev f tr = (Ret (f tr), tr @ [ev (f tr)])"
  by (simp add: askR_def)

lemma peek_apply: "peek f tr = (Ret (f tr), tr)"
  by (simp add: peek_def)

lemma deferred_apply: "deferred es m tr = (case m tr of (r, tr') \<Rightarrow> (r, tr' @ es))"
  by (simp add: deferred_def)

lemma deref_apply:
  "deref (Some x) tr = (Ret x, tr)"
  "deref None tr = (Panic ''nil pointer dereference'', tr)"
  by (simp_all add: deref_def ret_def panic_def)

lemmas go_apply = andThen_apply ret_apply panic_apply emit_apply ask_apply askR_apply
  peek_apply deferred_apply deref_apply

lemma emits_ret: "emits Q (ret a)"
  by (simp add: emits_def ret_def)

lemma emits_panic: "emits Q (panic p)"
  by (simp add: emits_def panic_def)

lemma emits_peek: "emits Q (peek f)"
  by (simp add: emits_def peek_def)

lemma emits_deref: "emits Q (deref p)"
  by (cases p) (simp_all add: deref_def emits_ret emits_panic)

lemma emits_emit: "Q e \<Longrightarrow> emits Q (emit e)"
  by (simp add: emits_def emit_def)

lemma emits_ask: "Q e \<Longrightarrow> emits Q (ask e f)"
  by (simp add: emits_def ask_def)

lemma emits_askR: "(\<And>a. Q (ev a)) \<Longrightarrow> emits Q (askR ev f)"
  by (simp add: emits_def askR_def)

lemma emits_andThen:
  assumes "emits Q m" and "\<And>a. emits Q (f a)"
  shows "emits Q (andThen m f)"
proof (unfold emits_def, intro allI)
  fix tr
  obtain r tr1 where m: "m tr = (r, tr1)" by (cases "m tr")
  from assms(1) have "\<exists>es. snd (m tr) = tr @ es \<and> list_all Q es"
    unfolding emits_def by blast
  with m obtain es where es: "tr1 = tr @ es" "list_all Q es"
    by auto
  show "\<exists>es. snd (andThen m f tr) = tr @ es \<and> list_all Q es"
  proof (cases r)
    case (Ret a)
    from assms(2)[of a] obtain es2 where "snd (f a tr1) = tr1 @ es2" "list_all Q es2"
      by (auto simp: emits_def)
    then show ?thesis using m Ret es by (auto simp: andThen_def)
  next
    case (Panic p)
    then show ?thesis using m es by (auto simp: andThen_def)
  qed
qed

lemma emits_deferred:
  assumes "emits Q m" and "list_all Q es"
  shows "emits Q (deferred es m)"
proof (unfold emits_def, intro allI)
  fix tr
  obtain r tr1 where m: "m tr = (r, tr1)" by (cases "m tr")
  from assms(1) have "\<exists>es. snd (m tr) = tr @ es \<and> list_all Q es"
    unfolding emits_def by blast
  with m obtain es1 where "tr1 = tr @ es1" "list_all Q es1"
    by auto
  then show "\<exists>es'. snd (deferred es m tr) = tr @ es' \<and> list_all Q es'"
    using m assms(2) by (auto simp: deferred_def)
qed

lemma emits_if:
  "(c \<Longrightarrow> emits Q a) \<Longrightarrow> (\<not> c \<Longrightarrow> emits Q b) \<Longrightarrow> emits Q (if c then a else b)"
  by simp

lemma emits_case_option:
  "emits Q a \<Longrightarrow> (\<And>y. emits Q (b y)) \<Longrightarrow> emits Q (case x of None \<Rightarrow> a | Some y \<Rightarrow> b y)"
  by (cases x) simp_all

lemma emits_case_prod: "(\<And>a b. emits Q (f a b)) \<Longrightarrow> emits Q (case p of (a, b) \<Rightarrow> f a b)"
  by (cases p) simp

lemma emits_case_sum:
  "(\<And>y. emits Q (a y)) \<Longrightarrow> (\<And>y. emits Q (b y))
   \<Longrightarrow> emits Q (case x of Inl y \<Rightarrow> a y | Inr y \<Rightarrow> b y)"
  by (cases x) simp_all

lemma emits_Let: "emits Q (f x) \<Longrightarrow> emits Q (Let x f)"
  by simp

lemmas emits_intros = emits_ret emits_panic emits_peek emits_deref emits_emit emits_ask
  emits_askR emits_andThen emits_deferred emits_if emits_case_option emits_case_prod
  emits_case_sum emits_Let

subsection \<open>Lock manager\<close>

lemma noAcquire_ensureSyncedGuestClock:
  "emits (\<lambda>e. \<not> isAcquire e) (ensureSyncedGuestClock w h)"
  unfolding ensureSyncedGuestClock_def adjustGuestClock_def guestClockDelta_def
  by (intro emits_intros) simp_all

lemma noAcquire_createRequiredDirectories:
  "emits (\<lambda>e. \<not> isAcquire e) (createRequiredDirectories w h)"
  unfolding createRequiredDirectories_def commandRunner_def
  by (intro emits_intros) simp_all

lemma noAcquire_configureHost: "emits (\<lambda>e. \<not> isAcquire e) (configureHost w h e)"
  unfolding configureHost_def provisionEnv_def
  by (intro emits_intros noAcquire_ensureSyncedGuestClock noAcquire_createRequiredDirectories)
     simp_all

lemma noAcquire_createHost: "emits (\<lambda>e. \<not> isAcquire e) (createHost w cfg)"
  unfolding createHost_def showHostInfo_def getHostInfo_def fillHostOptions_def
    showLocalOsRelease_def showRemoteOsRelease_def
  by (intro emits_intros noAcquire_ensureSyncedGuestClock noAcquire_createRequiredDirectories)
     simp_all

lemma noAcquire_startExisting: "emits (\<lambda>e. \<not> isAcquire e) (startExisting w cfg)"
  unfolding startExisting_def
  by (intro emits_intros noAcquire_configureHost) simp_all

lemma acquireMachinesLock_trace:
  "acquireMachinesLock w name tr =
     (Ret (mutex_Acquire_result (S w) (tr @ [glog_Infof ''acquiring machines lock for %s: %+v''])
             (lock_PathMutexSpec (P w)
                (filepath_Join (P w) [localpath_MiniPath (P w), ''machines'']))
             600000000000),
      tr @ [glog_Infof ''acquiring machines lock for %s: %+v'',
            mutex_Acquire (lock_PathMutexSpec (P w)
                (filepath_Join (P w) [localpath_MiniPath (P w), ''machines'']))
              600000000000]
         @ (if mutex_Acquire_result (S w)
                 (tr @ [glog_Infof ''acquiring machines lock for %s: %+v''])
                 (lock_PathMutexSpec (P w)
                    (filepath_Join (P w) [localpath_MiniPath (P w), ''machines'']))
                 600000000000 = None
            then [glog_Infof ''acquired machines lock for %q in %s''] else []))"
  by (simp add: acquireMachinesLock_def go_simps Let_def)

text \<open>
  C7. Whatever the configuration and the trace before, the first thing \<open>StartHost\<close>
  does after its log line is to acquire the mutex whose name is made from the path
  \<open>MiniPath/machines\<close> alone (the host name does not enter it), with a timeout of
  600000000000 nanoseconds, which is 10 minutes; no other acquisition follows.
\<close>

theorem StartHost_machines_lock:
  "\<exists>rest. snd (StartHost w cfg tr) =
      tr @ [glog_Infof ''acquiring machines lock for %s: %+v'',
            mutex_Acquire (lock_PathMutexSpec (P w)
                (filepath_Join (P w) [localpath_MiniPath (P w), ''machines'']))
              (10 * 60 * 1000000000)] @ rest
    \<and> list_all (\<lambda>e. \<not> isAcquire e) rest"
proof -
  let ?acq = "[glog_Infof ''acquiring machines lock for %s: %+v'',
            mutex_Acquire (lock_PathMutexSpec (P w)
                (filepath_Join (P w) [localpath_MiniPath (P w), ''machines'']))
              600000000000]"
  obtain err t1 where a: "acquireMachinesLock w (cfg_Name cfg) tr = (Ret err, t1)"
    and t1: "t1 = tr @ ?acq @ (if err = None
               then [glog_Infof ''acquired machines lock for %q in %s''] else [])"
    using acquireMachinesLock_trace[of w "cfg_Name cfg" tr] by simp
  show ?thesis
  proof (cases err)
    case (Some e)
    then have "snd (StartHost w cfg tr) = tr @ ?acq @ []"
      using a t1 by (simp add: StartHost_def go_simps)
    then show ?thesis by simp
  next
    case None
    have "emits (\<lambda>e. \<not> isAcquire e)
       (deferred [glog_Infof ''releasing machines lock for %q, held for %s'', Releaser_Release]
          (andThen (ask (api_Exists_call (cfg_Name cfg))
                     (\<lambda>tr. api_Exists (A w) tr (cfg_Name cfg))) (\<lambda>(exists, xerr).
           case xerr of
             Some e \<Rightarrow> ret (None, errors_Wrap (Some e) (''exists: '' @ cfg_Name cfg))
           | None \<Rightarrow>
               if \<not> exists then
                 andThen (emit (glog_Infof ''Machine does not exist... provisioning new machine'')) (\<lambda>_.
                 andThen (emit (glog_Infof ''Provisioning machine with config: %+v'')) (\<lambda>_.
                 createHost w cfg))
               else startExisting w cfg)))" (is "emits _ ?body")
      by (intro emits_intros noAcquire_createHost noAcquire_startExisting) simp_all
    then obtain es where es: "snd (?body t1) = t1 @ es" "list_all (\<lambda>e. \<not> isAcquire e) es"
      unfolding emits_def by blast
    have "snd (StartHost w cfg tr) = snd (?body t1)"
      unfolding StartHost_def
      by (subst andThen_Ret[of "acquireMachinesLock w (cfg_Name cfg)" tr err t1, OF a])
         (simp only: None option.case)
    then have "snd (StartHost w cfg tr)
        = tr @ ?acq @ (glog_Infof ''acquired machines lock for %q in %s'' # es)"
      using es t1 None by simp
    moreover have "list_all (\<lambda>e. \<not> isAcquire e)
        (glog_Infof ''acquired machines lock for %q in %s'' # es)"
      using es by simp
    ultimately show ?thesis by (intro exI[of _ "glog_Infof ''acquired machines lock for %q in %s'' # es"]) simp
  qed
qed

subsection \<open>Network address resolver\<close>

text \<open>
  C8. For a host of the KVM2 kind \<open>GetVMHostIP\<close> returns the address parsed from the
  literal \<open>192.168.39.1\<close>, for a host of the HyperKit kind (a name other than those of
  the three cases before it in the switch) the one parsed from \<open>192.168.64.1\<close>, in
  both cases with the nil error and the trace as it was: nothing outside the package is
  called. For a kind that is none of the five of the switch it returns the
  unsupported-driver error, again with the trace unchanged.
\<close>

theorem GetVMHostIP_fixed_gateways:
  "(h_DriverName host = driver_KVM2 (P w) \<longrightarrow>
      GetVMHostIP w host tr = (Ret (net_ParseIP (P w) ''192.168.39.1'', None), tr))
   \<and> (h_DriverName host = driver_HyperKit (P w)
        \<and> driver_HyperKit (P w) \<notin> {driver_KVM2 (P w), driver_HyperV (P w),
                                     driver_VirtualBox (P w)} \<longrightarrow>
      GetVMHostIP w host tr = (Ret (net_ParseIP (P w) ''192.168.64.1'', None), tr))
   \<and> (h_DriverName host \<notin> {driver_KVM2 (P w), driver_HyperV (P w), driver_VirtualBox (P w),
                              driver_HyperKit (P w), driver_VMware (P w)} \<longrightarrow>
      GetVMHostIP w host tr =
        (Ret (Some [], Some (Err
           ''Error, attempted to get host ip address for unsupported driver'')), tr))"
  by (simp add: GetVMHostIP_def ret_def)

text \<open>
  With the driver names of package driver: kvm2 gives 192.168.39.1, hyperkit gives
  192.168.64.1, parallels is unsupported.
\<close>

theorem GetVMHostIP_fixed_gateways_witness:
  "h_DriverName (hostOfKind ''kvm2'') = driver_KVM2 (P world0)
   \<and> GetVMHostIP world0 (hostOfKind ''kvm2'') []
       = (Ret (Some [0, 0, 0, 0, 0, 0, 0, 0, 0, 0, 255, 255, 192, 168, 39, 1], None), [])
   \<and> h_DriverName (hostOfKind ''hyperkit'') = driver_HyperKit (P world0)
   \<and> driver_HyperKit (P world0) \<notin> {driver_KVM2 (P world0), driver_HyperV (P world0),
                                     driver_VirtualBox (P world0)}
   \<and> GetVMHostIP world0 (hostOfKind ''hyperkit'') []
       = (Ret (Some [0, 0, 0, 0, 0, 0, 0, 0, 0, 0, 255, 255, 192, 168, 64, 1], None), [])
   \<and> h_DriverName (hostOfKind ''parallels'')
        \<notin> {driver_KVM2 (P world0), driver_HyperV (P world0), driver_VirtualBox (P world0),
           driver_HyperKit (P world0), driver_VMware (P world0)}
   \<and> GetVMHostIP world0 (hostOfKind ''parallels'') []
       = (Ret (Some [], Some (Err
            ''Error, attempted to get host ip address for unsupported driver'')), [])"
proof -
  have k: "h_DriverName (hostOfKind ''kvm2'') = driver_KVM2 (P world0)"
    by (simp add: hostOfKind_def world0_simps)
  have hk: "h_DriverName (hostOfKind ''hyperkit'') = driver_HyperKit (P world0)
     \<and> driver_HyperKit (P world0) \<notin> {driver_KVM2 (P world0), driver_HyperV (P world0),
                                       driver_VirtualBox (P world0)}"
    by (simp add: hostOfKind_def world0_simps)
  have u: "h_DriverName (hostOfKind ''parallels'')
        \<notin> {driver_KVM2 (P world0), driver_HyperV (P world0), driver_VirtualBox (P world0),
           driver_HyperKit (P world0), driver_VMware (P world0)}"
    by (simp add: hostOfKind_def world0_simps)
  have p: "net_ParseIP (P world0) ''192.168.39.1''
             = Some [0, 0, 0, 0, 0, 0, 0, 0, 0, 0, 255, 255, 192, 168, 39, 1]"
          "net_ParseIP (P world0) ''192.168.64.1''
             = Some [0, 0, 0, 0, 0, 0, 0, 0, 0, 0, 255, 255, 192, 168, 64, 1]"
    by (simp_all add: world0_simps net_IPv4_def v4InV6Prefix_def)
  from GetVMHostIP_fixed_gateways[of "hostOfKind ''kvm2''" world0 "[]"]
       GetVMHostIP_fixed_gateways[of "hostOfKind ''hyperkit''" world0 "[]"]
       GetVMHostIP_fixed_gateways[of "hostOfKind ''parallels''" world0 "[]"]
  show ?thesis using k hk u by (simp add: p)
qed

lemma getIPForInterface_absent:
  assumes "fst (net_InterfaceByName (S w) tr name) = None"
  shows "getIPForInterface w name tr
       = (Ret (None, Some (Err (''Error finding IPV4 address for '' @ name))),
          tr @ [net_InterfaceByName_call name])"
proof -
  obtain i e where p: "net_InterfaceByName (S w) tr name = (i, e)"
    by (cases "net_InterfaceByName (S w) tr name")
  with assms have "i = None" by simp
  then show ?thesis using p
    by (simp add: getIPForInterface_def Addrs_def go_simps)
qed

lemma getIPForInterface_present:
  assumes "fst (net_InterfaceByName (S w) tr name) = Some ifi"
  shows "getIPForInterface w name tr
       = (Ret (case firstIPv4 (fst (Interface_Addrs (S w)
                     (tr @ [net_InterfaceByName_call name]) ifi)) of
                 Some ip \<Rightarrow> (Some ip, None)
               | None \<Rightarrow> (None, Some (Err (''Error finding IPV4 address for '' @ name)))),
          tr @ [net_InterfaceByName_call name, Interface_Addrs_call])"
proof -
  obtain i e where p: "net_InterfaceByName (S w) tr name = (i, e)"
    by (cases "net_InterfaceByName (S w) tr name")
  with assms have i: "i = Some ifi" by simp
  obtain addrs e2 where q:
    "Interface_Addrs (S w) (tr @ [net_InterfaceByName_call name]) ifi = (addrs, e2)"
    by (cases "Interface_Addrs (S w) (tr @ [net_InterfaceByName_call name]) ifi")
  show ?thesis using p i q
    by (cases "firstIPv4 addrs") (simp_all add: getIPForInterface_def Addrs_def go_simps)
qed

text \<open>
  The loop, said without it: an address list whose first \<open>*net.IPNet\<close> with an IPv4
  form stands after addresses that have none gives that IPv4 form; a list in which no
  \<open>*net.IPNet\<close> has an IPv4 form gives nil.
\<close>

lemma firstIPv4_first:
  assumes "To4 ip = Some r" and "\<forall>ip'. IPNet ip' \<in> set pre \<longrightarrow> To4 ip' = None"
  shows "firstIPv4 (pre @ IPNet ip # post) = Some r"
  using assms(2)
proof (induction pre)
  case Nil
  then show ?case using assms(1) by simp
next
  case (Cons a pre)
  then show ?case by (cases a) simp_all
qed

lemma firstIPv4_none:
  assumes "\<forall>ip'. IPNet ip' \<in> set as \<longrightarrow> To4 ip' = None"
  shows "firstIPv4 as = None"
  using assms
proof (induction as)
  case Nil
  then show ?case by simp
next
  case (Cons a as)
  then show ?case by (cases a) simp_all
qed

text \<open>
  C10, as the code has it. No interface is called \<open>eth9\<close>: the lookup fails, and
  \<open>getIPForInterface\<close> returns its address-not-found error; it does not panic.
\<close>

theorem getIPForInterface_lookup_failure_counterexample:
  "fst (net_InterfaceByName (S world0) [] ''eth9'') = None
   \<and> getIPForInterface world0 ''eth9'' []
       = (Ret (None, Some (Err ''Error finding IPV4 address for eth9'')),
          [net_InterfaceByName_call ''eth9''])"
  by (simp add: getIPForInterface_def Addrs_def go_simps world0_simps)

text \<open>
  C10, amended. \<open>getIPForInterface\<close> drops the errors of the lookup and of the
  enumeration and never panics on a failed lookup. When the lookup gives no interface,
  the enumeration on the absent handle gives no address and the function returns the
  address-not-found error naming the interface. When the lookup gives an interface and
  the enumerated addresses are \<open>pre\<close>, then a \<open>*net.IPNet\<close> whose address has the
  IPv4 form \<open>r\<close>, then \<open>post\<close>, where no \<open>*net.IPNet\<close> of \<open>pre\<close> has an IPv4
  form, the function returns \<open>r\<close> and the nil error: the first IPv4 address in the
  order of the enumeration, whatever follows it. When no enumerated \<open>*net.IPNet\<close>
  has an IPv4 form, it returns the address-not-found error.
\<close>

theorem getIPForInterface_error_return:
  "(fst (net_InterfaceByName (S w) tr name) = None \<longrightarrow>
      getIPForInterface w name tr
        = (Ret (None, Some (Err (''Error finding IPV4 address for '' @ name))),
           tr @ [net_InterfaceByName_call name]))
   \<and> (\<forall>ifi pre ip post r.
        fst (net_InterfaceByName (S w) tr name) = Some ifi
        \<and> fst (Interface_Addrs (S w) (tr @ [net_InterfaceByName_call name]) ifi)
            = pre @ IPNet ip # post
        \<and> To4 ip = Some r
        \<and> (\<forall>ip'. IPNet ip' \<in> set pre \<longrightarrow> To4 ip' = None) \<longrightarrow>
      getIPForInterface w name tr
        = (Ret (Some r, None), tr @ [net_InterfaceByName_call name, Interface_Addrs_call]))
   \<and> (\<forall>ifi.
        fst (net_InterfaceByName (S w) tr name) = Some ifi
        \<and> (\<forall>ip'. IPNet ip' \<in> set (fst (Interface_Addrs (S w)
                      (tr @ [net_InterfaceByName_call name]) ifi)) \<longrightarrow> To4 ip' = None) \<longrightarrow>
      getIPForInterface w name tr
        = (Ret (None, Some (Err (''Error finding IPV4 address for '' @ name))),
           tr @ [net_InterfaceByName_call name, Interface_Addrs_call]))"
proof (intro conjI allI impI)
  assume "fst (net_InterfaceByName (S w) tr name) = None"
  then show "getIPForInterface w name tr
        = (Ret (None, Some (Err (''Error finding IPV4 address for '' @ name))),
           tr @ [net_InterfaceByName_call name])"
    by (rule getIPForInterface_absent)
next
  fix ifi pre ip post r
  assume h: "fst (net_InterfaceByName (S w) tr name) = Some ifi
        \<and> fst (Interface_Addrs (S w) (tr @ [net_InterfaceByName_call name]) ifi)
            = pre @ IPNet ip # post
        \<and> To4 ip = Some r
        \<and> (\<forall>ip'. IPNet ip' \<in> set pre \<longrightarrow> To4 ip' = None)"
  then have "firstIPv4 (fst (Interface_Addrs (S w)
                (tr @ [net_InterfaceByName_call name]) ifi)) = Some r"
    using firstIPv4_first[of ip r pre post] by simp
  then show "getIPForInterface w name tr
        = (Ret (Some r, None), tr @ [net_InterfaceByName_call name, Interface_Addrs_call])"
    using getIPForInterface_present[of w tr name ifi] h by simp
next
  fix ifi
  assume h: "fst (net_InterfaceByName (S w) tr name) = Some ifi
        \<and> (\<forall>ip'. IPNet ip' \<in> set (fst (Interface_Addrs (S w)
                      (tr @ [net_InterfaceByName_call name]) ifi)) \<longrightarrow> To4 ip' = None)"
  then have "firstIPv4 (fst (Interface_Addrs (S w)
                (tr @ [net_InterfaceByName_call name]) ifi)) = None"
    using firstIPv4_none by blast
  then show "getIPForInterface w name tr
        = (Ret (None, Some (Err (''Error finding IPV4 address for '' @ name))),
           tr @ [net_InterfaceByName_call name, Interface_Addrs_call])"
    using getIPForInterface_present[of w tr name ifi] h by simp
qed

text \<open>
  \<open>eth9\<close> does not exist. \<open>vboxnet0\<close> has 192.168.99.1 before 10.0.2.15, and the
  first is returned. \<open>tun6\<close> has no IPv4 address.
\<close>

theorem getIPForInterface_error_return_witness:
  "fst (net_InterfaceByName (S world0) [] ''eth9'') = None
   \<and> getIPForInterface world0 ''eth9'' []
       = (Ret (None, Some (Err ''Error finding IPV4 address for eth9'')),
          [net_InterfaceByName_call ''eth9''])
   \<and> fst (net_InterfaceByName (S ifaceWorld) [] ''vboxnet0'') = Some 3
   \<and> fst (Interface_Addrs (S ifaceWorld) ([] @ [net_InterfaceByName_call ''vboxnet0'']) 3)
       = [IPAddr (Some [10, 0, 0, 1]),
          IPNet (Some [254, 128, 0, 0, 0, 0, 0, 0, 0, 0, 0, 0, 0, 0, 0, 1])]
         @ IPNet (net_IPv4 192 168 99 1) # [IPNet (Some [10, 0, 2, 15])]
   \<and> To4 (net_IPv4 192 168 99 1) = Some [192, 168, 99, 1]
   \<and> \<not> (\<exists>ip'. IPNet ip' \<in> set [IPAddr (Some [10, 0, 0, 1]),
          IPNet (Some [254, 128, 0, 0, 0, 0, 0, 0, 0, 0, 0, 0, 0, 0, 0, 1])]
        \<and> To4 ip' \<noteq> None)
   \<and> getIPForInterface ifaceWorld ''vboxnet0'' []
       = (Ret (Some [192, 168, 99, 1], None),
          [net_InterfaceByName_call ''vboxnet0'', Interface_Addrs_call])
   \<and> fst (net_InterfaceByName (S ifaceWorld) [] ''tun6'') = Some 4
   \<and> \<not> (\<exists>ip'. IPNet ip' \<in> set (fst (Interface_Addrs (S ifaceWorld)
                      ([] @ [net_InterfaceByName_call ''tun6'']) 4)) \<and> To4 ip' \<noteq> None)
   \<and> getIPForInterface ifaceWorld ''tun6'' []
       = (Ret (None, Some (Err ''Error finding IPV4 address for tun6'')),
          [net_InterfaceByName_call ''tun6'', Interface_Addrs_call])"
proof -
  have a: "fst (net_InterfaceByName (S world0) [] ''eth9'') = None"
    by (simp add: world0_simps)
  have b: "fst (net_InterfaceByName (S ifaceWorld) [] ''vboxnet0'') = Some 3"
    by (simp add: ifaceWorld_def world0_simps)
  have c: "fst (Interface_Addrs (S ifaceWorld) ([] @ [net_InterfaceByName_call ''vboxnet0'']) 3)
       = [IPAddr (Some [10, 0, 0, 1]),
          IPNet (Some [254, 128, 0, 0, 0, 0, 0, 0, 0, 0, 0, 0, 0, 0, 0, 1])]
         @ IPNet (net_IPv4 192 168 99 1) # [IPNet (Some [10, 0, 2, 15])]"
    by (simp add: ifaceWorld_def world0_simps)
  have d: "To4 (net_IPv4 192 168 99 1) = Some [192, 168, 99, 1]"
    by (simp add: To4_def net_IPv4_def v4InV6Prefix_def)
  have e: "\<forall>ip'. IPNet ip' \<in> set [IPAddr (Some [10, 0, 0, 1]),
          IPNet (Some [254, 128, 0, 0, 0, 0, 0, 0, 0, 0, 0, 0, 0, 0, 0, 1])]
        \<longrightarrow> To4 ip' = None"
    by (simp add: To4_def v4InV6Prefix_def)
  have f: "fst (net_InterfaceByName (S ifaceWorld) [] ''tun6'') = Some 4"
    by (simp add: ifaceWorld_def world0_simps)
  have g: "\<forall>ip'. IPNet ip' \<in> set (fst (Interface_Addrs (S ifaceWorld)
                      ([] @ [net_InterfaceByName_call ''tun6'']) 4)) \<longrightarrow> To4 ip' = None"
    by (simp add: ifaceWorld_def world0_simps To4_def v4InV6Prefix_def)
  note t1 = getIPForInterface_error_return[of world0 "[]" "''eth9''", THEN conjunct1, rule_format, OF a]
  note t2 = getIPForInterface_error_return[of ifaceWorld "[]" "''vboxnet0''",
      THEN conjunct2, THEN conjunct1, rule_format, OF conjI[OF b conjI[OF c conjI[OF d e]]]]
  note t3 = getIPForInterface_error_return[of ifaceWorld "[]" "''tun6''",
      THEN conjunct2, THEN conjunct2, rule_format, OF conjI[OF f g]]
  have e': "\<not> (\<exists>ip'. IPNet ip' \<in> set [IPAddr (Some [10, 0, 0, 1]),
          IPNet (Some [254, 128, 0, 0, 0, 0, 0, 0, 0, 0, 0, 0, 0, 0, 0, 1])]
        \<and> To4 ip' \<noteq> None)"
    by (simp add: To4_def v4InV6Prefix_def)
  have g': "\<not> (\<exists>ip'. IPNet ip' \<in> set (fst (Interface_Addrs (S ifaceWorld)
                      ([] @ [net_InterfaceByName_call ''tun6'']) 4)) \<and> To4 ip' \<noteq> None)"
    by (simp add: ifaceWorld_def world0_simps To4_def v4InV6Prefix_def)
  show ?thesis
    using a b c d e' f g' t1 t2 t3 by simp
qed

subsection \<open>Delete\<close>

lemma DeleteHost_load_result:
  "\<exists>es. DeleteHost_load w name tr = (Ret (fst (api_Load (A w) tr name)), tr @ es)
        \<and> list_all (\<lambda>e. \<not> isRemove e) es"
proof -
  obtain hp lerr where l: "api_Load (A w) tr name = (hp, lerr)"
    by (cases "api_Load (A w) tr name")
  obtain out xerr where x: "exec_Run (S w) (tr @ [api_Load_call name])
      [oci_Docker (P w), ''rm'', ''-f'', ''-v'', name] = (out, xerr)"
    by (cases "exec_Run (S w) (tr @ [api_Load_call name])
      [oci_Docker (P w), ''rm'', ''-f'', ''-v'', name]")
  show ?thesis using l x
    by (simp add: DeleteHost_load_def deleteOrphanedKIC_def go_simps Let_def)
qed

lemma noRemove_GetHostStatus: "emits (\<lambda>e. \<not> isRemove e) (GetHostStatus w name)"
  unfolding GetHostStatus_def
  by (intro emits_intros) simp_all

text \<open>
  C5. When the status query of \<open>DeleteHost\<close> gives the string of the state None,
  \<open>DeleteHost\<close> returns the error \<open>ErrHostDoesNotExist\<close> for that name, and among
  the events of the invocation there is neither the driver's remove nor the store's.
\<close>

theorem DeleteHost_nonexistent:
  assumes "GetHostStatus w name (snd (DeleteHost_load w name tr))
             = (Ret (State_String None_state, serr), tr2)"
  shows "\<exists>es. DeleteHost w name tr = (Ret (Some (ErrHostDoesNotExist name)), tr @ es)
             \<and> list_all (\<lambda>e. \<not> isRemove e) es"
proof -
  obtain es1 where l: "DeleteHost_load w name tr = (Ret (fst (api_Load (A w) tr name)), tr @ es1)"
    and es1: "list_all (\<lambda>e. \<not> isRemove e) es1"
    using DeleteHost_load_result by blast
  from assms l have g: "GetHostStatus w name (tr @ es1)
      = (Ret (State_String None_state, serr), tr2)" by simp
  from noRemove_GetHostStatus[of w name] obtain es2
    where "snd (GetHostStatus w name (tr @ es1)) = (tr @ es1) @ es2"
      and es2: "list_all (\<lambda>e. \<not> isRemove e) es2"
    unfolding emits_def by blast
  with g have tr2: "tr2 = tr @ es1 @ es2" by simp
  have "DeleteHost w name tr = (Ret (Some (ErrHostDoesNotExist name)),
      tr2 @ (if serr \<noteq> None
             then [out_WarningT ''Unable to get the status of the {{.name}} cluster.'']
             else []))"
    unfolding DeleteHost_def
    by (subst andThen_Ret[of "DeleteHost_load w name" tr _ "tr @ es1", OF l],
        subst andThen_Ret[of "GetHostStatus w name" "tr @ es1" _ tr2, OF g])
       (simp add: emit_def ret_def andThen_def)
  then show ?thesis using tr2 es1 es2 by auto
qed

theorem DeleteHost_nonexistent_witness:
  "GetHostStatus world0 ''minikube'' (snd (DeleteHost_load world0 ''minikube'' []))
     = (Ret (State_String None_state, None),
        [api_Load_call ''minikube'',
         exec_Command [''docker'', ''rm'', ''-f'', ''-v'', ''minikube''],
         glog_Infof ''Found stale kic container and successfully cleaned it up!'',
         api_Exists_call ''minikube''])
   \<and> (\<exists>es. DeleteHost world0 ''minikube'' []
              = (Ret (Some (ErrHostDoesNotExist ''minikube'')), [] @ es)
          \<and> list_all (\<lambda>e. \<not> isRemove e) es)"
proof -
  have g: "GetHostStatus world0 ''minikube'' (snd (DeleteHost_load world0 ''minikube'' []))
     = (Ret (State_String None_state, None),
        [api_Load_call ''minikube'',
         exec_Command [''docker'', ''rm'', ''-f'', ''-v'', ''minikube''],
         glog_Infof ''Found stale kic container and successfully cleaned it up!'',
         api_Exists_call ''minikube''])"
    by (simp add: GetHostStatus_def DeleteHost_load_def deleteOrphanedKIC_def go_simps
          world0_simps Let_def)
  from DeleteHost_nonexistent[OF g] g show ?thesis by blast
qed

lemma GetHostStatus_error_status:
  assumes "GetHostStatus w name t = (Ret (status, Some e), t')"
  shows "status = State_String None_state"
proof -
  obtain ex xerr where x: "api_Exists (A w) t name = (ex, xerr)"
    by (cases "api_Exists (A w) t name")
  obtain hp lerr where l: "api_Load (A w) (t @ [api_Exists_call name]) name = (hp, lerr)"
    by (cases "api_Load (A w) (t @ [api_Exists_call name]) name")
  show ?thesis
  proof (cases "xerr = None \<and> ex \<and> lerr = None")
    case False
    then show ?thesis using assms x l
      by (auto simp: GetHostStatus_def go_apply split: option.splits if_splits)
  next
    case True
    show ?thesis
    proof (cases hp)
      case None
      then show ?thesis using assms x l True by (simp add: GetHostStatus_def go_apply)
    next
      case (Some host)
      show ?thesis
      proof (cases "h_Driver host")
        case None
        then show ?thesis using assms x l True Some
          by (simp add: GetHostStatus_def go_apply)
      next
        case d: (Some d)
        obtain s serr where g: "Driver_GetState (B w)
            (t @ [api_Exists_call name, api_Load_call name]) d = (s, serr)"
          by (cases "Driver_GetState (B w) (t @ [api_Exists_call name, api_Load_call name]) d")
        show ?thesis using assms x l True Some d g
          by (cases serr) (simp_all add: GetHostStatus_def go_apply)
      qed
    qed
  qed
qed

lemma GetHostStatus_load_fails:
  assumes "\<forall>t. snd (api_Load (A w) t name) \<noteq> None"
  shows "\<exists>serr t'. GetHostStatus w name t = (Ret (State_String None_state, serr), t')"
proof -
  obtain ex xerr where x: "api_Exists (A w) t name = (ex, xerr)"
    by (cases "api_Exists (A w) t name")
  obtain hp lerr where l: "api_Load (A w) (t @ [api_Exists_call name]) name = (hp, lerr)"
    by (cases "api_Load (A w) (t @ [api_Exists_call name]) name")
  with assms obtain le where "lerr = Some le"
    by (metis not_None_eq snd_conv)
  then show ?thesis using x l
    by (cases xerr; cases ex) (simp_all add: GetHostStatus_def go_apply)
qed

text \<open>
  C9, as the code has it. The store lists the host and fails every load. The load of
  \<open>DeleteHost\<close> gives no host, the status query fails on its own load and so does not
  resolve to any state; \<open>DeleteHost\<close> warns, takes the empty status string for that
  of None and returns \<open>ErrHostDoesNotExist\<close>. The absent host is not dereferenced.
\<close>

theorem DeleteHost_status_failure_counterexample:
  "api_Load (A loadFails) [] ''minikube'' = (None, Some (Err ''Host does not exist''))
   \<and> GetHostStatus loadFails ''minikube'' (snd (DeleteHost_load loadFails ''minikube'' []))
       = (Ret ([], Some (Wrapped (Err ''Host does not exist'') ''load'')),
          [api_Load_call ''minikube'',
           exec_Command [''docker'', ''rm'', ''-f'', ''-v'', ''minikube''],
           glog_Infof ''Found stale kic container and successfully cleaned it up!'',
           api_Exists_call ''minikube'', api_Load_call ''minikube''])
   \<and> DeleteHost loadFails ''minikube'' []
       = (Ret (Some (ErrHostDoesNotExist ''minikube'')),
          [api_Load_call ''minikube'',
           exec_Command [''docker'', ''rm'', ''-f'', ''-v'', ''minikube''],
           glog_Infof ''Found stale kic container and successfully cleaned it up!'',
           api_Exists_call ''minikube'', api_Load_call ''minikube'',
           out_WarningT ''Unable to get the status of the {{.name}} cluster.''])"
  by (simp add: DeleteHost_def GetHostStatus_def DeleteHost_load_def deleteOrphanedKIC_def
        go_apply loadFails_def world0_simps Let_def)

text \<open>
  C9, amended. Let the load of \<open>DeleteHost\<close> fail and give no host. When the status
  query then succeeds with a state whose string is not that of None (which it can only
  do without an error), \<open>DeleteHost\<close> panics on the nil host at the driver-kind check.
  When the status query fails, or gives None, the status string is that of None and
  \<open>DeleteHost\<close> returns \<open>ErrHostDoesNotExist\<close>, after the warning in the first case,
  and the nil host is never touched. In every case no removal is among the events up to
  there. With a store whose load of that name fails every time, \<open>DeleteHost\<close> always
  returns \<open>ErrHostDoesNotExist\<close>: the dereference is out of reach.
\<close>

theorem DeleteHost_absent_host:
  assumes "api_Load (A w) tr name = (None, Some e)"
    and "GetHostStatus w name (snd (DeleteHost_load w name tr)) = (Ret (status, serr), tr2)"
  shows "(status \<noteq> State_String None_state \<longrightarrow>
            serr = None
          \<and> DeleteHost w name tr = (Panic ''nil pointer dereference'', tr2))
       \<and> (serr \<noteq> None \<longrightarrow>
            status = State_String None_state
          \<and> DeleteHost w name tr = (Ret (Some (ErrHostDoesNotExist name)),
               tr2 @ [out_WarningT ''Unable to get the status of the {{.name}} cluster.'']))
       \<and> (status = State_String None_state \<and> serr = None \<longrightarrow>
            DeleteHost w name tr = (Ret (Some (ErrHostDoesNotExist name)), tr2))
       \<and> (\<exists>es. tr2 = tr @ es \<and> list_all (\<lambda>e. \<not> isRemove e) es)
       \<and> ((\<forall>t. snd (api_Load (A w) t name) \<noteq> None) \<longrightarrow>
            fst (DeleteHost w name tr) = Ret (Some (ErrHostDoesNotExist name)))"
proof -
  obtain es1 where l: "DeleteHost_load w name tr = (Ret (fst (api_Load (A w) tr name)), tr @ es1)"
    and es1: "list_all (\<lambda>e. \<not> isRemove e) es1"
    using DeleteHost_load_result by blast
  then have l': "DeleteHost_load w name tr = (Ret None, tr @ es1)"
    using assms(1) by simp
  from assms(2) l have g: "GetHostStatus w name (tr @ es1) = (Ret (status, serr), tr2)"
    by simp
  from noRemove_GetHostStatus[of w name] obtain es2
    where "snd (GetHostStatus w name (tr @ es1)) = (tr @ es1) @ es2"
      and es2: "list_all (\<lambda>e. \<not> isRemove e) es2"
    unfolding emits_def by blast
  with g have tr2: "tr2 = tr @ es1 @ es2" by simp
  have st: "serr \<noteq> None \<longrightarrow> status = State_String None_state"
    using GetHostStatus_error_status g by blast
  have run: "DeleteHost w name tr =
      (if status = State_String None_state
       then (Ret (Some (ErrHostDoesNotExist name)),
             tr2 @ (if serr \<noteq> None
                    then [out_WarningT ''Unable to get the status of the {{.name}} cluster.'']
                    else []))
       else (Panic ''nil pointer dereference'',
             tr2 @ (if serr \<noteq> None
                    then [out_WarningT ''Unable to get the status of the {{.name}} cluster.'']
                    else [])))"
    unfolding DeleteHost_def
    by (subst andThen_Ret[of "DeleteHost_load w name" tr _ "tr @ es1", OF l'],
        subst andThen_Ret[of "GetHostStatus w name" "tr @ es1" _ tr2, OF g])
       (simp add: go_simps)
  have c1: "status \<noteq> State_String None_state \<longrightarrow>
            serr = None \<and> DeleteHost w name tr = (Panic ''nil pointer dereference'', tr2)"
    using run st by auto
  have c2: "serr \<noteq> None \<longrightarrow>
            status = State_String None_state
          \<and> DeleteHost w name tr = (Ret (Some (ErrHostDoesNotExist name)),
               tr2 @ [out_WarningT ''Unable to get the status of the {{.name}} cluster.''])"
    using run st by auto
  have c3: "status = State_String None_state \<and> serr = None \<longrightarrow>
            DeleteHost w name tr = (Ret (Some (ErrHostDoesNotExist name)), tr2)"
    using run by auto
  have c4: "\<exists>es. tr2 = tr @ es \<and> list_all (\<lambda>e. \<not> isRemove e) es"
    using tr2 es1 es2 by auto
  have c5: "(\<forall>t. snd (api_Load (A w) t name) \<noteq> None) \<longrightarrow>
            fst (DeleteHost w name tr) = Ret (Some (ErrHostDoesNotExist name))"
  proof
    assume "\<forall>t. snd (api_Load (A w) t name) \<noteq> None"
    from GetHostStatus_load_fails[OF this, of "tr @ es1"] g
    have "status = State_String None_state" by auto
    then show "fst (DeleteHost w name tr) = Ret (Some (ErrHostDoesNotExist name))"
      using run by simp
  qed
  from c1 c2 c3 c4 c5 show ?thesis by blast
qed

text \<open>
  Three stores whose first load fails. One reads the record a moment later: the status
  is \<open>Running\<close> and \<open>DeleteHost\<close> panics. One fails every load: the status query
  fails and \<open>DeleteHost\<close> returns \<open>ErrHostDoesNotExist\<close> after its warning. One
  does not list the host: the status is None.
\<close>

theorem DeleteHost_absent_host_witness:
  "api_Load (A flakyWorld) [] ''minikube'' = (None, Some (Err ''unexpected end of JSON input''))
   \<and> GetHostStatus flakyWorld ''minikube'' (snd (DeleteHost_load flakyWorld ''minikube'' []))
       = (Ret (''Running'', None),
          [api_Load_call ''minikube'',
           exec_Command [''docker'', ''rm'', ''-f'', ''-v'', ''minikube''],
           glog_Infof ''Found stale kic container and successfully cleaned it up!'',
           api_Exists_call ''minikube'', api_Load_call ''minikube'', Driver_GetState_call])
   \<and> ''Running'' \<noteq> State_String None_state
   \<and> DeleteHost flakyWorld ''minikube'' []
       = (Panic ''nil pointer dereference'',
          [api_Load_call ''minikube'',
           exec_Command [''docker'', ''rm'', ''-f'', ''-v'', ''minikube''],
           glog_Infof ''Found stale kic container and successfully cleaned it up!'',
           api_Exists_call ''minikube'', api_Load_call ''minikube'', Driver_GetState_call])
   \<and> api_Load (A loadFails) [] ''minikube'' = (None, Some (Err ''Host does not exist''))
   \<and> GetHostStatus loadFails ''minikube'' (snd (DeleteHost_load loadFails ''minikube'' []))
       = (Ret ([], Some (Wrapped (Err ''Host does not exist'') ''load'')),
          [api_Load_call ''minikube'',
           exec_Command [''docker'', ''rm'', ''-f'', ''-v'', ''minikube''],
           glog_Infof ''Found stale kic container and successfully cleaned it up!'',
           api_Exists_call ''minikube'', api_Load_call ''minikube''])
   \<and> Some (Wrapped (Err ''Host does not exist'') ''load'') \<noteq> None
   \<and> (\<forall>t. snd (api_Load (A loadFails) t ''minikube'') \<noteq> None)
   \<and> DeleteHost loadFails ''minikube'' []
       = (Ret (Some (ErrHostDoesNotExist ''minikube'')),
          [api_Load_call ''minikube'',
           exec_Command [''docker'', ''rm'', ''-f'', ''-v'', ''minikube''],
           glog_Infof ''Found stale kic container and successfully cleaned it up!'',
           api_Exists_call ''minikube'', api_Load_call ''minikube'',
           out_WarningT ''Unable to get the status of the {{.name}} cluster.''])
   \<and> api_Load (A world0) [] ''minikube'' = (None, Some (Err ''Host does not exist''))
   \<and> GetHostStatus world0 ''minikube'' (snd (DeleteHost_load world0 ''minikube'' []))
       = (Ret (State_String None_state, None),
          [api_Load_call ''minikube'',
           exec_Command [''docker'', ''rm'', ''-f'', ''-v'', ''minikube''],
           glog_Infof ''Found stale kic container and successfully cleaned it up!'',
           api_Exists_call ''minikube''])
   \<and> DeleteHost world0 ''minikube'' []
       = (Ret (Some (ErrHostDoesNotExist ''minikube'')),
          [api_Load_call ''minikube'',
           exec_Command [''docker'', ''rm'', ''-f'', ''-v'', ''minikube''],
           glog_Infof ''Found stale kic container and successfully cleaned it up!'',
           api_Exists_call ''minikube''])"
proof -
  have l1: "api_Load (A flakyWorld) [] ''minikube''
      = (None, Some (Err ''unexpected end of JSON input''))"
    by (simp add: flakyWorld_def world0_simps)
  have g1: "GetHostStatus flakyWorld ''minikube''
        (snd (DeleteHost_load flakyWorld ''minikube'' []))
       = (Ret (''Running'', None),
          [api_Load_call ''minikube'',
           exec_Command [''docker'', ''rm'', ''-f'', ''-v'', ''minikube''],
           glog_Infof ''Found stale kic container and successfully cleaned it up!'',
           api_Exists_call ''minikube'', api_Load_call ''minikube'', Driver_GetState_call])"
    by (simp add: GetHostStatus_def DeleteHost_load_def deleteOrphanedKIC_def go_simps
          flakyWorld_def world0_simps Let_def)
  have l2: "api_Load (A loadFails) [] ''minikube'' = (None, Some (Err ''Host does not exist''))"
    by (simp add: loadFails_def world0_simps)
  have g2: "GetHostStatus loadFails ''minikube'' (snd (DeleteHost_load loadFails ''minikube'' []))
       = (Ret ([], Some (Wrapped (Err ''Host does not exist'') ''load'')),
          [api_Load_call ''minikube'',
           exec_Command [''docker'', ''rm'', ''-f'', ''-v'', ''minikube''],
           glog_Infof ''Found stale kic container and successfully cleaned it up!'',
           api_Exists_call ''minikube'', api_Load_call ''minikube''])"
    by (simp add: GetHostStatus_def DeleteHost_load_def deleteOrphanedKIC_def go_simps
          loadFails_def world0_simps Let_def)
  have a2: "\<forall>t. snd (api_Load (A loadFails) t ''minikube'') \<noteq> None"
    by (simp add: loadFails_def world0_simps)
  have l3: "api_Load (A world0) [] ''minikube'' = (None, Some (Err ''Host does not exist''))"
    by (simp add: world0_simps)
  have g3: "GetHostStatus world0 ''minikube'' (snd (DeleteHost_load world0 ''minikube'' []))
       = (Ret (State_String None_state, None),
          [api_Load_call ''minikube'',
           exec_Command [''docker'', ''rm'', ''-f'', ''-v'', ''minikube''],
           glog_Infof ''Found stale kic container and successfully cleaned it up!'',
           api_Exists_call ''minikube''])"
    by (simp add: GetHostStatus_def DeleteHost_load_def deleteOrphanedKIC_def go_simps
          world0_simps Let_def)
  from DeleteHost_absent_host[OF l1 g1] DeleteHost_absent_host[OF l2 g2]
       DeleteHost_absent_host[OF l3 g3]
  show ?thesis using l1 g1 l2 g2 a2 l3 g3 by simp
qed

subsection \<open>Stop\<close>

lemma noStop_trySSHPowerOff:
  "emits (\<lambda>e. \<forall>a. e \<noteq> Host_Stop_call a) (trySSHPowerOff w h)"
  unfolding trySSHPowerOff_def
  by (intro emits_intros) simp_all

text \<open>
  C6. Take any run of \<open>StopHost\<close> in which the backend stop call was made and failed
  with the error \<open>e\<close>. When \<open>e\<close> is the already-in-state error for the state Stopped,
  \<open>StopHost\<close> returns the nil error. In every other case it returns \<open>e\<close>, wrapped
  with the machine name, inside a \<open>RetriableError\<close>.
\<close>

theorem StopHost_stop_failure:
  assumes "StopHost w tr = (r, tr')"
    and "Host_Stop_call (Some e) \<in> set (drop (length tr) tr')"
  shows "((\<exists>n. e = ErrHostAlreadyInState n Stopped) \<longrightarrow> r = Ret None)
       \<and> ((\<forall>n. e \<noteq> ErrHostAlreadyInState n Stopped) \<longrightarrow>
            r = Ret (Some (RetriableError (Wrapped e (''Stop: '' @ viper_MachineProfile (S w))))))"
proof -
  let ?t0 = "tr @ [glog_Infof ''Stopping host ...'']"
  let ?name = "viper_MachineProfile (S w)"
  let ?fin = "[glog_Infof ''Stopped host within %s'']"
  obtain hp lerr where l: "api_Load (A w) ?t0 ?name = (hp, lerr)"
    by (cases "api_Load (A w) ?t0 ?name")
  show ?thesis
  proof (cases lerr)
    case (Some le)
    then have "tr' = tr @ [glog_Infof ''Stopping host ...'', api_Load_call ?name] @ ?fin"
      using assms(1) l by (simp add: StopHost_def go_simps Let_def)
    then show ?thesis using assms(2) by simp
  next
    case None
    show ?thesis
    proof (cases hp)
      case None
      then have "tr' = tr @ [glog_Infof ''Stopping host ...'', api_Load_call ?name] @ ?fin"
        using assms(1) l \<open>lerr = None\<close> by (simp add: StopHost_def go_simps Let_def)
      then show ?thesis using assms(2) by simp
    next
      case (Some host)
      let ?t1 = "tr @ [glog_Infof ''Stopping host ...'', api_Load_call ?name,
                       out_T ''Stopping {{.profile_name}} in {{.driver_name}} ...'']"
      let ?early = "(if h_DriverName host = driver_HyperV (P w) then
                andThen (emit (glog_Infof ''As there are issues with stopping Hyper-V VMs using API, trying to shut down using SSH'')) (\<lambda>_.
                andThen (trySSHPowerOff w host) (\<lambda>perr.
                ret (errors_Wrap perr ''ssh power off'')))
              else ret None)"
      have "emits (\<lambda>e. \<forall>a. e \<noteq> Host_Stop_call a) ?early"
        by (intro emits_intros noStop_trySSHPowerOff) simp_all
      then obtain es where es: "snd (?early ?t1) = ?t1 @ es"
          "list_all (\<lambda>e. \<forall>a. e \<noteq> Host_Stop_call a) es"
        unfolding emits_def by blast
      obtain er where er: "?early ?t1 = (er, ?t1 @ es)"
        using es(1) by (cases "?early ?t1") simp
      have nostop: "Host_Stop_call (Some e) \<notin> set es"
        using es(2) by (auto simp: list_all_iff)
      have run: "StopHost w tr = deferred ?fin (andThen ?early (\<lambda>early.
           case early of
             Some e \<Rightarrow> ret (Some e)
           | None \<Rightarrow>
               andThen (askR Host_Stop_call (\<lambda>tr. Host_Stop (B w) tr host)) (\<lambda>serr.
               case serr of
                 None \<Rightarrow> ret None
               | Some e \<Rightarrow>
                   andThen (emit (glog_Infof ''host.Stop failed: %v'')) (\<lambda>_.
                   case e of
                     ErrHostAlreadyInState n st \<Rightarrow>
                       if st = Stopped then ret None
                       else ret (Some (RetriableError (Wrapped e (''Stop: '' @ ?name))))
                   | _ \<Rightarrow> ret (Some (RetriableError (Wrapped e (''Stop: '' @ ?name)))))))) ?t1"
        using l \<open>lerr = None\<close> Some
        by (simp add: StopHost_def Let_def go_apply)
      show ?thesis
      proof (cases er)
        case (Panic p)
        then have "tr' = ?t1 @ es @ ?fin"
          using assms(1) run er by (simp add: deferred_def andThen_def)
        then show ?thesis using assms(2) nostop by simp
      next
        case (Ret early)
        show ?thesis
        proof (cases early)
          case (Some ee)
          then have "tr' = ?t1 @ es @ ?fin"
            using assms(1) run er Ret by (simp add: deferred_def andThen_def ret_def)
          then show ?thesis using assms(2) nostop by simp
        next
          case None
          let ?ans = "Host_Stop (B w) (?t1 @ es) host"
          show ?thesis
          proof (cases ?ans)
            case None
            then have "tr' = ?t1 @ es @ [Host_Stop_call None] @ ?fin"
              using assms(1) run er Ret \<open>early = None\<close>
              by (simp add: deferred_def andThen_def ret_def askR_def)
            then show ?thesis using assms(2) nostop by simp
          next
            case (Some se)
            then have tr': "tr' = ?t1 @ es @ [Host_Stop_call (Some se),
                 glog_Infof ''host.Stop failed: %v''] @ ?fin"
              using assms(1) run er Ret \<open>early = None\<close>
              by (cases se; cases "\<exists>n. se = ErrHostAlreadyInState n Stopped")
                 (auto simp: deferred_def andThen_def ret_def askR_def emit_def)
            then have "se = e" using assms(2) nostop by simp
            then show ?thesis
              using assms(1) run er Ret \<open>early = None\<close> Some
              by (cases e)
                 (auto simp: deferred_def andThen_def ret_def askR_def emit_def)
          qed
        qed
      qed
    qed
  qed
qed

theorem StopHost_stop_failure_witness:
  "StopHost (stopFails (ErrHostAlreadyInState ''minikube'' Stopped)) []
     = (Ret None,
        [glog_Infof ''Stopping host ...'', api_Load_call ''minikube'',
         out_T ''Stopping {{.profile_name}} in {{.driver_name}} ...'',
         Host_Stop_call (Some (ErrHostAlreadyInState ''minikube'' Stopped)),
         glog_Infof ''host.Stop failed: %v'', glog_Infof ''Stopped host within %s''])
   \<and> StopHost (stopFails (Err ''exit status 1'')) []
     = (Ret (Some (RetriableError (Wrapped (Err ''exit status 1'') ''Stop: minikube''))),
        [glog_Infof ''Stopping host ...'', api_Load_call ''minikube'',
         out_T ''Stopping {{.profile_name}} in {{.driver_name}} ...'',
         Host_Stop_call (Some (Err ''exit status 1'')),
         glog_Infof ''host.Stop failed: %v'', glog_Infof ''Stopped host within %s''])"
proof -
  obtain r1 t1 where a: "StopHost (stopFails (ErrHostAlreadyInState ''minikube'' Stopped)) []
      = (r1, t1)"
    and t1: "t1 = [glog_Infof ''Stopping host ...'', api_Load_call ''minikube'',
         out_T ''Stopping {{.profile_name}} in {{.driver_name}} ...'',
         Host_Stop_call (Some (ErrHostAlreadyInState ''minikube'' Stopped)),
         glog_Infof ''host.Stop failed: %v'', glog_Infof ''Stopped host within %s'']"
    by (simp add: StopHost_def go_simps stopFails_def storeHas_def world0_simps Let_def)
  obtain r2 t2 where b: "StopHost (stopFails (Err ''exit status 1'')) [] = (r2, t2)"
    and t2: "t2 = [glog_Infof ''Stopping host ...'', api_Load_call ''minikube'',
         out_T ''Stopping {{.profile_name}} in {{.driver_name}} ...'',
         Host_Stop_call (Some (Err ''exit status 1'')),
         glog_Infof ''host.Stop failed: %v'', glog_Infof ''Stopped host within %s'']"
    by (simp add: StopHost_def go_simps stopFails_def storeHas_def world0_simps Let_def)
  have m1: "Host_Stop_call (Some (ErrHostAlreadyInState ''minikube'' Stopped))
              \<in> set (drop (length ([]::event list)) t1)"
    by (simp add: t1)
  have m2: "Host_Stop_call (Some (Err ''exit status 1'')) \<in> set (drop (length ([]::event list)) t2)"
    by (simp add: t2)
  have n: "viper_MachineProfile (S (stopFails (Err ''exit status 1''))) = ''minikube''"
    by (simp add: stopFails_def world0_simps)
  from StopHost_stop_failure[OF a m1] StopHost_stop_failure[OF b m2]
  show ?thesis using a b t1 t2 n by simp
qed

subsection \<open>Start\<close>

lemmas start_defs = StartHost_def startExisting_def createHost_def configureHost_def
  provisionEnv_def createRequiredDirectories_def commandRunner_def acquireMachinesLock_def
  ensureSyncedGuestClock_def guestClockDelta_def adjustGuestClock_def engineOptions_def
  requiredDirectories_def fillHostOptions_def showHostInfo_def showRemoteOsRelease_def
  showLocalOsRelease_def getHostInfo_def

lemmas start_worlds = newHostWorld_def existingWorld_def mkdirFails_def guestClock_def
  storeHas_def hostEnv_def cfgEnv_def world0_simps

lemmas clock_defs = strconv_simps time_Unix_def Time_Sub_def Duration_Seconds_def
  maxClockDesyncSeconds_def

lemma createRequiredDirectories_grows:
  "\<exists>es. snd (createRequiredDirectories w h t) = t @ es"
  using noAcquire_createRequiredDirectories[of w h] unfolding emits_def by blast

lemma ensureSyncedGuestClock_queries:
  "\<exists>es. snd (ensureSyncedGuestClock w h t) = t @ RunSSHCommand_call ''date +%s.%N'' # es"
  by (auto simp: ensureSyncedGuestClock_def guestClockDelta_def adjustGuestClock_def
        go_simps Let_def split: prod.splits option.splits sum.splits)

lemma provisionEnv_success:
  assumes "provisionEnv w h e t = (Ret (h', None), t')"
  shows "\<exists>es. t' = t @ es \<and> Provision_call \<in> set es \<and> h_Driver h' = h_Driver h"
  using assms
  by (auto simp: provisionEnv_def go_simps Let_def
        split: prod.splits option.splits if_splits)

text \<open>
  What a successful \<open>configureHost\<close> has done, in order: it has run
  \<open>createRequiredDirectories\<close> to its end right after its first log line (whatever
  that returned); when the engine options carry environment variables it has then run
  the provisioning block to its end, the provisioner's \<open>Provision\<close> included; for a
  bare-metal driver it has then logged that it skips the rest; for any other driver it
  has then configured authentication without error and after that run
  \<open>ensureSyncedGuestClock\<close>, which began with the clock query and returned nil.
\<close>

lemma configureHost_success_steps:
  assumes "configureHost w h0 e t1 = (Ret (h, None), t2)"
  shows "\<exists>dr des pes d aes.
           createRequiredDirectories w h0 (t1 @ [glog_Infof ''configureHost: %+v''])
             = (Ret dr, t1 @ [glog_Infof ''configureHost: %+v''] @ des)
         \<and> (Env e = [] \<longrightarrow> pes = [] \<and> h = h0)
         \<and> (Env e \<noteq> [] \<longrightarrow>
               provisionEnv w h0 e (t1 @ [glog_Infof ''configureHost: %+v''] @ des)
                 = (Ret (h, None), t1 @ [glog_Infof ''configureHost: %+v''] @ des @ pes)
             \<and> Provision_call \<in> set pes)
         \<and> h_Driver h = Some d
         \<and> (driver_BareMetal (P w) (drv_DriverName d) \<longrightarrow>
               aes = [glog_Infof ''%s is a local driver, skipping auth/time setup''])
         \<and> (\<not> driver_BareMetal (P w) (drv_DriverName d) \<longrightarrow>
               (\<exists>ces.
                  Host_ConfigureAuth (B w)
                    (t1 @ [glog_Infof ''configureHost: %+v''] @ des @ pes
                        @ [glog_Infof ''Configuring auth for driver %s ...'']) h = None
                \<and> ensureSyncedGuestClock w h
                    (t1 @ [glog_Infof ''configureHost: %+v''] @ des @ pes
                        @ [glog_Infof ''Configuring auth for driver %s ...'',
                           Host_ConfigureAuth_call])
                   = (Ret None,
                      t1 @ [glog_Infof ''configureHost: %+v''] @ des @ pes
                        @ [glog_Infof ''Configuring auth for driver %s ...'',
                           Host_ConfigureAuth_call]
                        @ RunSSHCommand_call ''date +%s.%N'' # ces)
                \<and> aes = [glog_Infof ''Configuring auth for driver %s ...'',
                          Host_ConfigureAuth_call, RunSSHCommand_call ''date +%s.%N''] @ ces))
         \<and> t2 = t1 @ [glog_Infof ''configureHost: %+v''] @ des @ pes @ aes
                   @ [glog_Infof ''configureHost completed within %s'']"
proof -
  let ?ta = "t1 @ [glog_Infof ''configureHost: %+v'']"
  let ?fin = "[glog_Infof ''configureHost completed within %s'']"
  obtain des where des: "snd (createRequiredDirectories w h0 ?ta) = ?ta @ des"
    using createRequiredDirectories_grows by blast
  obtain dr0 where c0: "createRequiredDirectories w h0 ?ta = (dr0, ?ta @ des)"
    using des by (cases "createRequiredDirectories w h0 ?ta") simp
  let ?tb = "?ta @ des"
  let ?prov = "if length (Env e) > 0 then provisionEnv w h0 e else ret (h0, None)"
  obtain pr tc where p0: "?prov ?tb = (pr, tc)" by (cases "?prov ?tb")
  show ?thesis
  proof (cases dr0)
    case (Panic p)
    then show ?thesis using assms c0 by (simp add: configureHost_def go_apply)
  next
    case (Ret dr)
    note c = c0[unfolded Ret]
    show ?thesis
    proof (cases pr)
      case (Panic p)
      then show ?thesis using assms c p0 by (simp add: configureHost_def go_apply)
    next
      case pRet: (Ret hp)
      obtain h' perr where hp: "hp = (h', perr)" by (cases hp)
      show ?thesis
      proof (cases perr)
        case (Some pe)
        then show ?thesis using assms c p0 pRet hp by (simp add: configureHost_def go_apply)
      next
        case None
        note perr = None
        have prov: "\<exists>pes. tc = ?tb @ pes
                       \<and> (Env e = [] \<longrightarrow> pes = [] \<and> h' = h0)
                       \<and> (Env e \<noteq> [] \<longrightarrow>
                             provisionEnv w h0 e ?tb = (Ret (h', None), ?tb @ pes)
                           \<and> Provision_call \<in> set pes)"
        proof (cases "Env e = []")
          case True
          then show ?thesis using p0 pRet hp by (simp add: ret_def)
        next
          case False
          then have pe: "provisionEnv w h0 e ?tb = (Ret (h', None), tc)"
            using p0 pRet hp None by simp
          from provisionEnv_success[OF this] obtain pes
            where "tc = ?tb @ pes" "Provision_call \<in> set pes" by blast
          then show ?thesis using pe False by auto
        qed
        then obtain pes where pes: "tc = ?tb @ pes"
            "Env e = [] \<longrightarrow> pes = [] \<and> h' = h0"
            "Env e \<noteq> [] \<longrightarrow> provisionEnv w h0 e ?tb = (Ret (h', None), ?tb @ pes)
                           \<and> Provision_call \<in> set pes"
          by blast
        show ?thesis
        proof (cases "h_Driver h'")
          case None
          then show ?thesis using assms c p0 pRet hp perr
            by (simp add: configureHost_def go_apply)
        next
          case (Some d)
          show ?thesis
          proof (cases "driver_BareMetal (P w) (drv_DriverName d)")
            case True
            then have r: "h = h'
                \<and> t2 = tc @ [glog_Infof ''%s is a local driver, skipping auth/time setup'']
                           @ ?fin"
              using assms c p0 pRet hp perr Some
              by (simp add: configureHost_def go_apply)
            show ?thesis
              apply (rule exI[of _ dr], rule exI[of _ des], rule exI[of _ pes],
                     rule exI[of _ d],
                     rule exI[of _ "[glog_Infof ''%s is a local driver, skipping auth/time setup'']"])
              using c pes r Some True by simp
          next
            case False
            let ?td = "tc @ [glog_Infof ''Configuring auth for driver %s ...'']"
            let ?te = "?td @ [Host_ConfigureAuth_call]"
            show ?thesis
            proof (cases "Host_ConfigureAuth (B w) ?td h'")
              case ae: (Some a)
              then show ?thesis using assms c p0 pRet hp perr Some False
                by (simp add: configureHost_def go_apply)
            next
              case None
              obtain ces where ces: "snd (ensureSyncedGuestClock w h' ?te)
                   = ?te @ RunSSHCommand_call ''date +%s.%N'' # ces"
                using ensureSyncedGuestClock_queries by blast
              obtain cr where cr: "ensureSyncedGuestClock w h' ?te
                   = (cr, ?te @ RunSSHCommand_call ''date +%s.%N'' # ces)"
                using ces by (cases "ensureSyncedGuestClock w h' ?te") simp
              have cr': "ensureSyncedGuestClock w h'
                   (tc @ [glog_Infof ''Configuring auth for driver %s ...'',
                          Host_ConfigureAuth_call])
                   = (cr, tc @ [glog_Infof ''Configuring auth for driver %s ...'',
                          Host_ConfigureAuth_call, RunSSHCommand_call ''date +%s.%N''] @ ces)"
                using cr by simp
              have r: "cr = Ret None \<and> h = h'
                  \<and> t2 = tc @ [glog_Infof ''Configuring auth for driver %s ...'',
                          Host_ConfigureAuth_call, RunSSHCommand_call ''date +%s.%N''] @ ces
                        @ ?fin"
                using assms c p0 pRet hp perr Some False None cr'
                by (cases cr) (auto simp: configureHost_def go_apply split: option.splits)
              show ?thesis
                apply (rule exI[of _ dr], rule exI[of _ des], rule exI[of _ pes],
                       rule exI[of _ d],
                       rule exI[of _ "[glog_Infof ''Configuring auth for driver %s ...'',
                          Host_ConfigureAuth_call, RunSSHCommand_call ''date +%s.%N''] @ ces"])
                using c pes r Some False None cr' by auto
            qed
          qed
        qed
      qed
    qed
  qed
qed

lemma grows_showHostInfo: "\<exists>es. snd (showHostInfo w cfg t) = t @ es"
proof -
  have "emits (\<lambda>e. True) (showHostInfo w cfg)"
    unfolding showHostInfo_def getHostInfo_def by (intro emits_intros) simp_all
  then show ?thesis unfolding emits_def by blast
qed

lemma grows_showLocalOsRelease: "\<exists>es. snd (showLocalOsRelease w t) = t @ es"
proof -
  have "emits (\<lambda>e. True) (showLocalOsRelease w)"
    unfolding showLocalOsRelease_def by (intro emits_intros) simp_all
  then show ?thesis unfolding emits_def by blast
qed

lemma grows_showRemoteOsRelease: "\<exists>es. snd (showRemoteOsRelease w d t) = t @ es"
proof -
  have "emits (\<lambda>e. True) (showRemoteOsRelease w d)"
    unfolding showRemoteOsRelease_def by (intro emits_intros) simp_all
  then show ?thesis unfolding emits_def by blast
qed

text \<open>
  The events of \<open>createHost\<close> never include the provisioner's \<open>Provision\<close>, the
  configuration of authentication or the log line of \<open>configureHost\<close>.
\<close>

lemma noConfigure_createHost:
  "emits (\<lambda>e. e \<noteq> Provision_call \<and> e \<noteq> Host_ConfigureAuth_call
              \<and> e \<noteq> glog_Infof ''configureHost: %+v'') (createHost w cfg)"
  unfolding createHost_def showHostInfo_def getHostInfo_def fillHostOptions_def
    showLocalOsRelease_def showRemoteOsRelease_def createRequiredDirectories_def
    commandRunner_def ensureSyncedGuestClock_def adjustGuestClock_def guestClockDelta_def
  by (intro emits_intros) simp_all

text \<open>
  What a successful \<open>createHost\<close> has done after the store created the host, in
  order: it has run \<open>createRequiredDirectories\<close> on the returned host to its end
  (whatever that returned); for a bare-metal driver it has then shown the local OS
  release; for a driver that is neither bare metal nor container-backed it has shown
  the remote OS release and then run \<open>ensureSyncedGuestClock\<close>, which began with the
  clock query and returned nil; for a container-backed driver it has done neither; last
  it has saved the host.
\<close>

lemma createHost_success:
  assumes "createHost w cfg t = (Ret (Some h, None), t2)"
  shows "\<exists>pre dr des post.
           createRequiredDirectories w h (t @ pre) = (Ret dr, t @ pre @ des)
         \<and> (driver_BareMetal (P w) (cfg_VMDriver cfg) \<longrightarrow>
               showLocalOsRelease w (t @ pre @ des) = (Ret (), t @ pre @ des @ post))
         \<and> (\<not> driver_BareMetal (P w) (cfg_VMDriver cfg)
              \<and> \<not> driver_IsKIC (P w) (cfg_VMDriver cfg) \<longrightarrow>
               (\<exists>sh ces.
                  showRemoteOsRelease w (h_Driver h) (t @ pre @ des)
                    = (Ret (), t @ pre @ des @ sh)
                \<and> ensureSyncedGuestClock w h (t @ pre @ des @ sh)
                    = (Ret None, t @ pre @ des @ sh @ RunSSHCommand_call ''date +%s.%N'' # ces)
                \<and> post = sh @ RunSSHCommand_call ''date +%s.%N'' # ces))
         \<and> (\<not> driver_BareMetal (P w) (cfg_VMDriver cfg)
              \<and> driver_IsKIC (P w) (cfg_VMDriver cfg) \<longrightarrow> post = [])
         \<and> t2 = t @ pre @ des @ post @ [api_Save_call (h_Name h)]"
proof -
  let ?k = "cfg_VMDriver cfg"
  let ?BM = "driver_BareMetal (P w) ?k"
  let ?KIC = "driver_IsKIC (P w) ?k"
  let ?first = "if ?k = driver_VMwareFusion (P w)
                   \<and> viper_ShowDriverDeprecationNotification (S w)
                then emit (out_WarningT ''The vmwarefusion driver is deprecated and support for it will be removed in a future release.'')
                else ret ()"
  have "\<exists>ta. ?first t = (Ret (), ta) \<and> (\<exists>p. ta = t @ p)"
    by (auto simp: go_apply)
  then obtain ta where ta: "?first t = (Ret (), ta)" and ta': "\<exists>p. ta = t @ p"
    by blast
  obtain rs tb where sh: "showHostInfo w cfg ta = (rs, tb)"
    by (cases "showHostInfo w cfg ta")
  have tb': "\<exists>p. tb = t @ p"
    using grows_showHostInfo[of w cfg ta] sh ta' by auto
  obtain data merr where m: "json_Marshal (S w) (tb @ [registry_Driver_call ?k]) cfg
      = (data, merr)"
    by (cases "json_Marshal (S w) (tb @ [registry_Driver_call ?k]) cfg")
  obtain hp nerr where n: "api_NewHost (A w)
      (tb @ [registry_Driver_call ?k, json_Marshal_call]) ?k data = (hp, nerr)"
    by (cases "api_NewHost (A w) (tb @ [registry_Driver_call ?k, json_Marshal_call]) ?k data")
  let ?t3 = "tb @ [registry_Driver_call ?k, json_Marshal_call, api_NewHost_call ?k]"
  have reach: "\<exists>h0 hf. rs = Ret () \<and> \<not> registry_Driver_Empty (S w) tb ?k
      \<and> merr = None \<and> nerr = None \<and> hp = Some h0
      \<and> fillHostOptions w cfg h0 ?t3 = (Ret hf, ?t3)
      \<and> api_Create (A w) ?t3 hf = None"
  proof (cases rs)
    case (Panic p)
    then show ?thesis using assms ta sh by (simp add: createHost_def go_apply)
  next
    case (Ret u)
    note rs = Ret
    show ?thesis
    proof (cases "registry_Driver_Empty (S w) tb ?k")
      case True
      then show ?thesis using assms ta sh rs by (simp add: createHost_def go_apply)
    next
      case False
      note ne = False
      show ?thesis
      proof (cases merr)
        case (Some e)
        then show ?thesis using assms ta sh rs ne m by (simp add: createHost_def go_apply)
      next
        case None
        note merr = None
        show ?thesis
        proof (cases nerr)
          case (Some e)
          then show ?thesis using assms ta sh rs ne m merr n
            by (simp add: createHost_def go_apply)
        next
          case None
          note nerr = None
          show ?thesis
          proof (cases hp)
            case None
            then show ?thesis using assms ta sh rs ne m merr n nerr
              by (simp add: createHost_def go_apply)
          next
            case (Some h0)
            note hp = Some
            obtain rf where f: "fillHostOptions w cfg h0 ?t3 = (rf, ?t3)"
              by (cases "h_HostOptions h0"; cases "AuthOptions (the (h_HostOptions h0))")
                 (simp_all add: fillHostOptions_def go_apply)
            show ?thesis
            proof (cases rf)
              case (Panic p)
              then show ?thesis using assms ta sh rs ne m merr n nerr hp f
                by (simp add: createHost_def go_apply)
            next
              case (Ret hf)
              note rf = Ret
              obtain cerr where c: "api_Create (A w) ?t3 hf = cerr" by simp
              show ?thesis
              proof (cases cerr)
                case (Some e)
                then show ?thesis using assms ta sh rs ne m merr n nerr hp f rf c
                  by (simp add: createHost_def go_apply)
              next
                case None
                then show ?thesis using rs ne merr nerr hp f rf c by simp
              qed
            qed
          qed
        qed
      qed
    qed
  qed
  then obtain h0 hf where pf: "rs = Ret ()" "\<not> registry_Driver_Empty (S w) tb ?k"
      "merr = None" "nerr = None" "hp = Some h0"
      "fillHostOptions w cfg h0 ?t3 = (Ret hf, ?t3)" "api_Create (A w) ?t3 hf = None"
    by blast
  define te where "te = tb @ [registry_Driver_call ?k, json_Marshal_call,
                              api_NewHost_call ?k, api_Create_call (h_Name hf)]"
  obtain p where te: "te = t @ p" using tb' unfolding te_def by auto
  have tail: "andThen (createRequiredDirectories w hf) (\<lambda>derr.
                   andThen
                     (if driver_BareMetal (P w) (cfg_VMDriver cfg) then
                        andThen (showLocalOsRelease w) (\<lambda>_. ret None)
                      else if \<not> driver_BareMetal (P w) (cfg_VMDriver cfg)
                              \<and> \<not> driver_IsKIC (P w) (cfg_VMDriver cfg) then
                        andThen (showRemoteOsRelease w (h_Driver hf)) (\<lambda>_.
                        ensureSyncedGuestClock w hf)
                      else ret None) (\<lambda>serr.
                   case serr of
                     Some e \<Rightarrow> ret (Some hf, Some e)
                   | None \<Rightarrow>
                       andThen (ask (api_Save_call (h_Name hf))
                                 (\<lambda>tr. api_Save (A w) tr hf)) (\<lambda>saverr.
                       case saverr of
                         Some e \<Rightarrow> ret (None, errors_Wrap (Some e) ''save'')
                       | None \<Rightarrow> ret (Some hf, None)))) te = (Ret (Some h, None), t2)"
  proof -
    note s1 = andThen_Ret[of ?first t "()" ta, OF ta]
    note s2 = andThen_Ret[of "showHostInfo w cfg" ta "()" tb, OF sh[unfolded pf(1)]]
    have a3: "ask (registry_Driver_call ?k) (\<lambda>tr. registry_Driver_Empty (S w) tr ?k) tb
        = (Ret False, tb @ [registry_Driver_call ?k])"
      using pf(2) by (simp add: ask_apply)
    have a4: "ask json_Marshal_call (\<lambda>tr. json_Marshal (S w) tr cfg)
          (tb @ [registry_Driver_call ?k])
        = (Ret (data, None), tb @ [registry_Driver_call ?k, json_Marshal_call])"
      using m pf(3) by (simp add: ask_apply)
    have a5: "ask (api_NewHost_call ?k) (\<lambda>tr. api_NewHost (A w) tr ?k data)
          (tb @ [registry_Driver_call ?k, json_Marshal_call])
        = (Ret (Some h0, None), ?t3)"
      using n pf(4,5) by (simp add: ask_apply)
    have a6: "deref (Some h0) ?t3 = (Ret h0, ?t3)" by (simp add: deref_apply)
    have a7: "ask (api_Create_call (h_Name hf)) (\<lambda>tr. api_Create (A w) tr hf) ?t3
        = (Ret None, te)"
      using pf(7) by (simp add: ask_apply te_def)
    note s3 = andThen_Ret[of "ask (registry_Driver_call ?k)
          (\<lambda>tr. registry_Driver_Empty (S w) tr ?k)" tb False
          "tb @ [registry_Driver_call ?k]", OF a3]
    note s4 = andThen_Ret[of "ask json_Marshal_call (\<lambda>tr. json_Marshal (S w) tr cfg)"
          "tb @ [registry_Driver_call ?k]" "(data, None)"
          "tb @ [registry_Driver_call ?k, json_Marshal_call]", OF a4]
    note s5 = andThen_Ret[of "ask (api_NewHost_call ?k)
          (\<lambda>tr. api_NewHost (A w) tr ?k data)"
          "tb @ [registry_Driver_call ?k, json_Marshal_call]" "(Some h0, None)" ?t3, OF a5]
    note s6 = andThen_Ret[of "deref (Some h0)" ?t3 h0 ?t3, OF a6]
    note s7 = andThen_Ret[of "fillHostOptions w cfg h0" ?t3 hf ?t3, OF pf(6)]
    note s8 = andThen_Ret[of "ask (api_Create_call (h_Name hf))
          (\<lambda>tr. api_Create (A w) tr hf)" ?t3 None te, OF a7]
    show ?thesis
      using assms unfolding createHost_def
      apply (subst (asm) s1)
      apply (subst (asm) s2)
      apply (subst (asm) s3)
      apply (simp only: if_False)
      apply (subst (asm) s4)
      apply (simp only: prod.case option.case)
      apply (subst (asm) s5)
      apply (simp only: prod.case option.case)
      apply (subst (asm) s6)
      apply (subst (asm) s7)
      apply (subst (asm) s8)
      apply (simp only: option.case)
      done
  qed
  obtain des where des: "snd (createRequiredDirectories w hf te) = te @ des"
    using createRequiredDirectories_grows by blast
  obtain rd where d0: "createRequiredDirectories w hf te = (rd, te @ des)"
    using des by (cases "createRequiredDirectories w hf te") simp
  let ?tf = "te @ des"
  show ?thesis
  proof (cases rd)
    case (Panic q)
    then show ?thesis using tail d0 by (simp add: go_apply)
  next
    case (Ret dr)
    note d = d0[unfolded Ret]
    show ?thesis
    proof (cases ?BM)
      case True
      obtain post where po: "snd (showLocalOsRelease w ?tf) = ?tf @ post"
        using grows_showLocalOsRelease by blast
      obtain rl where l: "showLocalOsRelease w (te @ des) = (rl, te @ des @ post)"
        using po by (cases "showLocalOsRelease w ?tf") simp
      have r: "rl = Ret () \<and> h = hf \<and> t2 = te @ des @ post @ [api_Save_call (h_Name hf)]"
        using tail d True l
        by (cases rl) (auto simp: go_apply split: option.splits)
      show ?thesis
        apply (rule exI[of _ p], rule exI[of _ dr], rule exI[of _ des], rule exI[of _ post])
        using d l r True te by simp
    next
      case False
      note nbm = False
      show ?thesis
      proof (cases ?KIC)
        case True
        have r: "h = hf \<and> t2 = te @ des @ [api_Save_call (h_Name hf)]"
          using tail d nbm True by (auto simp: go_apply split: option.splits)
        show ?thesis
          apply (rule exI[of _ p], rule exI[of _ dr], rule exI[of _ des], rule exI[of _ "[]"])
          using d r nbm True te by simp
      next
        case False
        obtain sh where s0: "snd (showRemoteOsRelease w (h_Driver hf) ?tf) = ?tf @ sh"
          using grows_showRemoteOsRelease by blast
        obtain rr where s: "showRemoteOsRelease w (h_Driver hf) (te @ des)
            = (rr, te @ des @ sh)"
          using s0 by (cases "showRemoteOsRelease w (h_Driver hf) ?tf") simp
        obtain ces where c0: "snd (ensureSyncedGuestClock w hf (te @ des @ sh))
            = (te @ des @ sh) @ RunSSHCommand_call ''date +%s.%N'' # ces"
          using ensureSyncedGuestClock_queries by blast
        obtain rc where c: "ensureSyncedGuestClock w hf (te @ des @ sh)
            = (rc, te @ des @ sh @ RunSSHCommand_call ''date +%s.%N'' # ces)"
          using c0 by (cases "ensureSyncedGuestClock w hf (te @ des @ sh)") simp
        have rr: "rr = Ret ()"
          using tail d nbm False s by (cases rr) (simp_all add: go_apply)
        have r: "rc = Ret None \<and> h = hf
            \<and> t2 = te @ des @ sh @ RunSSHCommand_call ''date +%s.%N'' # ces
                   @ [api_Save_call (h_Name hf)]"
          using tail d nbm False s rr c
          by (cases rc) (auto simp: go_apply split: option.splits)
        show ?thesis
          apply (rule exI[of _ p], rule exI[of _ dr], rule exI[of _ des],
                 rule exI[of _ "sh @ RunSSHCommand_call ''date +%s.%N'' # ces"])
          using d s rr c r nbm False te by simp
      qed
    qed
  qed
qed

lemma startExisting_success:
  assumes "startExisting w cfg t = (Ret (Some h, None), t2)"
  shows "\<exists>h0 pre. configureHost w h0 (engineOptions w cfg) (t @ pre) = (Ret (h, None), t2)"
proof -
  let ?t0 = "t @ [glog_Infof ''Skipping create...Using existing machine configuration'']"
  let ?t1 = "?t0 @ [api_Load_call (cfg_Name cfg)]"
  let ?tip = "if cfg_Name cfg = constants_DefaultMachineName (P w)
         then [out_T ''Tip: Use minikube start -p <name> to create a new cluster, or minikube delete to delete this one.'']
         else []"
  let ?t2 = "?t1 @ ?tip"
  let ?t3 = "?t2 @ [Driver_GetState_call, glog_Infof ''Machine state: '']"
  let ?cont = "\<lambda>h0 t. andThen (emit (glog_Infof ''engine options: %+v'')) (\<lambda>_.
                 andThen (emit (out_T ''Waiting for the host to be provisioned ...'')) (\<lambda>_.
                 andThen (configureHost w h0 (engineOptions w cfg)) (\<lambda>(h', err).
                 case err of
                   Some e \<Rightarrow> ret (None, Some e)
                 | None \<Rightarrow> ret (Some h', None)))) t"
  have cont: "\<exists>pre. configureHost w h0 (engineOptions w cfg) (t @ pre) = (Ret (h, None), t2)"
    if "?cont h0 (t @ p) = (Ret (Some h, None), t2)" for h0 p
  proof -
    let ?tc = "t @ p @ [glog_Infof ''engine options: %+v'',
                        out_T ''Waiting for the host to be provisioned ...'']"
    obtain r tr where c: "configureHost w h0 (engineOptions w cfg) ?tc = (r, tr)"
      by (cases "configureHost w h0 (engineOptions w cfg) ?tc")
    have "r = Ret (h, None) \<and> tr = t2"
      using that c
      by (cases r) (auto simp: go_apply split: prod.splits option.splits)
    then show ?thesis using c by blast
  qed
  obtain hp lerr where l: "api_Load (A w) ?t0 (cfg_Name cfg) = (hp, lerr)"
    by (cases "api_Load (A w) ?t0 (cfg_Name cfg)")
  show ?thesis
  proof (cases lerr)
    case (Some e)
    then show ?thesis using assms l by (simp add: startExisting_def go_apply)
  next
    case None
    note lerr = None
    show ?thesis
    proof (cases hp)
      case None
      then show ?thesis using assms l lerr
        by (simp add: startExisting_def go_apply split: if_splits)
    next
      case (Some h0)
      note hp = Some
      show ?thesis
      proof (cases "h_Driver h0")
        case None
        then show ?thesis using assms l lerr hp
          by (simp add: startExisting_def go_apply split: if_splits)
      next
        case (Some d)
        obtain s serr where g: "Driver_GetState (B w) ?t2 d = (s, serr)"
          by (cases "Driver_GetState (B w) ?t2 d")
        have g': "Driver_GetState (B w)
            (t @ [glog_Infof ''Skipping create...Using existing machine configuration'',
                  api_Load_call (cfg_Name cfg)] @ ?tip) d = (s, serr)"
          using g by simp
        show ?thesis
        proof (cases serr)
          case (Some e)
          then show ?thesis using assms l lerr hp \<open>h_Driver h0 = Some d\<close> g'
            by (simp add: startExisting_def go_apply split: if_splits)
        next
          case None
          note serr = None
          show ?thesis
          proof (cases "s = Running")
            case True
            let ?p = "[glog_Infof ''Skipping create...Using existing machine configuration'',
                  api_Load_call (cfg_Name cfg)] @ ?tip
                @ [Driver_GetState_call, glog_Infof ''Machine state: '',
                   out_T ''Using the running {{.driver_name}} {{.profile_name}} VM ...'']"
            have "?cont h0 (t @ ?p) = (Ret (Some h, None), t2)"
              using assms l lerr hp \<open>h_Driver h0 = Some d\<close> g' serr True
              by (simp add: startExisting_def go_apply split: if_splits)
            from cont[OF this] show ?thesis by blast
          next
            case False
            let ?ts = "?t3 @ [out_T ''Starting existing {{.driver_name}} VM for {{.profile_name}} ...'']"
            obtain sterr where st: "Driver_Start (B w) ?ts d = sterr" by simp
            have st': "Driver_Start (B w)
                (t @ [glog_Infof ''Skipping create...Using existing machine configuration'',
                  api_Load_call (cfg_Name cfg)] @ ?tip
                 @ [Driver_GetState_call, glog_Infof ''Machine state: '',
                    out_T ''Starting existing {{.driver_name}} VM for {{.profile_name}} ...'']) d
                = sterr"
              using st by simp
            show ?thesis
            proof (cases sterr)
              case (Some e)
              then show ?thesis
                using assms l lerr hp \<open>h_Driver h0 = Some d\<close> g' serr False st'
                by (simp add: startExisting_def go_apply split: if_splits)
            next
              case None
              note sterr = None
              obtain saverr where sv: "api_Save (A w)
                (t @ [glog_Infof ''Skipping create...Using existing machine configuration'',
                  api_Load_call (cfg_Name cfg)] @ ?tip
                 @ [Driver_GetState_call, glog_Infof ''Machine state: '',
                    out_T ''Starting existing {{.driver_name}} VM for {{.profile_name}} ...'',
                    Driver_Start_call]) h0 = saverr" by simp
              show ?thesis
              proof (cases saverr)
                case (Some e)
                then show ?thesis
                  using assms l lerr hp \<open>h_Driver h0 = Some d\<close> g' serr False st' sterr sv
                  by (simp add: startExisting_def go_apply split: if_splits)
              next
                case None
                let ?p = "[glog_Infof ''Skipping create...Using existing machine configuration'',
                  api_Load_call (cfg_Name cfg)] @ ?tip
                 @ [Driver_GetState_call, glog_Infof ''Machine state: '',
                    out_T ''Starting existing {{.driver_name}} VM for {{.profile_name}} ...'',
                    Driver_Start_call, api_Save_call (h_Name h0)]"
                have "?cont h0 (t @ ?p) = (Ret (Some h, None), t2)"
                  using assms l lerr hp \<open>h_Driver h0 = Some d\<close> g' serr False st' sterr sv None
                  by (simp add: startExisting_def go_apply split: if_splits)
                from cont[OF this] show ?thesis by blast
              qed
            qed
          qed
        qed
      qed
    qed
  qed
qed

text \<open>
  C1, as the code has it. No host exists; \<open>StartHost\<close> provisions one for the
  virtualbox driver, which is not bare metal, with an engine environment variable in
  the configuration, and returns it with the nil error. The run returns what
  \<open>createHost\<close> returned: neither the provisioner's \<open>Provision\<close> nor
  \<open>ConfigureAuth\<close> is among its events, so the configure step has not run.
\<close>

theorem StartHost_new_host_counterexample:
  "fst (StartHost newHostWorld cfgEnv [])
     = Ret (Some (hostEnv\<lparr>h_HostOptions := Some \<lparr>
              EngineOptions = Some (engineOptions newHostWorld cfgEnv),
              AuthOptions = Some \<lparr>CertDir = ''/home/user/.minikube'',
                                    StorePath = ''/home/user/.minikube''\<rparr>,
              SwarmOptions = Some ()\<rparr>\<rparr>), None)
   \<and> \<not> driver_BareMetal (P newHostWorld) (cfg_VMDriver cfgEnv)
   \<and> cfg_DockerEnv cfgEnv \<noteq> []
   \<and> Host_ConfigureAuth_call \<notin> set (snd (StartHost newHostWorld cfgEnv []))
   \<and> Provision_call \<notin> set (snd (StartHost newHostWorld cfgEnv []))
   \<and> glog_Infof ''configureHost: %+v'' \<notin> set (snd (StartHost newHostWorld cfgEnv []))"
  by (simp add: start_defs start_worlds go_apply clock_defs Let_def)

text \<open>
  C1, amended. Let \<open>StartHost\<close> succeed with the host \<open>h\<close>.

  On the path of an existing host (the store answers the existence check with true),
  its last step before the release of the lock is a run of \<open>configureHost\<close>, on
  the loaded host and the engine options of the configuration, that returned \<open>h\<close>
  and the nil error. That run has, in this order: run \<open>createRequiredDirectories\<close>
  to its end; run the provisioning block, \<open>Provision\<close> included, when and only when
  the configuration carries engine environment variables; then, for a bare-metal driver,
  only logged that it skips the rest, and for any other driver configured authentication
  without error and after that run \<open>ensureSyncedGuestClock\<close>, which began with the
  clock query and returned nil.

  On the path of a new host (the existence check answers false) the configure step is
  not run: \<open>StartHost\<close> returns what \<open>createHost\<close> returned. Before the save
  and the release of the lock, \<open>createHost\<close> has run
  \<open>createRequiredDirectories\<close> on the returned host to its end and then, for a
  bare-metal driver, shown the local OS release; for a driver that is neither bare metal
  nor container-backed, shown the remote OS release and run
  \<open>ensureSyncedGuestClock\<close> with the nil error; for a container-backed driver,
  nothing more. No event of the invocation up to the save is the provisioner's
  \<open>Provision\<close>, the configuration of authentication or the log line of
  \<open>configureHost\<close>.
\<close>

theorem StartHost_configure_step:
  assumes "StartHost w cfg tr = (Ret (Some h, None), tr')"
  shows "(fst (api_Exists (A w)
           (tr @ [glog_Infof ''acquiring machines lock for %s: %+v'',
            mutex_Acquire (lock_PathMutexSpec (P w)
              (filepath_Join (P w) [localpath_MiniPath (P w), ''machines'']))
              600000000000,
            glog_Infof ''acquired machines lock for %q in %s''])
           (cfg_Name cfg)) \<longrightarrow>
     (\<exists>h0 pre dr des pes d aes.
        configureHost w h0 (engineOptions w cfg) (tr @ pre)
          = (Ret (h, None),
             tr @ pre @ [glog_Infof ''configureHost: %+v''] @ des @ pes @ aes
               @ [glog_Infof ''configureHost completed within %s''])
      \<and> createRequiredDirectories w h0 (tr @ pre @ [glog_Infof ''configureHost: %+v''])
          = (Ret dr, tr @ pre @ [glog_Infof ''configureHost: %+v''] @ des)
      \<and> (cfg_DockerEnv cfg = [] \<longrightarrow> pes = [] \<and> h = h0)
      \<and> (cfg_DockerEnv cfg \<noteq> [] \<longrightarrow>
            provisionEnv w h0 (engineOptions w cfg) (tr @ pre @ [glog_Infof ''configureHost: %+v''] @ des)
              = (Ret (h, None), tr @ pre @ [glog_Infof ''configureHost: %+v''] @ des @ pes)
          \<and> Provision_call \<in> set pes)
      \<and> h_Driver h = Some d
      \<and> (driver_BareMetal (P w) (drv_DriverName d) \<longrightarrow>
            aes = [glog_Infof ''%s is a local driver, skipping auth/time setup''])
      \<and> (\<not> driver_BareMetal (P w) (drv_DriverName d) \<longrightarrow>
            (\<exists>ces.
               Host_ConfigureAuth (B w)
                 (tr @ pre @ [glog_Infof ''configureHost: %+v''] @ des @ pes
                    @ [glog_Infof ''Configuring auth for driver %s ...'']) h = None
             \<and> ensureSyncedGuestClock w h
                 (tr @ pre @ [glog_Infof ''configureHost: %+v''] @ des @ pes
                    @ [glog_Infof ''Configuring auth for driver %s ...'',
                       Host_ConfigureAuth_call])
                = (Ret None,
                   tr @ pre @ [glog_Infof ''configureHost: %+v''] @ des @ pes
                    @ [glog_Infof ''Configuring auth for driver %s ...'',
                       Host_ConfigureAuth_call]
                    @ RunSSHCommand_call ''date +%s.%N'' # ces)
             \<and> aes = [glog_Infof ''Configuring auth for driver %s ...'',
                       Host_ConfigureAuth_call, RunSSHCommand_call ''date +%s.%N''] @ ces))
      \<and> tr' = tr @ pre @ [glog_Infof ''configureHost: %+v''] @ des @ pes @ aes
               @ [glog_Infof ''configureHost completed within %s'']
               @ [glog_Infof ''releasing machines lock for %q, held for %s'', Releaser_Release]))
   \<and> (\<not> fst (api_Exists (A w)
           (tr @ [glog_Infof ''acquiring machines lock for %s: %+v'',
            mutex_Acquire (lock_PathMutexSpec (P w)
              (filepath_Join (P w) [localpath_MiniPath (P w), ''machines'']))
              600000000000,
            glog_Infof ''acquired machines lock for %q in %s''])
           (cfg_Name cfg)) \<longrightarrow>
     (\<exists>pre dr des post.
        createRequiredDirectories w h (tr @ pre) = (Ret dr, tr @ pre @ des)
      \<and> (driver_BareMetal (P w) (cfg_VMDriver cfg) \<longrightarrow>
            showLocalOsRelease w (tr @ pre @ des) = (Ret (), tr @ pre @ des @ post))
      \<and> (\<not> driver_BareMetal (P w) (cfg_VMDriver cfg)
           \<and> \<not> driver_IsKIC (P w) (cfg_VMDriver cfg) \<longrightarrow>
            (\<exists>sh ces.
               showRemoteOsRelease w (h_Driver h) (tr @ pre @ des)
                 = (Ret (), tr @ pre @ des @ sh)
             \<and> ensureSyncedGuestClock w h (tr @ pre @ des @ sh)
                 = (Ret None,
                    tr @ pre @ des @ sh @ RunSSHCommand_call ''date +%s.%N'' # ces)
             \<and> post = sh @ RunSSHCommand_call ''date +%s.%N'' # ces))
      \<and> (\<not> driver_BareMetal (P w) (cfg_VMDriver cfg)
           \<and> driver_IsKIC (P w) (cfg_VMDriver cfg) \<longrightarrow> post = [])
      \<and> tr' = tr @ pre @ des @ post @ [api_Save_call (h_Name h)]
               @ [glog_Infof ''releasing machines lock for %q, held for %s'', Releaser_Release]
      \<and> list_all (\<lambda>e. e \<noteq> Provision_call \<and> e \<noteq> Host_ConfigureAuth_call
                          \<and> e \<noteq> glog_Infof ''configureHost: %+v'')
           (pre @ des @ post)))"
proof -
  let ?key = "lock_PathMutexSpec (P w)
                (filepath_Join (P w) [localpath_MiniPath (P w), ''machines''])"
  let ?acq = "[glog_Infof ''acquiring machines lock for %s: %+v'',
               mutex_Acquire ?key 600000000000]"
  let ?lock = "[glog_Infof ''acquiring machines lock for %s: %+v'',
               mutex_Acquire ?key 600000000000,
               glog_Infof ''acquired machines lock for %q in %s'']"
  let ?rel = "[glog_Infof ''releasing machines lock for %q, held for %s'', Releaser_Release]"
  let ?L0 = "glog_Infof ''configureHost: %+v''"
  let ?Q = "\<lambda>e. e \<noteq> Provision_call \<and> e \<noteq> Host_ConfigureAuth_call \<and> e \<noteq> ?L0"
  let ?lerr = "mutex_Acquire_result (S w)
                 (tr @ [glog_Infof ''acquiring machines lock for %s: %+v'']) ?key 600000000000"
  have a: "acquireMachinesLock w (cfg_Name cfg) tr
       = (Ret ?lerr, tr @ ?acq @ (if ?lerr = None
            then [glog_Infof ''acquired machines lock for %q in %s''] else []))"
    using acquireMachinesLock_trace[of w "cfg_Name cfg" tr] by simp
  have lerr: "?lerr = None"
  proof (rule ccontr)
    assume "?lerr \<noteq> None"
    then obtain e where "?lerr = Some e" by blast
    then have "fst (StartHost w cfg tr) = Ret (None, Some (Wrapped e ''boot lock''))"
      unfolding StartHost_def
      by (subst andThen_Ret[of "acquireMachinesLock w (cfg_Name cfg)" tr _ _, OF a])
         (simp add: ret_def)
    then show False using assms(1) by simp
  qed
  obtain exists xerr where x: "api_Exists (A w) (tr @ ?lock) (cfg_Name cfg) = (exists, xerr)"
    by (cases "api_Exists (A w) (tr @ ?lock) (cfg_Name cfg)")
  let ?tx = "tr @ ?lock @ [api_Exists_call (cfg_Name cfg)]"
  let ?tn = "?tx @ [glog_Infof ''Machine does not exist... provisioning new machine'',
                    glog_Infof ''Provisioning machine with config: %+v'']"
  obtain r t2 where s: "startExisting w cfg ?tx = (r, t2)"
    by (cases "startExisting w cfg ?tx")
  obtain rn tn2 where n: "createHost w cfg ?tn = (rn, tn2)"
    by (cases "createHost w cfg ?tn")
  have run: "StartHost w cfg tr
      = (case xerr of
           Some e \<Rightarrow> (Ret (None, Some (Wrapped e (''exists: '' @ cfg_Name cfg))),
                      ?tx @ ?rel)
         | None \<Rightarrow> if exists then (r, t2 @ ?rel) else (rn, tn2 @ ?rel))"
    unfolding StartHost_def
    apply (subst andThen_Ret[of "acquireMachinesLock w (cfg_Name cfg)" tr _ _, OF a])
    using x s n lerr by (cases xerr; cases exists; simp add: go_apply)
  have xerr: "xerr = None"
    using run assms(1) by (cases xerr) simp_all
  have part1: "(\<exists>h0 pre dr des pes d aes.
        configureHost w h0 (engineOptions w cfg) (tr @ pre)
          = (Ret (h, None),
             tr @ pre @ [glog_Infof ''configureHost: %+v''] @ des @ pes @ aes
               @ [glog_Infof ''configureHost completed within %s''])
      \<and> createRequiredDirectories w h0 (tr @ pre @ [glog_Infof ''configureHost: %+v''])
          = (Ret dr, tr @ pre @ [glog_Infof ''configureHost: %+v''] @ des)
      \<and> (cfg_DockerEnv cfg = [] \<longrightarrow> pes = [] \<and> h = h0)
      \<and> (cfg_DockerEnv cfg \<noteq> [] \<longrightarrow>
            provisionEnv w h0 (engineOptions w cfg) (tr @ pre @ [glog_Infof ''configureHost: %+v''] @ des)
              = (Ret (h, None), tr @ pre @ [glog_Infof ''configureHost: %+v''] @ des @ pes)
          \<and> Provision_call \<in> set pes)
      \<and> h_Driver h = Some d
      \<and> (driver_BareMetal (P w) (drv_DriverName d) \<longrightarrow>
            aes = [glog_Infof ''%s is a local driver, skipping auth/time setup''])
      \<and> (\<not> driver_BareMetal (P w) (drv_DriverName d) \<longrightarrow>
            (\<exists>ces.
               Host_ConfigureAuth (B w)
                 (tr @ pre @ [glog_Infof ''configureHost: %+v''] @ des @ pes
                    @ [glog_Infof ''Configuring auth for driver %s ...'']) h = None
             \<and> ensureSyncedGuestClock w h
                 (tr @ pre @ [glog_Infof ''configureHost: %+v''] @ des @ pes
                    @ [glog_Infof ''Configuring auth for driver %s ...'',
                       Host_ConfigureAuth_call])
                = (Ret None,
                   tr @ pre @ [glog_Infof ''configureHost: %+v''] @ des @ pes
                    @ [glog_Infof ''Configuring auth for driver %s ...'',
                       Host_ConfigureAuth_call]
                    @ RunSSHCommand_call ''date +%s.%N'' # ces)
             \<and> aes = [glog_Infof ''Configuring auth for driver %s ...'',
                       Host_ConfigureAuth_call, RunSSHCommand_call ''date +%s.%N''] @ ces))
      \<and> tr' = tr @ pre @ [glog_Infof ''configureHost: %+v''] @ des @ pes @ aes
               @ [glog_Infof ''configureHost completed within %s'']
               @ [glog_Infof ''releasing machines lock for %q, held for %s'', Releaser_Release])" if ex: "fst (api_Exists (A w) (tr @ ?lock) (cfg_Name cfg))"
  proof -
    from ex x have "exists" by simp
    with run xerr assms(1) have r: "r = Ret (Some h, None)" and tr': "tr' = t2 @ ?rel"
      by simp_all
    from startExisting_success[OF s[unfolded r]] obtain h0 pre0
      where c: "configureHost w h0 (engineOptions w cfg) (?tx @ pre0) = (Ret (h, None), t2)"
      by blast
    let ?pre = "?lock @ [api_Exists_call (cfg_Name cfg)] @ pre0"
    have c': "configureHost w h0 (engineOptions w cfg) (tr @ ?pre) = (Ret (h, None), t2)"
      using c by simp
    from configureHost_success_steps[OF c'] obtain dr des pes d aes where
        st: "createRequiredDirectories w h0 ((tr @ ?pre) @ [?L0])
               = (Ret dr, (tr @ ?pre) @ [?L0] @ des)"
          "Env (engineOptions w cfg) = [] \<longrightarrow> pes = [] \<and> h = h0"
          "Env (engineOptions w cfg) \<noteq> [] \<longrightarrow>
             provisionEnv w h0 (engineOptions w cfg) ((tr @ ?pre) @ [?L0] @ des)
               = (Ret (h, None), (tr @ ?pre) @ [?L0] @ des @ pes)
           \<and> Provision_call \<in> set pes"
          "h_Driver h = Some d"
          "driver_BareMetal (P w) (drv_DriverName d) \<longrightarrow>
             aes = [glog_Infof ''%s is a local driver, skipping auth/time setup'']"
          "\<not> driver_BareMetal (P w) (drv_DriverName d) \<longrightarrow>
             (\<exists>ces.
                Host_ConfigureAuth (B w)
                  ((tr @ ?pre) @ [?L0] @ des @ pes
                      @ [glog_Infof ''Configuring auth for driver %s ...'']) h = None
              \<and> ensureSyncedGuestClock w h
                  ((tr @ ?pre) @ [?L0] @ des @ pes
                      @ [glog_Infof ''Configuring auth for driver %s ...'',
                         Host_ConfigureAuth_call])
                 = (Ret None,
                    (tr @ ?pre) @ [?L0] @ des @ pes
                      @ [glog_Infof ''Configuring auth for driver %s ...'',
                         Host_ConfigureAuth_call]
                      @ RunSSHCommand_call ''date +%s.%N'' # ces)
              \<and> aes = [glog_Infof ''Configuring auth for driver %s ...'',
                        Host_ConfigureAuth_call, RunSSHCommand_call ''date +%s.%N''] @ ces)"
          "t2 = (tr @ ?pre) @ [?L0] @ des @ pes @ aes
                   @ [glog_Infof ''configureHost completed within %s'']"
      by blast
    have env: "Env (engineOptions w cfg) = cfg_DockerEnv cfg"
      by (simp add: engineOptions_def)
    show ?thesis
      apply (rule exI[of _ h0], rule exI[of _ ?pre], rule exI[of _ dr], rule exI[of _ des],
             rule exI[of _ pes], rule exI[of _ d], rule exI[of _ aes])
      using c' st tr' env by simp
  qed
  have part2: "(\<exists>pre dr des post.
        createRequiredDirectories w h (tr @ pre) = (Ret dr, tr @ pre @ des)
      \<and> (driver_BareMetal (P w) (cfg_VMDriver cfg) \<longrightarrow>
            showLocalOsRelease w (tr @ pre @ des) = (Ret (), tr @ pre @ des @ post))
      \<and> (\<not> driver_BareMetal (P w) (cfg_VMDriver cfg)
           \<and> \<not> driver_IsKIC (P w) (cfg_VMDriver cfg) \<longrightarrow>
            (\<exists>sh ces.
               showRemoteOsRelease w (h_Driver h) (tr @ pre @ des)
                 = (Ret (), tr @ pre @ des @ sh)
             \<and> ensureSyncedGuestClock w h (tr @ pre @ des @ sh)
                 = (Ret None,
                    tr @ pre @ des @ sh @ RunSSHCommand_call ''date +%s.%N'' # ces)
             \<and> post = sh @ RunSSHCommand_call ''date +%s.%N'' # ces))
      \<and> (\<not> driver_BareMetal (P w) (cfg_VMDriver cfg)
           \<and> driver_IsKIC (P w) (cfg_VMDriver cfg) \<longrightarrow> post = [])
      \<and> tr' = tr @ pre @ des @ post @ [api_Save_call (h_Name h)]
               @ [glog_Infof ''releasing machines lock for %q, held for %s'', Releaser_Release]
      \<and> list_all (\<lambda>e. e \<noteq> Provision_call \<and> e \<noteq> Host_ConfigureAuth_call
                          \<and> e \<noteq> glog_Infof ''configureHost: %+v'')
           (pre @ des @ post))" if nex: "\<not> fst (api_Exists (A w) (tr @ ?lock) (cfg_Name cfg))"
  proof -
    from nex x have "\<not> exists" by simp
    with run xerr assms(1) have rn: "rn = Ret (Some h, None)" and tr': "tr' = tn2 @ ?rel"
      by simp_all
    from createHost_success[OF n[unfolded rn]] obtain pre0 dr des post where
        st: "createRequiredDirectories w h (?tn @ pre0) = (Ret dr, ?tn @ pre0 @ des)"
          "driver_BareMetal (P w) (cfg_VMDriver cfg) \<longrightarrow>
             showLocalOsRelease w (?tn @ pre0 @ des) = (Ret (), ?tn @ pre0 @ des @ post)"
          "\<not> driver_BareMetal (P w) (cfg_VMDriver cfg)
              \<and> \<not> driver_IsKIC (P w) (cfg_VMDriver cfg) \<longrightarrow>
             (\<exists>sh ces.
                showRemoteOsRelease w (h_Driver h) (?tn @ pre0 @ des)
                  = (Ret (), ?tn @ pre0 @ des @ sh)
              \<and> ensureSyncedGuestClock w h (?tn @ pre0 @ des @ sh)
                  = (Ret None, ?tn @ pre0 @ des @ sh @ RunSSHCommand_call ''date +%s.%N'' # ces)
              \<and> post = sh @ RunSSHCommand_call ''date +%s.%N'' # ces)"
          "\<not> driver_BareMetal (P w) (cfg_VMDriver cfg)
              \<and> driver_IsKIC (P w) (cfg_VMDriver cfg) \<longrightarrow> post = []"
          "tn2 = ?tn @ pre0 @ des @ post @ [api_Save_call (h_Name h)]"
      by blast
    from noConfigure_createHost[of w cfg] obtain es
      where "snd (createHost w cfg ?tn) = ?tn @ es" and es: "list_all ?Q es"
      unfolding emits_def by blast
    with n st(5) have "es = pre0 @ des @ post @ [api_Save_call (h_Name h)]" by simp
    with es have q: "list_all ?Q (pre0 @ des @ post)" by simp
    let ?pre = "?lock @ [api_Exists_call (cfg_Name cfg),
                    glog_Infof ''Machine does not exist... provisioning new machine'',
                    glog_Infof ''Provisioning machine with config: %+v''] @ pre0"
    show ?thesis
      apply (rule exI[of _ ?pre], rule exI[of _ dr], rule exI[of _ des], rule exI[of _ post])
      using st tr' q by simp
  qed
  from part1 part2 show ?thesis by blast
qed

text \<open>
  Two runs for the virtualbox driver with an engine environment variable in the
  configuration. In the first the host exists and runs: the provisioner, the
  authentication and the clock query follow the directories, in this order. In the
  second no host exists: the directories and the clock query are there, the
  provisioner and the authentication are not.
\<close>

theorem StartHost_configure_step_witness:
  "StartHost existingWorld cfgEnv [] = (Ret (Some (hostEnv\<lparr>h_HostOptions := Some \<lparr>
        EngineOptions = Some \<lparr>Env = [''HTTP_PROXY=http://10.0.0.1:3128''],
          InsecureRegistry = [], RegistryMirror = [], ArbitraryFlags = [],
          InstallURL = []\<rparr>,
        AuthOptions = Some \<lparr>CertDir = [], StorePath = []\<rparr>,
        SwarmOptions = Some ()\<rparr>\<rparr>), None),
  [glog_Infof ''acquiring machines lock for %s: %+v'',
   mutex_Acquire ''mk/home/user/.minikube/machines'' 600000000000,
   glog_Infof ''acquired machines lock for %q in %s'',
   api_Exists_call ''minikube'',
   glog_Infof ''Skipping create...Using existing machine configuration'',
   api_Load_call ''minikube'',
   out_T ''Tip: Use minikube start -p <name> to create a new cluster, or minikube delete to delete this one.'',
   Driver_GetState_call, glog_Infof ''Machine state: '',
   out_T ''Using the running {{.driver_name}} {{.profile_name}} VM ...'',
   glog_Infof ''engine options: %+v'',
   out_T ''Waiting for the host to be provisioned ...'',
   glog_Infof ''configureHost: %+v'',
   glog_Infof ''creating required directories: %v'', NewSSHClient_call,
   RunCmd_call
    [''sudo'', ''mkdir'', ''-p'', ''/etc/kubernetes/addons'',
     ''/etc/kubernetes/manifests'', ''/var/tmp/minikube'',
     ''/var/lib/minikube'', ''/var/lib/minikube/certs'',
     ''/var/lib/minikube/images'', ''/var/lib/minikube/binaries'']
    None,
   glog_Infof ''Detecting provisioner ...'', DetectProvisioner_call,
   glog_Infof ''Provisioning with %s: %+v'', Provision_call,
   glog_Infof ''Configuring auth for driver %s ...'',
   Host_ConfigureAuth_call, RunSSHCommand_call ''date +%s.%N'',
   glog_Infof ''guest clock: %s'',
   glog_Infof ''Guest: %s Remote: %s (delta=%s)'',
   glog_Infof ''guest clock delta is within tolerance: %s'',
   glog_Infof ''configureHost completed within %s'',
   glog_Infof ''releasing machines lock for %q, held for %s'',
   Releaser_Release])
   \<and> fst (api_Exists (A existingWorld)
           ([] @ [glog_Infof ''acquiring machines lock for %s: %+v'',
            mutex_Acquire (lock_PathMutexSpec (P existingWorld)
              (filepath_Join (P existingWorld) [localpath_MiniPath (P existingWorld), ''machines'']))
              600000000000,
            glog_Infof ''acquired machines lock for %q in %s''])
           (cfg_Name cfgEnv))
   \<and> (\<exists>h0 pre dr des pes d aes.
        configureHost existingWorld h0 (engineOptions existingWorld cfgEnv) ([] @ pre)
          = (Ret ((hostEnv\<lparr>h_HostOptions := Some \<lparr>
        EngineOptions = Some \<lparr>Env = [''HTTP_PROXY=http://10.0.0.1:3128''],
          InsecureRegistry = [], RegistryMirror = [], ArbitraryFlags = [],
          InstallURL = []\<rparr>,
        AuthOptions = Some \<lparr>CertDir = [], StorePath = []\<rparr>,
        SwarmOptions = Some ()\<rparr>\<rparr>), None),
             [] @ pre @ [glog_Infof ''configureHost: %+v''] @ des @ pes @ aes
               @ [glog_Infof ''configureHost completed within %s''])
      \<and> createRequiredDirectories existingWorld h0 ([] @ pre @ [glog_Infof ''configureHost: %+v''])
          = (Ret dr, [] @ pre @ [glog_Infof ''configureHost: %+v''] @ des)
      \<and> (cfg_DockerEnv cfgEnv = [] \<longrightarrow> pes = [] \<and> (hostEnv\<lparr>h_HostOptions := Some \<lparr>
        EngineOptions = Some \<lparr>Env = [''HTTP_PROXY=http://10.0.0.1:3128''],
          InsecureRegistry = [], RegistryMirror = [], ArbitraryFlags = [],
          InstallURL = []\<rparr>,
        AuthOptions = Some \<lparr>CertDir = [], StorePath = []\<rparr>,
        SwarmOptions = Some ()\<rparr>\<rparr>) = h0)
      \<and> (cfg_DockerEnv cfgEnv \<noteq> [] \<longrightarrow>
            provisionEnv existingWorld h0 (engineOptions existingWorld cfgEnv) ([] @ pre @ [glog_Infof ''configureHost: %+v''] @ des)
              = (Ret ((hostEnv\<lparr>h_HostOptions := Some \<lparr>
        EngineOptions = Some \<lparr>Env = [''HTTP_PROXY=http://10.0.0.1:3128''],
          InsecureRegistry = [], RegistryMirror = [], ArbitraryFlags = [],
          InstallURL = []\<rparr>,
        AuthOptions = Some \<lparr>CertDir = [], StorePath = []\<rparr>,
        SwarmOptions = Some ()\<rparr>\<rparr>), None), [] @ pre @ [glog_Infof ''configureHost: %+v''] @ des @ pes)
          \<and> Provision_call \<in> set pes)
      \<and> h_Driver (hostEnv\<lparr>h_HostOptions := Some \<lparr>
        EngineOptions = Some \<lparr>Env = [''HTTP_PROXY=http://10.0.0.1:3128''],
          InsecureRegistry = [], RegistryMirror = [], ArbitraryFlags = [],
          InstallURL = []\<rparr>,
        AuthOptions = Some \<lparr>CertDir = [], StorePath = []\<rparr>,
        SwarmOptions = Some ()\<rparr>\<rparr>) = Some d
      \<and> (driver_BareMetal (P existingWorld) (drv_DriverName d) \<longrightarrow>
            aes = [glog_Infof ''%s is a local driver, skipping auth/time setup''])
      \<and> (\<not> driver_BareMetal (P existingWorld) (drv_DriverName d) \<longrightarrow>
            (\<exists>ces.
               Host_ConfigureAuth (B existingWorld)
                 ([] @ pre @ [glog_Infof ''configureHost: %+v''] @ des @ pes
                    @ [glog_Infof ''Configuring auth for driver %s ...'']) (hostEnv\<lparr>h_HostOptions := Some \<lparr>
        EngineOptions = Some \<lparr>Env = [''HTTP_PROXY=http://10.0.0.1:3128''],
          InsecureRegistry = [], RegistryMirror = [], ArbitraryFlags = [],
          InstallURL = []\<rparr>,
        AuthOptions = Some \<lparr>CertDir = [], StorePath = []\<rparr>,
        SwarmOptions = Some ()\<rparr>\<rparr>) = None
             \<and> ensureSyncedGuestClock existingWorld (hostEnv\<lparr>h_HostOptions := Some \<lparr>
        EngineOptions = Some \<lparr>Env = [''HTTP_PROXY=http://10.0.0.1:3128''],
          InsecureRegistry = [], RegistryMirror = [], ArbitraryFlags = [],
          InstallURL = []\<rparr>,
        AuthOptions = Some \<lparr>CertDir = [], StorePath = []\<rparr>,
        SwarmOptions = Some ()\<rparr>\<rparr>)
                 ([] @ pre @ [glog_Infof ''configureHost: %+v''] @ des @ pes
                    @ [glog_Infof ''Configuring auth for driver %s ...'',
                       Host_ConfigureAuth_call])
                = (Ret None,
                   [] @ pre @ [glog_Infof ''configureHost: %+v''] @ des @ pes
                    @ [glog_Infof ''Configuring auth for driver %s ...'',
                       Host_ConfigureAuth_call]
                    @ RunSSHCommand_call ''date +%s.%N'' # ces)
             \<and> aes = [glog_Infof ''Configuring auth for driver %s ...'',
                       Host_ConfigureAuth_call, RunSSHCommand_call ''date +%s.%N''] @ ces))
      \<and> [glog_Infof ''acquiring machines lock for %s: %+v'',
   mutex_Acquire ''mk/home/user/.minikube/machines'' 600000000000,
   glog_Infof ''acquired machines lock for %q in %s'',
   api_Exists_call ''minikube'',
   glog_Infof ''Skipping create...Using existing machine configuration'',
   api_Load_call ''minikube'',
   out_T ''Tip: Use minikube start -p <name> to create a new cluster, or minikube delete to delete this one.'',
   Driver_GetState_call, glog_Infof ''Machine state: '',
   out_T ''Using the running {{.driver_name}} {{.profile_name}} VM ...'',
   glog_Infof ''engine options: %+v'',
   out_T ''Waiting for the host to be provisioned ...'',
   glog_Infof ''configureHost: %+v'',
   glog_Infof ''creating required directories: %v'', NewSSHClient_call,
   RunCmd_call
    [''sudo'', ''mkdir'', ''-p'', ''/etc/kubernetes/addons'',
     ''/etc/kubernetes/manifests'', ''/var/tmp/minikube'',
     ''/var/lib/minikube'', ''/var/lib/minikube/certs'',
     ''/var/lib/minikube/images'', ''/var/lib/minikube/binaries'']
    None,
   glog_Infof ''Detecting provisioner ...'', DetectProvisioner_call,
   glog_Infof ''Provisioning with %s: %+v'', Provision_call,
   glog_Infof ''Configuring auth for driver %s ...'',
   Host_ConfigureAuth_call, RunSSHCommand_call ''date +%s.%N'',
   glog_Infof ''guest clock: %s'',
   glog_Infof ''Guest: %s Remote: %s (delta=%s)'',
   glog_Infof ''guest clock delta is within tolerance: %s'',
   glog_Infof ''configureHost completed within %s'',
   glog_Infof ''releasing machines lock for %q, held for %s'',
   Releaser_Release] = [] @ pre @ [glog_Infof ''configureHost: %+v''] @ des @ pes @ aes
               @ [glog_Infof ''configureHost completed within %s'']
               @ [glog_Infof ''releasing machines lock for %q, held for %s'', Releaser_Release])
   \<and> StartHost newHostWorld cfgEnv [] = (Ret (Some (hostEnv\<lparr>h_HostOptions := Some \<lparr>
        EngineOptions = Some (engineOptions newHostWorld cfgEnv),
        AuthOptions = Some \<lparr>CertDir = ''/home/user/.minikube'',
                              StorePath = ''/home/user/.minikube''\<rparr>,
        SwarmOptions = Some ()\<rparr>\<rparr>), None),
  [glog_Infof ''acquiring machines lock for %s: %+v'',
   mutex_Acquire ''mk/home/user/.minikube/machines'' 600000000000,
   glog_Infof ''acquired machines lock for %q in %s'',
   api_Exists_call ''minikube'',
   glog_Infof ''Machine does not exist... provisioning new machine'',
   glog_Infof ''Provisioning machine with config: %+v'',
   out_T ''Creating {{.driver_name}} VM (CPUs={{.number_of_cpus}}, Memory={{.memory_size}}MB, Disk={{.disk_size}}MB) ...'',
   registry_Driver_call ''virtualbox'', json_Marshal_call,
   api_NewHost_call ''virtualbox'', api_Create_call ''minikube'',
   glog_Infof ''creating required directories: %v'', NewSSHClient_call,
   RunCmd_call
    [''sudo'', ''mkdir'', ''-p'', ''/etc/kubernetes/addons'',
     ''/etc/kubernetes/manifests'', ''/var/tmp/minikube'',
     ''/var/lib/minikube'', ''/var/lib/minikube/certs'',
     ''/var/lib/minikube/images'', ''/var/lib/minikube/binaries'']
    None,
   DetectProvisioner_call, GetOsReleaseInfo_call,
   glog_Infof ''Provisioned with %s'', RunSSHCommand_call ''date +%s.%N'',
   glog_Infof ''guest clock: %s'',
   glog_Infof ''Guest: %s Remote: %s (delta=%s)'',
   glog_Infof ''guest clock delta is within tolerance: %s'',
   api_Save_call ''minikube'',
   glog_Infof ''releasing machines lock for %q, held for %s'',
   Releaser_Release])
   \<and> \<not> fst (api_Exists (A newHostWorld)
           ([] @ [glog_Infof ''acquiring machines lock for %s: %+v'',
            mutex_Acquire (lock_PathMutexSpec (P newHostWorld)
              (filepath_Join (P newHostWorld) [localpath_MiniPath (P newHostWorld), ''machines'']))
              600000000000,
            glog_Infof ''acquired machines lock for %q in %s''])
           (cfg_Name cfgEnv))
   \<and> (\<exists>pre dr des post.
        createRequiredDirectories newHostWorld (hostEnv\<lparr>h_HostOptions := Some \<lparr>
        EngineOptions = Some (engineOptions newHostWorld cfgEnv),
        AuthOptions = Some \<lparr>CertDir = ''/home/user/.minikube'',
                              StorePath = ''/home/user/.minikube''\<rparr>,
        SwarmOptions = Some ()\<rparr>\<rparr>) ([] @ pre) = (Ret dr, [] @ pre @ des)
      \<and> (driver_BareMetal (P newHostWorld) (cfg_VMDriver cfgEnv) \<longrightarrow>
            showLocalOsRelease newHostWorld ([] @ pre @ des) = (Ret (), [] @ pre @ des @ post))
      \<and> (\<not> driver_BareMetal (P newHostWorld) (cfg_VMDriver cfgEnv)
           \<and> \<not> driver_IsKIC (P newHostWorld) (cfg_VMDriver cfgEnv) \<longrightarrow>
            (\<exists>sh ces.
               showRemoteOsRelease newHostWorld (h_Driver (hostEnv\<lparr>h_HostOptions := Some \<lparr>
        EngineOptions = Some (engineOptions newHostWorld cfgEnv),
        AuthOptions = Some \<lparr>CertDir = ''/home/user/.minikube'',
                              StorePath = ''/home/user/.minikube''\<rparr>,
        SwarmOptions = Some ()\<rparr>\<rparr>)) ([] @ pre @ des)
                 = (Ret (), [] @ pre @ des @ sh)
             \<and> ensureSyncedGuestClock newHostWorld (hostEnv\<lparr>h_HostOptions := Some \<lparr>
        EngineOptions = Some (engineOptions newHostWorld cfgEnv),
        AuthOptions = Some \<lparr>CertDir = ''/home/user/.minikube'',
                              StorePath = ''/home/user/.minikube''\<rparr>,
        SwarmOptions = Some ()\<rparr>\<rparr>) ([] @ pre @ des @ sh)
                 = (Ret None,
                    [] @ pre @ des @ sh @ RunSSHCommand_call ''date +%s.%N'' # ces)
             \<and> post = sh @ RunSSHCommand_call ''date +%s.%N'' # ces))
      \<and> (\<not> driver_BareMetal (P newHostWorld) (cfg_VMDriver cfgEnv)
           \<and> driver_IsKIC (P newHostWorld) (cfg_VMDriver cfgEnv) \<longrightarrow> post = [])
      \<and> [glog_Infof ''acquiring machines lock for %s: %+v'',
   mutex_Acquire ''mk/home/user/.minikube/machines'' 600000000000,
   glog_Infof ''acquired machines lock for %q in %s'',
   api_Exists_call ''minikube'',
   glog_Infof ''Machine does not exist... provisioning new machine'',
   glog_Infof ''Provisioning machine with config: %+v'',
   out_T ''Creating {{.driver_name}} VM (CPUs={{.number_of_cpus}}, Memory={{.memory_size}}MB, Disk={{.disk_size}}MB) ...'',
   registry_Driver_call ''virtualbox'', json_Marshal_call,
   api_NewHost_call ''virtualbox'', api_Create_call ''minikube'',
   glog_Infof ''creating required directories: %v'', NewSSHClient_call,
   RunCmd_call
    [''sudo'', ''mkdir'', ''-p'', ''/etc/kubernetes/addons'',
     ''/etc/kubernetes/manifests'', ''/var/tmp/minikube'',
     ''/var/lib/minikube'', ''/var/lib/minikube/certs'',
     ''/var/lib/minikube/images'', ''/var/lib/minikube/binaries'']
    None,
   DetectProvisioner_call, GetOsReleaseInfo_call,
   glog_Infof ''Provisioned with %s'', RunSSHCommand_call ''date +%s.%N'',
   glog_Infof ''guest clock: %s'',
   glog_Infof ''Guest: %s Remote: %s (delta=%s)'',
   glog_Infof ''guest clock delta is within tolerance: %s'',
   api_Save_call ''minikube'',
   glog_Infof ''releasing machines lock for %q, held for %s'',
   Releaser_Release] = [] @ pre @ des @ post @ [api_Save_call (h_Name (hostEnv\<lparr>h_HostOptions := Some \<lparr>
        EngineOptions = Some (engineOptions newHostWorld cfgEnv),
        AuthOptions = Some \<lparr>CertDir = ''/home/user/.minikube'',
                              StorePath = ''/home/user/.minikube''\<rparr>,
        SwarmOptions = Some ()\<rparr>\<rparr>))]
               @ [glog_Infof ''releasing machines lock for %q, held for %s'', Releaser_Release]
      \<and> list_all (\<lambda>e. e \<noteq> Provision_call \<and> e \<noteq> Host_ConfigureAuth_call
                          \<and> e \<noteq> glog_Infof ''configureHost: %+v'')
           (pre @ des @ post))"
proof -
  have a1: "StartHost existingWorld cfgEnv [] = (Ret (Some (hostEnv\<lparr>h_HostOptions := Some \<lparr>
        EngineOptions = Some \<lparr>Env = [''HTTP_PROXY=http://10.0.0.1:3128''],
          InsecureRegistry = [], RegistryMirror = [], ArbitraryFlags = [],
          InstallURL = []\<rparr>,
        AuthOptions = Some \<lparr>CertDir = [], StorePath = []\<rparr>,
        SwarmOptions = Some ()\<rparr>\<rparr>), None),
  [glog_Infof ''acquiring machines lock for %s: %+v'',
   mutex_Acquire ''mk/home/user/.minikube/machines'' 600000000000,
   glog_Infof ''acquired machines lock for %q in %s'',
   api_Exists_call ''minikube'',
   glog_Infof ''Skipping create...Using existing machine configuration'',
   api_Load_call ''minikube'',
   out_T ''Tip: Use minikube start -p <name> to create a new cluster, or minikube delete to delete this one.'',
   Driver_GetState_call, glog_Infof ''Machine state: '',
   out_T ''Using the running {{.driver_name}} {{.profile_name}} VM ...'',
   glog_Infof ''engine options: %+v'',
   out_T ''Waiting for the host to be provisioned ...'',
   glog_Infof ''configureHost: %+v'',
   glog_Infof ''creating required directories: %v'', NewSSHClient_call,
   RunCmd_call
    [''sudo'', ''mkdir'', ''-p'', ''/etc/kubernetes/addons'',
     ''/etc/kubernetes/manifests'', ''/var/tmp/minikube'',
     ''/var/lib/minikube'', ''/var/lib/minikube/certs'',
     ''/var/lib/minikube/images'', ''/var/lib/minikube/binaries'']
    None,
   glog_Infof ''Detecting provisioner ...'', DetectProvisioner_call,
   glog_Infof ''Provisioning with %s: %+v'', Provision_call,
   glog_Infof ''Configuring auth for driver %s ...'',
   Host_ConfigureAuth_call, RunSSHCommand_call ''date +%s.%N'',
   glog_Infof ''guest clock: %s'',
   glog_Infof ''Guest: %s Remote: %s (delta=%s)'',
   glog_Infof ''guest clock delta is within tolerance: %s'',
   glog_Infof ''configureHost completed within %s'',
   glog_Infof ''releasing machines lock for %q, held for %s'',
   Releaser_Release])"
    by (simp add: start_defs start_worlds go_apply clock_defs Let_def)
  have b1: "fst (api_Exists (A existingWorld)
           ([] @ [glog_Infof ''acquiring machines lock for %s: %+v'',
            mutex_Acquire (lock_PathMutexSpec (P existingWorld)
              (filepath_Join (P existingWorld) [localpath_MiniPath (P existingWorld), ''machines'']))
              600000000000,
            glog_Infof ''acquired machines lock for %q in %s''])
           (cfg_Name cfgEnv))"
    by (simp add: start_worlds)
  have a2: "StartHost newHostWorld cfgEnv [] = (Ret (Some (hostEnv\<lparr>h_HostOptions := Some \<lparr>
        EngineOptions = Some (engineOptions newHostWorld cfgEnv),
        AuthOptions = Some \<lparr>CertDir = ''/home/user/.minikube'',
                              StorePath = ''/home/user/.minikube''\<rparr>,
        SwarmOptions = Some ()\<rparr>\<rparr>), None),
  [glog_Infof ''acquiring machines lock for %s: %+v'',
   mutex_Acquire ''mk/home/user/.minikube/machines'' 600000000000,
   glog_Infof ''acquired machines lock for %q in %s'',
   api_Exists_call ''minikube'',
   glog_Infof ''Machine does not exist... provisioning new machine'',
   glog_Infof ''Provisioning machine with config: %+v'',
   out_T ''Creating {{.driver_name}} VM (CPUs={{.number_of_cpus}}, Memory={{.memory_size}}MB, Disk={{.disk_size}}MB) ...'',
   registry_Driver_call ''virtualbox'', json_Marshal_call,
   api_NewHost_call ''virtualbox'', api_Create_call ''minikube'',
   glog_Infof ''creating required directories: %v'', NewSSHClient_call,
   RunCmd_call
    [''sudo'', ''mkdir'', ''-p'', ''/etc/kubernetes/addons'',
     ''/etc/kubernetes/manifests'', ''/var/tmp/minikube'',
     ''/var/lib/minikube'', ''/var/lib/minikube/certs'',
     ''/var/lib/minikube/images'', ''/var/lib/minikube/binaries'']
    None,
   DetectProvisioner_call, GetOsReleaseInfo_call,
   glog_Infof ''Provisioned with %s'', RunSSHCommand_call ''date +%s.%N'',
   glog_Infof ''guest clock: %s'',
   glog_Infof ''Guest: %s Remote: %s (delta=%s)'',
   glog_Infof ''guest clock delta is within tolerance: %s'',
   api_Save_call ''minikube'',
   glog_Infof ''releasing machines lock for %q, held for %s'',
   Releaser_Release])"
    by (simp add: start_defs start_worlds go_apply clock_defs Let_def)
  have b2: "\<not> fst (api_Exists (A newHostWorld)
           ([] @ [glog_Infof ''acquiring machines lock for %s: %+v'',
            mutex_Acquire (lock_PathMutexSpec (P newHostWorld)
              (filepath_Join (P newHostWorld) [localpath_MiniPath (P newHostWorld), ''machines'']))
              600000000000,
            glog_Infof ''acquired machines lock for %q in %s''])
           (cfg_Name cfgEnv))"
    by (simp add: start_worlds)
  note c1 = StartHost_configure_step[OF a1, THEN conjunct1, rule_format, OF b1]
  note c2 = StartHost_configure_step[OF a2, THEN conjunct2, rule_format, OF b2]
  show ?thesis
    by (intro conjI a1 b1 c1 a2 b2 c2)
qed

text \<open>
  C2. The host exists and runs; the command runner fails the \<open>mkdir\<close> of the required
  directories. \<open>StartHost\<close> returns the host and the nil error, and its log records
  and notifications are those of the run in which the \<open>mkdir\<close> succeeds: the failure
  is not returned, and it is not reported either.
\<close>

theorem StartHost_mkdir_failure_unreported:
  "fst (StartHost mkdirFails cfg0 []) = Ret (Some hostEnv, None)
   \<and> RunCmd_call (''sudo'' # ''mkdir'' # ''-p'' # requiredDirectories pkgs0)
        (Some (Err ''Process exited with status 1''))
       \<in> set (snd (StartHost mkdirFails cfg0 []))
   \<and> filter isReport (snd (StartHost mkdirFails cfg0 []))
       = filter isReport (snd (StartHost existingWorld cfg0 []))"
  by (simp add: start_defs start_worlds go_apply clock_defs Let_def)

end
